(* ===== verification/Prelude.thy ===== *)
theory Prelude
  imports Complex_Main
begin

text \<open>
  The JavaScript runtime as the planner's TypeScript sources use it: numbers (IEEE
  doubles, modelled as exact reals together with \<open>NaN\<close> and the two infinities),
  the truthiness of numbers and strings that guards every \<open>if\<close> and \<open>&&\<close> of the
  sources, \<open>String.prototype.trim\<close>, \<open>parseFloat\<close>, \<open>Array.prototype.filter\<close> by
  index, plain objects used as dictionaries (insertion-ordered association lists), and
  JSON values. The components import this theory; its lemmas are the shared library of
  the development and are collected in \<open>js_simps\<close>.
\<close>

named_theorems js_simps "equations of the JavaScript runtime model"

section \<open>Numbers\<close>

text \<open>
  A JavaScript number. Finite values are exact reals: the rounding of doubles is not
  modelled, so sums are exact; \<open>NaN\<close> and the infinities are kept because
  \<open>parseFloat\<close> produces them and \<open>x || 0\<close> tests for them.
\<close>

datatype jsnum = Num real | PosInf | NegInf | NaN

text \<open>
  Addition as IEEE defines it on these values: \<open>NaN\<close> absorbs, an infinity absorbs a
  finite value, opposite infinities give \<open>NaN\<close>. It is associative and commutative
  with \<open>Num 0\<close> as unit, so \<open>jsnum\<close> is a commutative monoid and the library's
  \<open>sum\<close> and \<open>sum_list\<close> apply to it.
\<close>

instantiation jsnum :: comm_monoid_add
begin

definition zero_jsnum :: jsnum where
  "zero_jsnum = Num 0"

fun plus_jsnum :: "jsnum \<Rightarrow> jsnum \<Rightarrow> jsnum" where
  "plus_jsnum (Num a) (Num b) = Num (a + b)"
| "plus_jsnum NaN _ = NaN"
| "plus_jsnum _ NaN = NaN"
| "plus_jsnum PosInf NegInf = NaN"
| "plus_jsnum NegInf PosInf = NaN"
| "plus_jsnum PosInf _ = PosInf"
| "plus_jsnum _ PosInf = PosInf"
| "plus_jsnum NegInf _ = NegInf"
| "plus_jsnum _ NegInf = NegInf"

lemma jsnum_add_assoc: "x + y + z = x + (y + (z::jsnum))"
  by (cases x; cases y; cases z) simp_all

lemma jsnum_add_commute: "x + y = y + (x::jsnum)"
  by (cases x; cases y) simp_all

lemma jsnum_add_unit: "Num 0 + x = x"
  by (cases x) simp_all

instance
proof
  fix x y z :: jsnum
  show "x + y + z = x + (y + z)" by (rule jsnum_add_assoc)
  show "x + y = y + x" by (rule jsnum_add_commute)
  show "0 + x = x" unfolding zero_jsnum_def by (rule jsnum_add_unit)
qed

end

text \<open>Subtraction \<open>a - b\<close> of two numbers.\<close>

fun js_sub :: "jsnum \<Rightarrow> jsnum \<Rightarrow> jsnum" where
  "js_sub (Num a) (Num b) = Num (a - b)"
| "js_sub NaN _ = NaN"
| "js_sub _ NaN = NaN"
| "js_sub PosInf PosInf = NaN"
| "js_sub NegInf NegInf = NaN"
| "js_sub PosInf _ = PosInf"
| "js_sub NegInf _ = NegInf"
| "js_sub _ PosInf = NegInf"
| "js_sub _ NegInf = PosInf"

text \<open>\<open>ToBoolean\<close> of a number: \<open>0\<close> and \<open>NaN\<close> are falsy.\<close>

fun num_truthy :: "jsnum \<Rightarrow> bool" where
  "num_truthy (Num r) = (r \<noteq> 0)"
| "num_truthy NaN = False"
| "num_truthy PosInf = True"
| "num_truthy NegInf = True"

text \<open>The idiom \<open>(x || 0)\<close> on a number.\<close>

definition or_zero :: "jsnum \<Rightarrow> jsnum" where
  "or_zero x = (if num_truthy x then x else 0)"

text \<open>The comparison \<open>x > 0\<close>.\<close>

fun num_positive :: "jsnum \<Rightarrow> bool" where
  "num_positive (Num r) = (0 < r)"
| "num_positive PosInf = True"
| "num_positive NegInf = False"
| "num_positive NaN = False"

section \<open>Strings\<close>

text \<open>
  Strings are HOL strings (lists of 8-bit characters); JavaScript strings are UTF-16,
  which matters only for characters outside ASCII, and no property here depends on them.
  A string is truthy when it is not empty.
\<close>

definition str_truthy :: "string \<Rightarrow> bool" where
  "str_truthy s \<longleftrightarrow> s \<noteq> []"

text \<open>
  The white space that \<open>trim\<close> and \<open>parseFloat\<close> skip: tab, line feed, vertical
  tab, form feed, carriage return and space (the Unicode space separators beyond ASCII
  are not characters of this string model).
\<close>

definition is_js_space :: "char \<Rightarrow> bool" where
  "is_js_space c \<longleftrightarrow> of_char c \<in> {9::nat, 10, 11, 12, 13, 32}"

definition js_trim :: "string \<Rightarrow> string" where
  "js_trim s = rev (dropWhile is_js_space (rev (dropWhile is_js_space s)))"

section \<open>parseFloat\<close>

definition is_digit :: "char \<Rightarrow> bool" where
  "is_digit c \<longleftrightarrow> (48::nat) \<le> of_char c \<and> of_char c \<le> (57::nat)"

definition digit_val :: "char \<Rightarrow> nat" where
  "digit_val c = of_char c - 48"

text \<open>The value of a string of decimal digits, most significant first.\<close>

definition digits_val :: "string \<Rightarrow> nat" where
  "digits_val ds = foldl (\<lambda>n d. 10 * n + digit_val d) 0 ds"

text \<open>
  The exponent part \<open>[eE][+-]?digits\<close> at the head of a string: its value, or
  \<open>0\<close> when there is none (the longest-prefix rule of \<open>parseFloat\<close> then stops
  before the \<open>e\<close>).
\<close>

definition exponent_part :: "string \<Rightarrow> int" where
  "exponent_part s =
     (case s of
        e # r \<Rightarrow>
          (if e = CHR ''e'' \<or> e = CHR ''E'' then
             (let (sg, ds) = (case r of
                                 c # r' \<Rightarrow> (if c = CHR ''-'' then (-1, r')
                                            else if c = CHR ''+'' then (1, r')
                                            else (1, r))
                               | [] \<Rightarrow> (1, r));
                  dg = takeWhile is_digit ds
              in if dg = [] then 0 else sg * int (digits_val dg))
           else 0)
      | [] \<Rightarrow> 0)"

definition scale10 :: "real \<Rightarrow> int \<Rightarrow> real" where
  "scale10 x e = (if 0 \<le> e then x * 10 ^ nat e else x / 10 ^ nat (- e))"

text \<open>
  \<open>StrUnsignedDecimalLiteral\<close> without \<open>Infinity\<close>: digits, an optional
  fraction, an optional exponent; at least one digit before or after the point.
\<close>

definition parse_unsigned :: "string \<Rightarrow> real option" where
  "parse_unsigned s =
     (let ip = takeWhile is_digit s;
          r1 = dropWhile is_digit s;
          (fp, r2) = (case r1 of
                        c # r \<Rightarrow> (if c = CHR ''.'' then (takeWhile is_digit r, dropWhile is_digit r)
                                  else ([], r1))
                      | [] \<Rightarrow> ([], r1))
      in if ip = [] \<and> fp = [] then None
         else Some (scale10 (real (digits_val ip) + real (digits_val fp) / 10 ^ length fp)
                            (exponent_part r2)))"

text \<open>
  \<open>parseFloat(s)\<close> (ECMAScript 2024, 21.1.2.12): skip leading white space, read the
  longest prefix that is a \<open>StrDecimalLiteral\<close>, \<open>NaN\<close> when there is none.
\<close>

definition parse_float :: "string \<Rightarrow> jsnum" where
  "parse_float s =
     (let t = dropWhile is_js_space s;
          (neg, r) = (case t of
                        c # r' \<Rightarrow> (if c = CHR ''-'' then (True, r')
                                   else if c = CHR ''+'' then (False, r')
                                   else (False, t))
                      | [] \<Rightarrow> (False, t))
      in if take 8 r = ''Infinity'' then (if neg then NegInf else PosInf)
         else (case parse_unsigned r of
                 None \<Rightarrow> NaN
               | Some v \<Rightarrow> Num (if neg then - v else v)))"

text \<open>
  \<open>Number.prototype.toString\<close> on a natural number: its decimal digits, most
  significant first. It is the string a user types for a whole amount.
\<close>

definition digit_char :: "nat \<Rightarrow> char" where
  "digit_char d = char_of (48 + d)"

fun decimal :: "nat \<Rightarrow> string" where
  "decimal n = (if n < 10 then [digit_char n] else decimal (n div 10) @ [digit_char (n mod 10)])"

section \<open>Number::toString\<close>

text \<open>
  ECMAScript's \<open>Number::toString(x)\<close> (6.1.6.1.20) for a finite \<open>x\<close>: write
  \<open>|x| = s \<times> 10^(n - k)\<close> with \<open>s\<close> a \<open>k\<close>-digit integer not divisible by 10, then
  print \<open>s\<close> padded with zeros (\<open>k \<le> n \<le> 21\<close>), with a decimal point inside
  (\<open>0 < n \<le> 21\<close>), after \<open>0.\<close> and zeros (\<open>-6 < n \<le> 0\<close>), or in exponent form.
  A number of the model is an exact real read from decimal text (or a sum or
  difference of such), so its decimal expansion terminates; \<open>dec_scale\<close> finds its
  length, searching up to 40 fractional digits.
\<close>

definition int_string :: "int \<Rightarrow> string" where
  "int_string i = (if i < 0 then CHR ''-'' # decimal (nat (- i)) else decimal (nat i))"

fun dec_scale :: "nat \<Rightarrow> real \<Rightarrow> nat" where
  "dec_scale 0 x = 0"
| "dec_scale (Suc f) x = (if x = of_int \<lfloor>x\<rfloor> then 0 else Suc (dec_scale f (10 * x)))"

fun strip_zeros :: "nat \<Rightarrow> nat \<times> nat" where
  "strip_zeros m =
     (if m \<noteq> 0 \<and> m mod 10 = 0 then (let (m', z) = strip_zeros (m div 10) in (m', Suc z)) else (m, 0))"

definition number_string_pos :: "real \<Rightarrow> string" where
  "number_string_pos x =
     (let e = dec_scale 40 x;
          (m, z) = strip_zeros (nat \<lfloor>x * 10 ^ e\<rfloor>);
          s = decimal m; k = int (length s); n = int z - int e + k
      in if k \<le> n \<and> n \<le> 21 then s @ replicate (nat (n - k)) CHR ''0''
         else if 0 < n \<and> n \<le> 21 then take (nat n) s @ ''.'' @ drop (nat n) s
         else if - 6 < n \<and> n \<le> 0 then ''0.'' @ replicate (nat (- n)) CHR ''0'' @ s
         else (let ex = n - 1;
                   es = (if ex < 0 then CHR ''-'' else CHR ''+'') # decimal (nat \<bar>ex\<bar>)
               in if k = 1 then s @ CHR ''e'' # es else hd s # CHR ''.'' # tl s @ CHR ''e'' # es))"

definition number_string :: "real \<Rightarrow> string" where
  "number_string x =
     (if x = 0 then ''0'' else if x < 0 then CHR ''-'' # number_string_pos (- x) else number_string_pos x)"

text \<open>\<open>ToString\<close> of any number, as a template literal \<open>${x}\<close> writes it.\<close>

fun jsnum_string :: "jsnum \<Rightarrow> string" where
  "jsnum_string (Num r) = number_string r"
| "jsnum_string PosInf = ''Infinity''"
| "jsnum_string NegInf = ''-Infinity''"
| "jsnum_string NaN = ''NaN''"

section \<open>Arrays\<close>

text \<open>\<open>xs.filter((_, i) => i !== index)\<close>: the element at \<open>index\<close> removed.\<close>

definition remove_at :: "nat \<Rightarrow> 'a list \<Rightarrow> 'a list" where
  "remove_at index xs = map fst (filter (\<lambda>(_, i). i \<noteq> index) (zip xs [0..<length xs]))"

section \<open>Plain objects used as dictionaries\<close>

text \<open>
  A plain object \<open>Record<string, V>\<close> is an association list in property order.
  \<open>{...m, [k]: v}\<close> keeps an existing key at its position and appends a new one;
  \<open>delete m[k]\<close> removes it; \<open>Object.values\<close> lists the values in that order.
  (JavaScript orders array-index keys such as \<open>"42"\<close> before the others; the order
  only affects the display, since the values are summed.)
\<close>

type_synonym 'v obj = "(string \<times> 'v) list"

fun obj_set :: "'v obj \<Rightarrow> string \<Rightarrow> 'v \<Rightarrow> 'v obj" where
  "obj_set [] k v = [(k, v)]"
| "obj_set ((k', v') # ps) k v = (if k' = k then (k, v) # ps else (k', v') # obj_set ps k v)"

definition obj_delete :: "'v obj \<Rightarrow> string \<Rightarrow> 'v obj" where
  "obj_delete m k = filter (\<lambda>(k', _). k' \<noteq> k) m"

definition obj_values :: "'v obj \<Rightarrow> 'v list" where
  "obj_values m = map snd m"

definition obj_wf :: "'v obj \<Rightarrow> bool" where
  "obj_wf m \<longleftrightarrow> distinct (map fst m)"

section \<open>JSON values\<close>

text \<open>
  The values \<open>JSON.parse\<close> produces and \<open>JSON.stringify\<close> consumes. Objects keep
  their property order. Numbers are finite (\<open>JSON.stringify\<close> writes \<open>NaN\<close> and
  the infinities as \<open>null\<close>).
\<close>

datatype json =
    JNull
  | JBool bool
  | JNumber real
  | JString string
  | JArray "json list"
  | JObject "(string \<times> json) list"

text \<open>\<open>ToBoolean\<close> of a JSON value.\<close>

fun json_truthy :: "json \<Rightarrow> bool" where
  "json_truthy JNull = False"
| "json_truthy (JBool b) = b"
| "json_truthy (JNumber r) = (r \<noteq> 0)"
| "json_truthy (JString s) = (s \<noteq> [])"
| "json_truthy (JArray _) = True"
| "json_truthy (JObject _) = True"

text \<open>A number as \<open>JSON.stringify\<close> writes it.\<close>

fun num_json :: "jsnum \<Rightarrow> json" where
  "num_json (Num r) = JNumber r"
| "num_json _ = JNull"

text \<open>
  Property access \<open>v.k\<close> on a parsed JSON value: an object's binding of \<open>k\<close>
  (\<open>JSON.parse\<close> keeps the last of duplicate keys), \<open>None\<close> (\<open>undefined\<close>)
  otherwise. Access on \<open>null\<close> throws; the callers test for \<open>JNull\<close> first.
\<close>

fun json_get :: "json \<Rightarrow> string \<Rightarrow> json option" where
  "json_get (JObject ps) k = map_of (rev ps) k"
| "json_get _ k = None"

text \<open>\<open>Array.prototype.join(sep)\<close> on strings.\<close>

fun js_join :: "string \<Rightarrow> string list \<Rightarrow> string" where
  "js_join sep [] = []"
| "js_join sep [x] = x"
| "js_join sep (x # xs) = x @ sep @ js_join sep xs"

text \<open>Lines of a multi-line template literal, joined by line feeds.\<close>

definition text_lines :: "string list \<Rightarrow> string" where
  "text_lines ls = js_join [CHR 0x0A] ls"

text \<open>\<open>Response.ok\<close> of the fetch API: a status in 200..299.\<close>

definition http_ok :: "nat \<Rightarrow> bool" where
  "http_ok st = (200 \<le> st \<and> st \<le> 299)"

text \<open>
  \<open>String(v)\<close> of a JSON value: an array joins its elements with commas
  (\<open>null\<close> elements as empty strings), an object is \<open>[object Object]\<close>.
\<close>

fun js_string_of :: "json \<Rightarrow> string" where
  "js_string_of JNull = ''null''"
| "js_string_of (JBool b) = (if b then ''true'' else ''false'')"
| "js_string_of (JNumber r) = number_string r"
| "js_string_of (JString s) = s"
| "js_string_of (JArray xs) =
     js_join '','' (map (\<lambda>x. if x = JNull then [] else js_string_of x) xs)"
| "js_string_of (JObject _) = ''[object Object]''"

section \<open>Facts of the runtime model\<close>

subsection \<open>Numbers\<close>

lemma jsnum_zero_Num [js_simps]: "(0::jsnum) = Num 0"
  by (simp add: zero_jsnum_def)

lemma or_zero_simps [simp, js_simps]:
  "or_zero (Num r) = Num r"
  "or_zero NaN = Num 0"
  "or_zero PosInf = PosInf"
  "or_zero NegInf = NegInf"
  by (simp_all add: or_zero_def jsnum_zero_Num)

lemma or_zero_not_NaN [js_simps]: "or_zero x \<noteq> NaN"
  by (cases x) simp_all

subsection \<open>Strings\<close>

lemma str_truthy_simps [simp, js_simps]:
  "str_truthy [] = False"
  "str_truthy (c # s) = True"
  by (simp_all add: str_truthy_def)

lemma all_set_dropWhile: "(\<forall>x \<in> set (dropWhile P s). P x) \<longleftrightarrow> (\<forall>x \<in> set s. P x)"
  by (induction s) auto

lemma js_trim_empty_iff [js_simps]:
  "js_trim s = [] \<longleftrightarrow> (\<forall>c \<in> set s. is_js_space c)"
  by (simp add: js_trim_def all_set_dropWhile)

lemma set_js_trim: "set (js_trim s) \<subseteq> set s"
  unfolding js_trim_def
  by (metis set_dropWhileD set_rev subsetI)

lemma rev_dropWhile_rev_prefix: "\<exists>w. u = rev (dropWhile P (rev u)) @ w"
proof -
  have "rev u = takeWhile P (rev u) @ dropWhile P (rev u)" by simp
  then have "u = rev (dropWhile P (rev u)) @ rev (takeWhile P (rev u))"
    by (metis rev_append rev_rev_ident)
  then show ?thesis by blast
qed

lemma dropWhile_prefix_self:
  assumes "u = t @ w" and "u = dropWhile P v"
  shows "dropWhile P t = t"
proof (cases t)
  case Nil
  then show ?thesis by simp
next
  case (Cons a l)
  with assms have "dropWhile P v \<noteq> []" and "hd (dropWhile P v) = a" by auto
  then have "\<not> P a" by (metis hd_dropWhile)
  with Cons show ?thesis by simp
qed

text \<open>Trimming a trimmed string changes nothing.\<close>

lemma js_trim_idem [simp, js_simps]: "js_trim (js_trim s) = js_trim s"
proof -
  define u where "u = dropWhile is_js_space s"
  define t where "t = rev (dropWhile is_js_space (rev u))"
  obtain w where "u = t @ w" unfolding t_def using rev_dropWhile_rev_prefix by blast
  then have front: "dropWhile is_js_space t = t" using u_def by (rule dropWhile_prefix_self)
  have rear: "dropWhile is_js_space (rev t) = rev t"
    by (simp add: t_def dropWhile_eq_self_iff hd_dropWhile)
  from front rear show ?thesis by (simp add: js_trim_def u_def[symmetric] t_def[symmetric])
qed

lemmas float_defs = parse_float_def parse_unsigned_def is_js_space_def is_digit_def
  digits_val_def digit_val_def exponent_part_def scale10_def js_trim_def

subsection \<open>parseFloat and decimal numerals\<close>

declare decimal.simps [simp del]

lemma of_char_digit_char: "d < 10 \<Longrightarrow> of_char (digit_char d) = 48 + d"
  by (simp add: digit_char_def)

lemma is_digit_digit_char: "d < 10 \<Longrightarrow> is_digit (digit_char d)"
  by (simp add: is_digit_def of_char_digit_char)

lemma digit_val_digit_char: "d < 10 \<Longrightarrow> digit_val (digit_char d) = d"
  by (simp add: digit_val_def of_char_digit_char)

lemma digits_val_snoc: "digits_val (ds @ [d]) = 10 * digits_val ds + digit_val d"
  by (simp add: digits_val_def)

lemma decimal_ne: "decimal n \<noteq> []"
  by (subst decimal.simps) simp

lemma decimal_digits: "\<forall>c \<in> set (decimal n). is_digit c"
proof (induction n rule: decimal.induct)
  case (1 n)
  then show ?case
    by (subst decimal.simps) (auto simp: is_digit_digit_char)
qed

lemma digits_val_decimal: "digits_val (decimal n) = n"
proof (induction n rule: decimal.induct)
  case (1 n)
  show ?case
  proof (cases "n < 10")
    case True
    then show ?thesis
      by (subst decimal.simps) (simp add: digits_val_def digit_val_digit_char)
  next
    case False
    with "1.IH" show ?thesis
      by (subst decimal.simps) (simp add: digits_val_snoc digit_val_digit_char)
  qed
qed

lemma digit_not_space: "is_digit c \<Longrightarrow> \<not> is_js_space c"
  by (auto simp: is_digit_def is_js_space_def)

lemma parse_float_digits:
  assumes ne: "ds \<noteq> []" and dig: "\<forall>c \<in> set ds. is_digit c"
  shows "parse_float ds = Num (real (digits_val ds))"
proof -
  obtain c r where ds: "ds = c # r" using ne by (cases ds) auto
  have c: "is_digit c" using dig ds by simp
  have sp: "dropWhile is_js_space ds = ds"
    using ds c digit_not_space by simp
  have sign: "c \<noteq> CHR ''-''" "c \<noteq> CHR ''+''" using c by (auto simp: is_digit_def)
  have inf: "take 8 ds \<noteq> ''Infinity''" using c ds by (auto simp: is_digit_def)
  have tw: "takeWhile is_digit ds = ds" and dw: "dropWhile is_digit ds = []"
    using dig by (simp_all add: takeWhile_eq_all_conv dropWhile_eq_Nil_conv)
  have "parse_unsigned ds = Some (real (digits_val ds))"
    using ne by (simp add: parse_unsigned_def tw dw exponent_part_def scale10_def digits_val_def)
  then show ?thesis
    using sp sign inf ds by (simp add: parse_float_def)
qed

lemma parse_float_decimal: "parse_float (decimal n) = Num (real n)"
  using parse_float_digits[OF decimal_ne decimal_digits] by (simp add: digits_val_decimal)

subsection \<open>Arrays\<close>

text \<open>Evaluation of \<open>Number::toString\<close> on integers by the simplifier.\<close>

lemma digit_char_eq: "of_char c = 48 + d \<Longrightarrow> digit_char d = c"
  unfolding digit_char_def by (metis char_of_char)

lemma digit_char_simps [simp]:
  "digit_char 0 = CHR ''0''" "digit_char 1 = CHR ''1''" "digit_char (Suc 0) = CHR ''1''"
  "digit_char 2 = CHR ''2''" "digit_char 3 = CHR ''3''" "digit_char 4 = CHR ''4''"
  "digit_char 5 = CHR ''5''" "digit_char 6 = CHR ''6''" "digit_char 7 = CHR ''7''"
  "digit_char 8 = CHR ''8''" "digit_char 9 = CHR ''9''"
  by (rule digit_char_eq, simp)+

lemma replicate_numeral [simp]: "replicate (numeral n) x = x # replicate (pred_numeral n) x"
  by (simp add: numeral_eq_Suc)

lemma dec_scale_numeral [simp]: "dec_scale f (numeral n) = 0"
  by (cases f) simp_all

lemmas number_defs = number_string_def number_string_pos_def decimal.simps

text \<open>
  \<open>Number::toString\<close> on a whole number below \<open>10^21\<close> is its decimal numeral:
  \<open>dec_scale\<close> stops at once, \<open>strip_zeros\<close> splits off the trailing zeros that the
  first branch pads back.
\<close>

lemma decimal_times10: "m \<noteq> 0 \<Longrightarrow> decimal (10 * m) = decimal m @ ''0''"
  by (subst decimal.simps) simp

lemma decimal_pow10: "m \<noteq> 0 \<Longrightarrow> decimal (m * 10 ^ z) = decimal m @ replicate z CHR ''0''"
proof (induction z)
  case 0
  then show ?case by simp
next
  case (Suc z)
  have "decimal (m * 10 ^ Suc z) = decimal (10 * (m * 10 ^ z))" by (simp add: ac_simps)
  also have "\<dots> = decimal m @ replicate (Suc z) CHR ''0''"
    using Suc by (simp add: decimal_times10 replicate_append_same)
  finally show ?case .
qed

lemma length_decimal_le: "0 < L \<Longrightarrow> n < 10 ^ L \<Longrightarrow> length (decimal n) \<le> L"
proof (induction n arbitrary: L rule: decimal.induct)
  case (1 n)
  show ?case
  proof (cases "n < 10")
    case True
    then show ?thesis using "1.prems" by (subst decimal.simps) simp
  next
    case False
    then obtain L' where L: "L = Suc L'" using "1.prems" by (cases L) auto
    have "0 < L'"
    proof (rule ccontr)
      assume "\<not> 0 < L'"
      then show False using False "1.prems" L by simp
    qed
    moreover have "n div 10 < 10 ^ L'" using "1.prems" L by (simp add: less_mult_imp_div_less mult.commute)
    ultimately have "length (decimal (n div 10)) \<le> L'" using "1.IH" False by blast
    then show ?thesis using False L by (subst decimal.simps) simp
  qed
qed

lemma strip_zeros_eq: "strip_zeros n = (m, z) \<Longrightarrow> n = m * 10 ^ z \<and> (n \<noteq> 0 \<longrightarrow> m \<noteq> 0)"
proof (induction n arbitrary: m z rule: strip_zeros.induct)
  case (1 n)
  show ?case
  proof (cases "n \<noteq> 0 \<and> n mod 10 = 0")
    case True
    obtain m' z' where r: "strip_zeros (n div 10) = (m', z')" by fastforce
    have "strip_zeros n = (m', Suc z')" using r True by (subst strip_zeros.simps) (simp del: strip_zeros.simps)
    then have mz: "m = m'" "z = Suc z'" using "1.prems" by simp_all
    have "n div 10 = m' * 10 ^ z' \<and> (n div 10 \<noteq> 0 \<longrightarrow> m' \<noteq> 0)" using "1.IH"[OF True r] .
    moreover have "n = 10 * (n div 10)" "n div 10 \<noteq> 0" using True by auto
    ultimately show ?thesis using mz by (simp add: mult.commute mult.left_commute)
  next
    case False
    then have "strip_zeros n = (n, 0)" by (subst strip_zeros.simps) (auto simp del: strip_zeros.simps)
    then show ?thesis using "1.prems" False by auto
  qed
qed

lemma dec_scale_of_nat [simp]: "dec_scale f (real n) = 0"
  by (cases f) simp_all

lemma number_string_nat: "n < 10 ^ 21 \<Longrightarrow> number_string (real n) = decimal n"
proof (cases "n = 0")
  case True
  then show ?thesis by (simp add: number_string_def decimal.simps)
next
  case False
  assume lt: "n < 10 ^ 21"
  obtain m z where mz: "strip_zeros n = (m, z)" by fastforce
  then have n: "n = m * 10 ^ z" and m: "m \<noteq> 0" using strip_zeros_eq False by blast+
  have dn: "decimal n = decimal m @ replicate z CHR ''0''" using n m decimal_pow10 by simp
  have "length (decimal n) \<le> 21" using lt by (intro length_decimal_le) simp_all
  then have len: "length (decimal m) + z \<le> 21" using dn by simp
  have fl: "nat \<lfloor>real n * 10 ^ dec_scale 40 (real n)\<rfloor> = n" by simp
  define k where "k = int (length (decimal m))"
  have c: "k \<le> int z - int (dec_scale 40 (real n)) + k \<and> int z - int (dec_scale 40 (real n)) + k \<le> 21"
    using len by (simp add: k_def)
  have r: "nat (int z - int (dec_scale 40 (real n)) + k - k) = z" by simp
  have "number_string_pos (real n) = decimal m @ replicate z CHR ''0''"
    unfolding number_string_pos_def Let_def fl mz prod.case k_def[symmetric] r by (rule if_P[OF c])
  then show ?thesis using False dn by (simp add: number_string_def)
qed

lemma number_string_int: "\<bar>i\<bar> < 10 ^ 21 \<Longrightarrow> number_string (of_int i) = int_string i"
proof (cases "0 \<le> i")
  case True
  assume "\<bar>i\<bar> < 10 ^ 21"
  then have "nat i < 10 ^ 21" using True by (simp add: nat_less_iff)
  then show ?thesis using True number_string_nat[of "nat i"] by (simp add: int_string_def)
next
  case False
  assume "\<bar>i\<bar> < 10 ^ 21"
  then have lt: "nat (- i) < 10 ^ 21" using False by (simp add: nat_less_iff)
  have eq: "(of_int (- i) :: real) = real (nat (- i))" using False by simp
  have "number_string_pos (real (nat (- i))) = decimal (nat (- i))"
    using number_string_nat[OF lt] False by (simp add: number_string_def)
  then show ?thesis using False eq by (simp add: number_string_def int_string_def)
qed

lemma or_zero_Num [js_simps]: "or_zero (Num r) = Num r"
  by (simp add: or_zero_def js_simps)

lemma remove_at_from:
  "map fst (filter (\<lambda>(_, i). i \<noteq> index) (zip xs [k..<k + length xs])) =
     (if index < k then xs else take (index - k) xs @ drop (Suc (index - k)) xs)"
proof (induction xs arbitrary: k)
  case Nil
  then show ?case by simp
next
  case (Cons x xs)
  have "[k..<k + length (x # xs)] = k # [Suc k..<Suc k + length xs]"
    by (simp add: upt_rec)
  then show ?case
    using Cons.IH[of "Suc k"]
    by (auto simp: Suc_diff_Suc take_Cons' drop_Cons' not_less)
qed

lemma remove_at_conv: "remove_at i xs = take i xs @ drop (Suc i) xs"
  using remove_at_from[of i xs 0] by (simp add: remove_at_def)

lemma set_remove_at_subset [js_simps]: "set (remove_at i xs) \<subseteq> set xs"
  by (auto simp: remove_at_conv dest: in_set_takeD in_set_dropD)

lemma length_remove_at [js_simps]:
  "length (remove_at i xs) = (if i < length xs then length xs - 1 else length xs)"
  by (simp add: remove_at_conv)

lemma foldl_plus_sum_list: "foldl (\<lambda>acc v. acc + v) a xs = a + sum_list (xs :: 'a::comm_monoid_add list)"
  by (induction xs arbitrary: a) (simp_all add: add.assoc)

subsection \<open>Plain objects used as dictionaries\<close>

lemma keys_obj_set [simp, js_simps]: "fst ` set (obj_set m k v) = insert k (fst ` set m)"
  by (induction m) (force simp: image_iff)+

lemma keys_obj_delete [simp, js_simps]: "fst ` set (obj_delete m k) = fst ` set m - {k}"
  by (auto simp: obj_delete_def)

lemma obj_wf_empty [simp, js_simps]: "obj_wf []"
  by (simp add: obj_wf_def)

lemma obj_wf_obj_set [js_simps]: "obj_wf m \<Longrightarrow> obj_wf (obj_set m k v)"
  by (induction m) (auto simp: obj_wf_def)

lemma obj_wf_obj_delete [js_simps]: "obj_wf m \<Longrightarrow> obj_wf (obj_delete m k)"
  by (simp add: obj_wf_def obj_delete_def distinct_map_filter)

text \<open>The dictionary an object stands for: \<open>map_of\<close>, its first binding of each key.\<close>

lemma map_of_obj_set [js_simps]: "map_of (obj_set m k v) = (map_of m)(k \<mapsto> v)"
  by (induction m) (auto simp: fun_upd_twist)

lemma map_of_obj_delete [js_simps]: "map_of (obj_delete m k) = (map_of m)(k := None)"
  by (induction m) (auto simp: obj_delete_def fun_upd_twist)

text \<open>On a well-formed object the sum of its values is the sum over its keys.\<close>

lemma sum_list_values_dom:
  "obj_wf m \<Longrightarrow>
     sum_list (obj_values m) = (\<Sum>k \<in> dom (map_of m). the (map_of m k))"
proof (induction m)
  case Nil
  then show ?case by (simp add: obj_values_def)
next
  case (Cons p ps)
  obtain k v where p: "p = (k, v)" by (cases p)
  from Cons.prems p have k: "k \<notin> dom (map_of ps)" and wf: "obj_wf ps"
    by (auto simp: obj_wf_def dom_map_of_conv_image_fst)
  have dom: "dom (map_of (p # ps)) = insert k (dom (map_of ps))"
    by (simp add: p)
  have cong: "(\<Sum>k' \<in> dom (map_of ps). the (map_of (p # ps) k')) =
              (\<Sum>k' \<in> dom (map_of ps). the (map_of ps k'))"
    using k p by (intro sum.cong) auto
  have "(\<Sum>k' \<in> dom (map_of (p # ps)). the (map_of (p # ps) k')) =
        v + (\<Sum>k' \<in> dom (map_of ps). the (map_of (p # ps) k'))"
  proof -
    have "the (map_of ((k, v) # ps) k) = v" by simp
    then show ?thesis
      unfolding dom using k p by (simp add: sum.insert[OF finite_dom_map_of k] del: map_of.simps)
  qed
  with cong Cons.IH[OF wf] p show ?case
    by (simp add: obj_values_def del: map_of.simps)
qed

end
