(* ===== verification/FormData.thy ===== *)
theory FormData
  imports Prelude
begin

text \<open>
  The answer set of the planner (\<open>src/src/App.tsx\<close>): the \<open>FormData\<close> type as a
  record, its initial value, \<open>handleChange\<close> (the single writer of the answer set,
  which every step component calls through its \<open>onChange\<close> prop) and the five
  completion gates of \<open>isStepValid\<close>. The main facts: \<open>handleChange\<close> writes
  exactly the named field, and the gate of a step reads only the fields that step's
  component edits, so an edit on one step never changes the gate of another.
\<close>

section \<open>The answer set\<close>

record form_data =
  has_decided :: bool
  habits_to_cut :: string
  new_version_description :: string
  motivation_fuel :: string
  fuel_description :: string
  daily_fuel_reminder :: string
  dream_day :: string
  dream_week :: string
  ideal_living :: string
  monthly_costs :: "jsnum obj"
  current_expenses :: jsnum
  dream_expenses :: jsnum
  daily_focus :: "string list"
  things_to_cut :: "string list"
  environment_changes :: string
  progress_tracking_method :: string
  daily_wins :: "string list"
  daily_planning_routine :: string
  action_commitment :: string
  additional_thoughts :: string

definition initial_form_data :: form_data where
  "initial_form_data =
     \<lparr>has_decided = False, habits_to_cut = [], new_version_description = [],
      motivation_fuel = [], fuel_description = [], daily_fuel_reminder = [],
      dream_day = [], dream_week = [], ideal_living = [],
      monthly_costs = [], current_expenses = Num 0, dream_expenses = Num 0,
      daily_focus = [], things_to_cut = [], environment_changes = [],
      progress_tracking_method = [], daily_wins = [], daily_planning_routine = [],
      action_commitment = [], additional_thoughts = []\<rparr>"

section \<open>handleChange\<close>

text \<open>
  \<open>handleChange(field, value)\<close> takes a field name and a value of that field's type;
  the pair is a constructor of \<open>field_value\<close>, one per key of \<open>FormData\<close>.
\<close>

datatype field_value =
    Set_has_decided bool
  | Set_habits_to_cut string
  | Set_new_version_description string
  | Set_motivation_fuel string
  | Set_fuel_description string
  | Set_daily_fuel_reminder string
  | Set_dream_day string
  | Set_dream_week string
  | Set_ideal_living string
  | Set_monthly_costs "jsnum obj"
  | Set_current_expenses jsnum
  | Set_dream_expenses jsnum
  | Set_daily_focus "string list"
  | Set_things_to_cut "string list"
  | Set_environment_changes string
  | Set_progress_tracking_method string
  | Set_daily_wins "string list"
  | Set_daily_planning_routine string
  | Set_action_commitment string
  | Set_additional_thoughts string

text \<open>
  \<open>{ ...prev, [field]: value }\<close>. For the two expense fields the source also computes
  \<open>gap = (dream || 0) - (current || 0)\<close> and then returns \<open>{ ...updated }\<close>
  without it: the gap is not stored, which the \<open>let\<close> below keeps visible.
\<close>

fun handleChange :: "form_data \<Rightarrow> field_value \<Rightarrow> form_data" where
  "handleChange prev (Set_has_decided v) = prev\<lparr>has_decided := v\<rparr>"
| "handleChange prev (Set_habits_to_cut v) = prev\<lparr>habits_to_cut := v\<rparr>"
| "handleChange prev (Set_new_version_description v) = prev\<lparr>new_version_description := v\<rparr>"
| "handleChange prev (Set_motivation_fuel v) = prev\<lparr>motivation_fuel := v\<rparr>"
| "handleChange prev (Set_fuel_description v) = prev\<lparr>fuel_description := v\<rparr>"
| "handleChange prev (Set_daily_fuel_reminder v) = prev\<lparr>daily_fuel_reminder := v\<rparr>"
| "handleChange prev (Set_dream_day v) = prev\<lparr>dream_day := v\<rparr>"
| "handleChange prev (Set_dream_week v) = prev\<lparr>dream_week := v\<rparr>"
| "handleChange prev (Set_ideal_living v) = prev\<lparr>ideal_living := v\<rparr>"
| "handleChange prev (Set_monthly_costs v) = prev\<lparr>monthly_costs := v\<rparr>"
| "handleChange prev (Set_current_expenses v) =
     (let updated = prev\<lparr>current_expenses := v\<rparr>;
          gap = js_sub (or_zero (dream_expenses updated)) (or_zero (current_expenses updated))
      in updated)"
| "handleChange prev (Set_dream_expenses v) =
     (let updated = prev\<lparr>dream_expenses := v\<rparr>;
          gap = js_sub (or_zero (dream_expenses updated)) (or_zero (current_expenses updated))
      in updated)"
| "handleChange prev (Set_daily_focus v) = prev\<lparr>daily_focus := v\<rparr>"
| "handleChange prev (Set_things_to_cut v) = prev\<lparr>things_to_cut := v\<rparr>"
| "handleChange prev (Set_environment_changes v) = prev\<lparr>environment_changes := v\<rparr>"
| "handleChange prev (Set_progress_tracking_method v) = prev\<lparr>progress_tracking_method := v\<rparr>"
| "handleChange prev (Set_daily_wins v) = prev\<lparr>daily_wins := v\<rparr>"
| "handleChange prev (Set_daily_planning_routine v) = prev\<lparr>daily_planning_routine := v\<rparr>"
| "handleChange prev (Set_action_commitment v) = prev\<lparr>action_commitment := v\<rparr>"
| "handleChange prev (Set_additional_thoughts v) = prev\<lparr>additional_thoughts := v\<rparr>"

text \<open>
  The step whose component calls \<open>onChange\<close> with a field: \<open>FormStep1\<close> to
  \<open>FormStep5\<close> each receive the fields of one group (their \<open>data\<close> prop types).
\<close>

fun field_step :: "field_value \<Rightarrow> nat" where
  "field_step (Set_has_decided _) = 1"
| "field_step (Set_habits_to_cut _) = 1"
| "field_step (Set_new_version_description _) = 1"
| "field_step (Set_motivation_fuel _) = 2"
| "field_step (Set_fuel_description _) = 2"
| "field_step (Set_daily_fuel_reminder _) = 2"
| "field_step (Set_dream_day _) = 3"
| "field_step (Set_dream_week _) = 3"
| "field_step (Set_ideal_living _) = 3"
| "field_step (Set_monthly_costs _) = 3"
| "field_step (Set_current_expenses _) = 3"
| "field_step (Set_dream_expenses _) = 3"
| "field_step (Set_daily_focus _) = 4"
| "field_step (Set_things_to_cut _) = 4"
| "field_step (Set_environment_changes _) = 4"
| "field_step (Set_progress_tracking_method _) = 5"
| "field_step (Set_daily_wins _) = 5"
| "field_step (Set_daily_planning_routine _) = 5"
| "field_step (Set_action_commitment _) = 5"
| "field_step (Set_additional_thoughts _) = 5"

section \<open>isStepValid\<close>

text \<open>
  The gate of each step, as \<open>isStepValid\<close> computes it for \<open>currentStep\<close>: a chain
  of \<open>&&\<close> whose truthiness decides \<open>disabled={!isStepValid()}\<close>. Strings are
  tested for non-emptiness, arrays by \<open>length > 0\<close>; any other step gives \<open>false\<close>.
\<close>

fun isStepValid :: "nat \<Rightarrow> form_data \<Rightarrow> bool" where
  "isStepValid currentStep fd =
     (if currentStep = 1 then
        has_decided fd \<and> str_truthy (habits_to_cut fd) \<and> str_truthy (new_version_description fd)
      else if currentStep = 2 then
        str_truthy (motivation_fuel fd) \<and> str_truthy (fuel_description fd)
        \<and> str_truthy (daily_fuel_reminder fd)
      else if currentStep = 3 then
        str_truthy (dream_day fd) \<and> str_truthy (dream_week fd) \<and> str_truthy (ideal_living fd)
      else if currentStep = 4 then
        0 < length (daily_focus fd) \<and> 0 < length (things_to_cut fd)
        \<and> str_truthy (environment_changes fd)
      else if currentStep = 5 then
        str_truthy (progress_tracking_method fd) \<and> 0 < length (daily_wins fd)
        \<and> str_truthy (daily_planning_routine fd) \<and> str_truthy (action_commitment fd)
      else False)"

text \<open>
  The group of fields that step \<open>k\<close>'s component edits, the other fields reset to
  their initial values: the part of the answer set that belongs to step \<open>k\<close>.
\<close>

definition group_of :: "nat \<Rightarrow> form_data \<Rightarrow> form_data" where
  "group_of k data =
     (if k = 1 then initial_form_data\<lparr>has_decided := has_decided data,
        habits_to_cut := habits_to_cut data, new_version_description := new_version_description data\<rparr>
      else if k = 2 then initial_form_data\<lparr>motivation_fuel := motivation_fuel data,
        fuel_description := fuel_description data, daily_fuel_reminder := daily_fuel_reminder data\<rparr>
      else if k = 3 then initial_form_data\<lparr>dream_day := dream_day data,
        dream_week := dream_week data, ideal_living := ideal_living data,
        monthly_costs := monthly_costs data, current_expenses := current_expenses data,
        dream_expenses := dream_expenses data\<rparr>
      else if k = 4 then initial_form_data\<lparr>daily_focus := daily_focus data,
        things_to_cut := things_to_cut data, environment_changes := environment_changes data\<rparr>
      else if k = 5 then initial_form_data\<lparr>progress_tracking_method := progress_tracking_method data,
        daily_wins := daily_wins data, daily_planning_routine := daily_planning_routine data,
        action_commitment := action_commitment data, additional_thoughts := additional_thoughts data\<rparr>
      else initial_form_data)"

declare isStepValid.simps [simp del]

section \<open>Facts\<close>

lemma handleChange_frame [simp]:
  "monthly_costs (handleChange fd f) =
     (case f of Set_monthly_costs v \<Rightarrow> v | _ \<Rightarrow> monthly_costs fd)"
  "dream_expenses (handleChange fd f) =
     (case f of Set_dream_expenses v \<Rightarrow> v | _ \<Rightarrow> dream_expenses fd)"
  "current_expenses (handleChange fd f) =
     (case f of Set_current_expenses v \<Rightarrow> v | _ \<Rightarrow> current_expenses fd)"
  by (cases f; simp add: Let_def)+

text \<open>
  An edit issued by the component of step \<open>field_step f\<close> leaves the fields of every
  other step unchanged, and the gate of a step reads only its own fields.
\<close>

lemma handleChange_group_other:
  "field_step f \<noteq> k \<Longrightarrow> group_of k (handleChange data f) = group_of k data"
  by (cases f) (auto simp: group_of_def Let_def)

lemma isStepValid_group: "isStepValid k (group_of k data) = isStepValid k data"
  by (auto simp: isStepValid.simps group_of_def initial_form_data_def)

lemma isStepValid_same_group:
  "group_of k d1 = group_of k d2 \<Longrightarrow> isStepValid k d1 = isStepValid k d2"
  by (metis isStepValid_group)

lemma group_of_selectors:
  "monthly_costs (group_of 3 d) = monthly_costs d"
  "dream_expenses (group_of 3 d) = dream_expenses d"
  "daily_focus (group_of 4 d) = daily_focus d"
  "things_to_cut (group_of 4 d) = things_to_cut d"
  "daily_wins (group_of 5 d) = daily_wins d"
  by (simp_all add: group_of_def)

lemma group_3_fields:
  "group_of 3 d1 = group_of 3 d2 \<Longrightarrow>
     monthly_costs d1 = monthly_costs d2 \<and> dream_expenses d1 = dream_expenses d2"
  by (metis group_of_selectors(1,2))

lemma group_4_5_fields:
  "group_of 4 d1 = group_of 4 d2 \<Longrightarrow> daily_focus d1 = daily_focus d2 \<and> things_to_cut d1 = things_to_cut d2"
  "group_of 5 d1 = group_of 5 d2 \<Longrightarrow> daily_wins d1 = daily_wins d2"
  by (metis group_of_selectors(3,4), metis group_of_selectors(5))

lemma isStepValid_range: "isStepValid k fd \<Longrightarrow> 1 \<le> k \<and> k \<le> 5"
  by (auto simp: isStepValid.simps split: if_splits)

lemma field_step_range: "1 \<le> field_step f \<and> field_step f \<le> 5"
  by (cases f) simp_all

end
