(* ===== verification/Steps.thy ===== *)
theory Steps
  imports FormData
begin

text \<open>
  The five step components \<open>src/src/components/FormStep1.tsx\<close> to
  \<open>FormStep5.tsx\<close>. Each renders the fields of one group of the answer set and calls
  \<open>onChange\<close> (that is, \<open>handleChange\<close>) when the user edits one. Steps 3 to 5
  also keep local React state: the text of the "new item" inputs, cleared after an item
  is added. A user interaction with a component is a \<open>step_event\<close>; \<open>step_handler\<close>
  runs the component's handler for it on the local state and the answer set.
  The facts: the handlers of a step only change fields of that step; step 3 keeps the
  dream-expense total equal to the sum of the cost items (and the items well formed);
  the list editors append trimmed, non-empty items and remove by index.
\<close>

section \<open>FormStep1: the decision\<close>

datatype step1_event =
    Check_decided bool
  | Type_habits string
  | Type_new_version string

text \<open>The \<open>onChange\<close> of the checkbox and of the two text areas.\<close>

fun formStep1 :: "step1_event \<Rightarrow> form_data \<Rightarrow> form_data" where
  "formStep1 (Check_decided checked) data = handleChange data (Set_has_decided checked)"
| "formStep1 (Type_habits v) data = handleChange data (Set_habits_to_cut v)"
| "formStep1 (Type_new_version v) data = handleChange data (Set_new_version_description v)"

section \<open>FormStep2: the motivation fuel\<close>

text \<open>The three radio buttons and the \<open>value\<close> each one sends.\<close>

datatype fuel = Pain | Pleasure | Both

fun fuel_value :: "fuel \<Rightarrow> string" where
  "fuel_value Pain = ''pain''"
| "fuel_value Pleasure = ''pleasure''"
| "fuel_value Both = ''both''"

datatype step2_event =
    Pick_fuel fuel
  | Type_fuel_description string
  | Type_fuel_reminder string

fun formStep2 :: "step2_event \<Rightarrow> form_data \<Rightarrow> form_data" where
  "formStep2 (Pick_fuel f) data = handleChange data (Set_motivation_fuel (fuel_value f))"
| "formStep2 (Type_fuel_description v) data = handleChange data (Set_fuel_description v)"
| "formStep2 (Type_fuel_reminder v) data = handleChange data (Set_daily_fuel_reminder v)"

section \<open>FormStep3: the dream life and its costs\<close>

record step3_locals =
  newCostItem :: string
  newCostAmount :: string

text \<open>\<open>Object.values(updatedCosts).reduce((sum, val) => sum + val, 0)\<close>.\<close>

definition cost_total :: "jsnum obj \<Rightarrow> jsnum" where
  "cost_total updatedCosts = foldl (\<lambda>sum val. sum + val) 0 (obj_values updatedCosts)"

text \<open>
  \<open>addCostItem\<close> calls \<open>onChange\<close> twice; \<open>handleChange\<close> updates the state
  functionally (\<open>setFormData(prev => ...)\<close>), so the two writes apply in order.
\<close>

definition addCostItem :: "step3_locals \<Rightarrow> form_data \<Rightarrow> step3_locals \<times> form_data" where
  "addCostItem loc data =
     (if str_truthy (newCostItem loc) \<and> str_truthy (newCostAmount loc) then
        (let updatedCosts = obj_set (monthly_costs data) (newCostItem loc)
                                    (parse_float (newCostAmount loc));
             data1 = handleChange data (Set_monthly_costs updatedCosts);
             total = cost_total updatedCosts;
             data2 = handleChange data1 (Set_dream_expenses total)
         in (loc\<lparr>newCostItem := [], newCostAmount := []\<rparr>, data2))
      else (loc, data))"

definition removeCostItem :: "string \<Rightarrow> form_data \<Rightarrow> form_data" where
  "removeCostItem key data =
     (let updatedCosts = obj_delete (monthly_costs data) key;
          data1 = handleChange data (Set_monthly_costs updatedCosts);
          total = cost_total updatedCosts
      in handleChange data1 (Set_dream_expenses total))"

definition handleCurrentExpensesChange :: "string \<Rightarrow> form_data \<Rightarrow> form_data" where
  "handleCurrentExpensesChange value data =
     (let num = or_zero (parse_float value)
      in handleChange data (Set_current_expenses num))"

text \<open>The gap the component displays: \<open>(dream || 0) - (current || 0)\<close>.\<close>

definition financialGap :: "form_data \<Rightarrow> jsnum" where
  "financialGap data = js_sub (or_zero (dream_expenses data)) (or_zero (current_expenses data))"

datatype step3_event =
    Type_dream_day string
  | Type_dream_week string
  | Type_ideal_living string
  | Click_remove_cost string
  | Type_cost_item string
  | Type_cost_amount string
  | Click_add_cost
  | Type_current_expenses string

fun formStep3 :: "step3_event \<Rightarrow> step3_locals \<Rightarrow> form_data \<Rightarrow> step3_locals \<times> form_data" where
  "formStep3 (Type_dream_day v) loc data = (loc, handleChange data (Set_dream_day v))"
| "formStep3 (Type_dream_week v) loc data = (loc, handleChange data (Set_dream_week v))"
| "formStep3 (Type_ideal_living v) loc data = (loc, handleChange data (Set_ideal_living v))"
| "formStep3 (Click_remove_cost key) loc data = (loc, removeCostItem key data)"
| "formStep3 (Type_cost_item v) loc data = (loc\<lparr>newCostItem := v\<rparr>, data)"
| "formStep3 (Type_cost_amount v) loc data = (loc\<lparr>newCostAmount := v\<rparr>, data)"
| "formStep3 Click_add_cost loc data = addCostItem loc data"
| "formStep3 (Type_current_expenses v) loc data = (loc, handleCurrentExpensesChange v data)"

section \<open>FormStep4: focus and environment\<close>

record step4_locals =
  newFocusItem :: string
  newCutItem :: string

definition addFocusItem :: "step4_locals \<Rightarrow> form_data \<Rightarrow> step4_locals \<times> form_data" where
  "addFocusItem loc data =
     (if str_truthy (js_trim (newFocusItem loc)) then
        (loc\<lparr>newFocusItem := []\<rparr>,
         handleChange data (Set_daily_focus (daily_focus data @ [js_trim (newFocusItem loc)])))
      else (loc, data))"

definition removeFocusItem :: "nat \<Rightarrow> form_data \<Rightarrow> form_data" where
  "removeFocusItem index data = handleChange data (Set_daily_focus (remove_at index (daily_focus data)))"

definition addCutItem :: "step4_locals \<Rightarrow> form_data \<Rightarrow> step4_locals \<times> form_data" where
  "addCutItem loc data =
     (if str_truthy (js_trim (newCutItem loc)) then
        (loc\<lparr>newCutItem := []\<rparr>,
         handleChange data (Set_things_to_cut (things_to_cut data @ [js_trim (newCutItem loc)])))
      else (loc, data))"

definition removeCutItem :: "nat \<Rightarrow> form_data \<Rightarrow> form_data" where
  "removeCutItem index data = handleChange data (Set_things_to_cut (remove_at index (things_to_cut data)))"

text \<open>Pressing Enter in an item input runs the same handler as its "Add" button.\<close>

datatype step4_event =
    Click_remove_focus nat
  | Type_focus_item string
  | Click_add_focus
  | Click_remove_cut nat
  | Type_cut_item string
  | Click_add_cut
  | Type_environment string

fun formStep4 :: "step4_event \<Rightarrow> step4_locals \<Rightarrow> form_data \<Rightarrow> step4_locals \<times> form_data" where
  "formStep4 (Click_remove_focus i) loc data = (loc, removeFocusItem i data)"
| "formStep4 (Type_focus_item v) loc data = (loc\<lparr>newFocusItem := v\<rparr>, data)"
| "formStep4 Click_add_focus loc data = addFocusItem loc data"
| "formStep4 (Click_remove_cut i) loc data = (loc, removeCutItem i data)"
| "formStep4 (Type_cut_item v) loc data = (loc\<lparr>newCutItem := v\<rparr>, data)"
| "formStep4 Click_add_cut loc data = addCutItem loc data"
| "formStep4 (Type_environment v) loc data = (loc, handleChange data (Set_environment_changes v))"

section \<open>FormStep5: momentum\<close>

record step5_locals =
  newWinItem :: string

definition addWinItem :: "step5_locals \<Rightarrow> form_data \<Rightarrow> step5_locals \<times> form_data" where
  "addWinItem loc data =
     (if str_truthy (js_trim (newWinItem loc)) then
        (loc\<lparr>newWinItem := []\<rparr>,
         handleChange data (Set_daily_wins (daily_wins data @ [js_trim (newWinItem loc)])))
      else (loc, data))"

definition removeWinItem :: "nat \<Rightarrow> form_data \<Rightarrow> form_data" where
  "removeWinItem index data = handleChange data (Set_daily_wins (remove_at index (daily_wins data)))"

datatype step5_event =
    Type_tracking string
  | Click_remove_win nat
  | Type_win_item string
  | Click_add_win
  | Type_planning string
  | Type_commitment string
  | Type_additional string

fun formStep5 :: "step5_event \<Rightarrow> step5_locals \<Rightarrow> form_data \<Rightarrow> step5_locals \<times> form_data" where
  "formStep5 (Type_tracking v) loc data = (loc, handleChange data (Set_progress_tracking_method v))"
| "formStep5 (Click_remove_win i) loc data = (loc, removeWinItem i data)"
| "formStep5 (Type_win_item v) loc data = (loc\<lparr>newWinItem := v\<rparr>, data)"
| "formStep5 Click_add_win loc data = addWinItem loc data"
| "formStep5 (Type_planning v) loc data = (loc, handleChange data (Set_daily_planning_routine v))"
| "formStep5 (Type_commitment v) loc data = (loc, handleChange data (Set_action_commitment v))"
| "formStep5 (Type_additional v) loc data = (loc, handleChange data (Set_additional_thoughts v))"

section \<open>The mounted step component\<close>

text \<open>
  The local state of the step components (only the one on screen is mounted; the
  others hold their initial, empty state), and an interaction with one of them.
\<close>

record step_locals =
  locals3 :: step3_locals
  locals4 :: step4_locals
  locals5 :: step5_locals

definition empty_locals :: step_locals where
  "empty_locals =
     \<lparr>locals3 = \<lparr>newCostItem = [], newCostAmount = []\<rparr>,
      locals4 = \<lparr>newFocusItem = [], newCutItem = []\<rparr>,
      locals5 = \<lparr>newWinItem = []\<rparr>\<rparr>"

datatype step_event =
    Step1 step1_event
  | Step2 step2_event
  | Step3 step3_event
  | Step4 step4_event
  | Step5 step5_event

fun event_step :: "step_event \<Rightarrow> nat" where
  "event_step (Step1 _) = 1"
| "event_step (Step2 _) = 2"
| "event_step (Step3 _) = 3"
| "event_step (Step4 _) = 4"
| "event_step (Step5 _) = 5"

fun step_handler :: "step_event \<Rightarrow> step_locals \<Rightarrow> form_data \<Rightarrow> step_locals \<times> form_data" where
  "step_handler (Step1 e) loc data = (loc, formStep1 e data)"
| "step_handler (Step2 e) loc data = (loc, formStep2 e data)"
| "step_handler (Step3 e) loc data =
     (let (l, d) = formStep3 e (locals3 loc) data in (loc\<lparr>locals3 := l\<rparr>, d))"
| "step_handler (Step4 e) loc data =
     (let (l, d) = formStep4 e (locals4 loc) data in (loc\<lparr>locals4 := l\<rparr>, d))"
| "step_handler (Step5 e) loc data =
     (let (l, d) = formStep5 e (locals5 loc) data in (loc\<lparr>locals5 := l\<rparr>, d))"

section \<open>Invariants of the step components\<close>

text \<open>
  The cost invariant of \<open>FormStep3\<close>: the cost items have distinct keys and the
  dream-expense total is the \<open>reduce\<close> of their values.
\<close>

definition costs_consistent :: "form_data \<Rightarrow> bool" where
  "costs_consistent data \<longleftrightarrow>
     obj_wf (monthly_costs data) \<and> dream_expenses data = cost_total (monthly_costs data)"

text \<open>The list editors store only trimmed, non-empty items.\<close>

definition items_ok :: "string list \<Rightarrow> bool" where
  "items_ok xs \<longleftrightarrow> (\<forall>x \<in> set xs. str_truthy x \<and> js_trim x = x)"

definition lists_ok :: "form_data \<Rightarrow> bool" where
  "lists_ok data \<longleftrightarrow> items_ok (daily_focus data) \<and> items_ok (things_to_cut data) \<and> items_ok (daily_wins data)"

section \<open>Example inputs\<close>

text \<open>An answer set with two cost items, \<open>Rent\<close> at 1500 and \<open>Mortgage\<close> at 2000.\<close>

definition demo_costs_data :: form_data where
  "demo_costs_data =
     initial_form_data\<lparr>monthly_costs := [(''Rent'', Num 1500)], dream_expenses := Num 1500\<rparr>"

definition demo_two_costs :: form_data where
  "demo_two_costs =
     initial_form_data\<lparr>monthly_costs := [(''Rent'', Num 1500), (''Mortgage'', Num 2000)],
                       dream_expenses := Num 3500\<rparr>"

section \<open>Facts\<close>

lemmas step_defs = addCostItem_def removeCostItem_def handleCurrentExpensesChange_def
  addFocusItem_def removeFocusItem_def addCutItem_def removeCutItem_def
  addWinItem_def removeWinItem_def

lemma cost_total_sum_list: "cost_total m = sum_list (obj_values m)"
  by (simp add: cost_total_def foldl_plus_sum_list)

text \<open>
  Refinement of the total: on well-formed cost items the \<open>reduce\<close> over
  \<open>Object.values\<close> is the sum over the dictionary's keys, whatever the key order.
\<close>

lemma cost_total_refines:
  "obj_wf m \<Longrightarrow> cost_total m = (\<Sum>k \<in> dom (map_of m). the (map_of m k))"
  by (simp add: cost_total_sum_list sum_list_values_dom)

text \<open>Each component writes only the fields of its own step.\<close>

lemma formStep1_group: "k \<noteq> 1 \<Longrightarrow> group_of k (formStep1 e data) = group_of k data"
  by (cases e) (simp_all add: handleChange_group_other del: handleChange.simps)

lemma formStep2_group: "k \<noteq> 2 \<Longrightarrow> group_of k (formStep2 e data) = group_of k data"
  by (cases e) (simp_all add: handleChange_group_other del: handleChange.simps)

lemma formStep3_group: "k \<noteq> 3 \<Longrightarrow> group_of k (snd (formStep3 e l data)) = group_of k data"
  by (cases e) (simp_all add: step_defs Let_def handleChange_group_other del: handleChange.simps)

lemma formStep4_group: "k \<noteq> 4 \<Longrightarrow> group_of k (snd (formStep4 e l data)) = group_of k data"
  by (cases e) (simp_all add: step_defs handleChange_group_other del: handleChange.simps)

lemma formStep5_group: "k \<noteq> 5 \<Longrightarrow> group_of k (snd (formStep5 e l data)) = group_of k data"
  by (cases e) (simp_all add: step_defs handleChange_group_other del: handleChange.simps)

lemma step_handler_group:
  "event_step e \<noteq> k \<Longrightarrow> group_of k (snd (step_handler e loc data)) = group_of k data"
  by (cases e)
     (simp_all add: formStep1_group formStep2_group formStep3_group formStep4_group
                    formStep5_group case_prod_beta)

lemma step_handler_other_gate:
  "event_step e \<noteq> k \<Longrightarrow> isStepValid k (snd (step_handler e loc data)) = isStepValid k data"
  by (rule isStepValid_same_group[OF step_handler_group])

lemma costs_consistent_initial: "costs_consistent initial_form_data"
  by (simp add: costs_consistent_def initial_form_data_def cost_total_def obj_values_def jsnum_zero_Num)

lemma costs_consistent_group:
  assumes "group_of 3 d1 = group_of 3 d2"
  shows "costs_consistent d1 = costs_consistent d2"
proof -
  from group_3_fields[OF assms] have "monthly_costs d1 = monthly_costs d2"
    and "dream_expenses d1 = dream_expenses d2" by simp_all
  then show ?thesis by (simp add: costs_consistent_def)
qed

lemma formStep3_costs_consistent:
  "costs_consistent data \<Longrightarrow> costs_consistent (snd (formStep3 e l data))"
  by (cases e) (auto simp: costs_consistent_def step_defs Let_def obj_wf_obj_set obj_wf_obj_delete)

lemma step_handler_costs_consistent:
  assumes "costs_consistent data"
  shows "costs_consistent (snd (step_handler e loc data))"
proof (cases "event_step e = 3")
  case True
  then obtain e3 where "e = Step3 e3" by (cases e) auto
  with assms show ?thesis by (simp add: formStep3_costs_consistent case_prod_beta)
next
  case False
  with assms show ?thesis using costs_consistent_group[OF step_handler_group[OF False]] by simp
qed

lemma items_ok_append_trim:
  "items_ok xs \<Longrightarrow> str_truthy (js_trim s) \<Longrightarrow> items_ok (xs @ [js_trim s])"
  by (simp add: items_ok_def)

lemma items_ok_remove_at: "items_ok xs \<Longrightarrow> items_ok (remove_at i xs)"
  using set_remove_at_subset by (fastforce simp: items_ok_def)

lemma lists_ok_groups:
  assumes "group_of 4 d1 = group_of 4 d2" and "group_of 5 d1 = group_of 5 d2"
  shows "lists_ok d1 = lists_ok d2"
proof -
  from group_4_5_fields(1)[OF assms(1)] group_4_5_fields(2)[OF assms(2)]
  have "daily_focus d1 = daily_focus d2" "things_to_cut d1 = things_to_cut d2"
    "daily_wins d1 = daily_wins d2" by simp_all
  then show ?thesis by (simp add: lists_ok_def)
qed

lemma formStep4_lists_ok: "lists_ok data \<Longrightarrow> lists_ok (snd (formStep4 e l data))"
  by (cases e) (auto simp: lists_ok_def step_defs items_ok_append_trim items_ok_remove_at)

lemma formStep5_lists_ok: "lists_ok data \<Longrightarrow> lists_ok (snd (formStep5 e l data))"
  by (cases e) (auto simp: lists_ok_def step_defs items_ok_append_trim items_ok_remove_at)

lemma step_handler_lists_ok:
  assumes "lists_ok data"
  shows "lists_ok (snd (step_handler e loc data))"
proof (cases "event_step e = 4 \<or> event_step e = 5")
  case True
  then consider (four) e4 where "e = Step4 e4" | (five) e5 where "e = Step5 e5"
    by (cases e) auto
  then show ?thesis
  proof cases
    case four
    with assms show ?thesis by (simp add: formStep4_lists_ok case_prod_beta)
  next
    case five
    with assms show ?thesis by (simp add: formStep5_lists_ok case_prod_beta)
  qed
next
  case False
  then have "group_of 4 (snd (step_handler e loc data)) = group_of 4 data"
    and "group_of 5 (snd (step_handler e loc data)) = group_of 5 data"
    by (simp_all add: step_handler_group)
  then have "lists_ok (snd (step_handler e loc data)) = lists_ok data"
    by (rule lists_ok_groups)
  with assms show ?thesis by simp
qed

lemma lists_ok_initial: "lists_ok initial_form_data"
  by (simp add: lists_ok_def items_ok_def initial_form_data_def)

section \<open>Properties of the step components\<close>

text \<open>
  C8. Adding a cost item refines a dictionary update: with a name and an amount typed,
  the cost items afterwards are the old dictionary with the name bound to
  \<open>parseFloat(amount)\<close> (a new name added, an existing one overwritten), the dream
  total is the sum over the resulting dictionary, and both inputs are cleared.
\<close>

theorem addCostItem_refines:
  assumes wf: "obj_wf (monthly_costs data)"
    and item: "str_truthy (newCostItem loc)" and amount: "str_truthy (newCostAmount loc)"
  shows "map_of (monthly_costs (snd (addCostItem loc data))) =
           (map_of (monthly_costs data))(newCostItem loc \<mapsto> parse_float (newCostAmount loc)) \<and>
         dream_expenses (snd (addCostItem loc data)) =
           (\<Sum>k \<in> dom (map_of (monthly_costs (snd (addCostItem loc data)))).
               the (map_of (monthly_costs (snd (addCostItem loc data))) k)) \<and>
         fst (addCostItem loc data) = loc\<lparr>newCostItem := [], newCostAmount := []\<rparr>"
proof -
  let ?costs = "obj_set (monthly_costs data) (newCostItem loc) (parse_float (newCostAmount loc))"
  have res: "addCostItem loc data =
     (loc\<lparr>newCostItem := [], newCostAmount := []\<rparr>,
      data\<lparr>monthly_costs := ?costs, dream_expenses := cost_total ?costs\<rparr>)"
    using item amount by (simp add: addCostItem_def Let_def)
  have "obj_wf ?costs" using wf by (rule obj_wf_obj_set)
  then show ?thesis by (simp add: res map_of_obj_set cost_total_refines)
qed

theorem addCostItem_refines_witness:
  "obj_wf (monthly_costs demo_costs_data) \<and> str_truthy ''Mortgage'' \<and> str_truthy ''2000'' \<and>
   map_of (monthly_costs (snd (addCostItem \<lparr>newCostItem = ''Mortgage'', newCostAmount = ''2000''\<rparr>
                                            demo_costs_data)))
     = [''Rent'' \<mapsto> Num 1500, ''Mortgage'' \<mapsto> Num 2000] \<and>
   dream_expenses (snd (addCostItem \<lparr>newCostItem = ''Mortgage'', newCostAmount = ''2000''\<rparr>
                                    demo_costs_data)) = Num 3500"
proof -
  let ?loc = "\<lparr>newCostItem = ''Mortgage'', newCostAmount = ''2000''\<rparr>"
  have wf: "obj_wf (monthly_costs demo_costs_data)"
    by (simp add: demo_costs_data_def obj_wf_def)
  have p: "parse_float ''2000'' = Num 2000" by (simp add: float_defs)
  have "map_of (monthly_costs (snd (addCostItem ?loc demo_costs_data))) =
          (map_of (monthly_costs demo_costs_data))(''Mortgage'' \<mapsto> parse_float ''2000'') \<and>
        dream_expenses (snd (addCostItem ?loc demo_costs_data)) =
          (\<Sum>k \<in> dom (map_of (monthly_costs (snd (addCostItem ?loc demo_costs_data)))).
             the (map_of (monthly_costs (snd (addCostItem ?loc demo_costs_data))) k))"
    using addCostItem_refines[OF wf, of ?loc] by simp
  then show ?thesis using wf p by (simp add: demo_costs_data_def)
qed

text \<open>
  C9. Removing a cost item refines a dictionary deletion: the name is unbound afterwards
  and the dream total is the sum over what remains.
\<close>

theorem removeCostItem_refines:
  assumes wf: "obj_wf (monthly_costs data)"
  shows "map_of (monthly_costs (removeCostItem key data)) = (map_of (monthly_costs data))(key := None) \<and>
         dream_expenses (removeCostItem key data) =
           (\<Sum>k \<in> dom (map_of (monthly_costs (removeCostItem key data))).
               the (map_of (monthly_costs (removeCostItem key data)) k))"
proof -
  have "obj_wf (obj_delete (monthly_costs data) key)" using wf by (rule obj_wf_obj_delete)
  then show ?thesis
    by (simp add: removeCostItem_def Let_def map_of_obj_delete cost_total_refines)
qed

theorem removeCostItem_refines_witness:
  "obj_wf (monthly_costs demo_two_costs) \<and>
   map_of (monthly_costs (removeCostItem ''Rent'' demo_two_costs)) = [''Mortgage'' \<mapsto> Num 2000] \<and>
   dream_expenses (removeCostItem ''Rent'' demo_two_costs) = Num 2000"
proof -
  have wf: "obj_wf (monthly_costs demo_two_costs)"
    by (simp add: demo_two_costs_def obj_wf_def)
  show ?thesis
    using removeCostItem_refines[OF wf, of "''Rent''"] wf
    by (simp add: demo_two_costs_def fun_upd_twist)
qed

text \<open>
  C10. The displayed gap is dream minus current expenses, negative when the current
  expenses exceed the dream ones (no clamping).
\<close>

theorem financialGap_difference:
  "dream_expenses data = Num d \<Longrightarrow> current_expenses data = Num c \<Longrightarrow>
     financialGap data = Num (d - c)"
  by (simp add: financialGap_def)

theorem financialGap_difference_witness:
  "dream_expenses (initial_form_data\<lparr>dream_expenses := Num 5000, current_expenses := Num 6000\<rparr>) = Num 5000 \<and>
   current_expenses (initial_form_data\<lparr>dream_expenses := Num 5000, current_expenses := Num 6000\<rparr>) = Num 6000 \<and>
   financialGap (initial_form_data\<lparr>dream_expenses := Num 5000, current_expenses := Num 6000\<rparr>) = Num (-1000)"
  using financialGap_difference[of "initial_form_data\<lparr>dream_expenses := Num 5000, current_expenses := Num 6000\<rparr>" 5000 6000]
  by simp

text \<open>
  C11. Typing the decimal numeral of a whole amount up to \<open>2^53\<close> (where every integer
  is a double, so \<open>parseFloat\<close> is exact) into "Current monthly expenses" stores
  exactly that amount and changes nothing else of the answer set.
\<close>

theorem current_expenses_decimal:
  "n \<le> 2 ^ 53 \<Longrightarrow> handleCurrentExpensesChange (decimal n) data = data\<lparr>current_expenses := Num (real n)\<rparr>"
  by (simp add: handleCurrentExpensesChange_def parse_float_decimal or_zero_Num)

lemma current_expenses_decimal_witness:
  "handleCurrentExpensesChange ''6000'' initial_form_data = initial_form_data\<lparr>current_expenses := Num 6000\<rparr>"
  using current_expenses_decimal[of 6000 initial_form_data] by (simp add: decimal.simps)

text \<open>
  C12. An entry that \<open>parseFloat\<close> cannot read (an empty or non-numeric field) stores
  \<open>0\<close>, through \<open>|| 0\<close>, rather than \<open>NaN\<close>.
\<close>

theorem current_expenses_unparsable:
  "parse_float value = NaN \<Longrightarrow> current_expenses (handleCurrentExpensesChange value data) = Num 0"
  by (simp add: handleCurrentExpensesChange_def)

theorem current_expenses_unparsable_witness:
  "parse_float ''abc'' = NaN \<and>
   current_expenses (handleCurrentExpensesChange ''abc'' initial_form_data) = Num 0"
proof -
  have "parse_float ''abc'' = NaN" by (simp add: float_defs)
  then show ?thesis using current_expenses_unparsable by simp
qed

text \<open>
  C13. A blank focus item (empty or only white space) is not added: the list and the
  input are left as they are.
\<close>

theorem blank_focus_item_ignored:
  "\<forall>c \<in> set (newFocusItem loc). is_js_space c \<Longrightarrow> addFocusItem loc data = (loc, data)"
  by (simp add: addFocusItem_def js_trim_empty_iff str_truthy_def)

theorem blank_focus_item_ignored_witness:
  "is_js_space (CHR '' '') \<and>
   addFocusItem \<lparr>newFocusItem = ''  '', newCutItem = []\<rparr> initial_form_data
     = (\<lparr>newFocusItem = ''  '', newCutItem = []\<rparr>, initial_form_data)"
proof -
  have sp: "is_js_space (CHR '' '')" by (simp add: is_js_space_def)
  then have "\<forall>c \<in> set ''  ''. is_js_space c" by simp
  then show ?thesis
    using sp blank_focus_item_ignored[of "\<lparr>newFocusItem = ''  '', newCutItem = []\<rparr>"] by simp
qed

text \<open>
  C14. Removing the focus item at a position shown on screen deletes exactly that
  item and keeps the others in order.
\<close>

theorem removeFocusItem_at:
  "i < length (daily_focus data) \<Longrightarrow>
     daily_focus (removeFocusItem i data) = take i (daily_focus data) @ drop (Suc i) (daily_focus data)"
  by (simp add: removeFocusItem_def remove_at_conv)

theorem removeFocusItem_at_witness:
  "1 < length [''gym'', ''read'', ''walk''] \<and>
   daily_focus (removeFocusItem 1 (initial_form_data\<lparr>daily_focus := [''gym'', ''read'', ''walk'']\<rparr>))
     = [''gym'', ''walk'']"
  using removeFocusItem_at[of 1 "initial_form_data\<lparr>daily_focus := [''gym'', ''read'', ''walk'']\<rparr>"]
  by simp

end
