(* ===== verification/Wizard.thy ===== *)
theory Wizard
  imports Steps
begin

text \<open>
  The wizard controller, the \<open>App\<close> component of \<open>src/src/App.tsx\<close>: its React state
  as the record \<open>app_state\<close>, each user interaction (and the settling of the
  asynchronous submission) as a \<open>ui_event\<close>, and \<open>app_step\<close> running the handler
  of an event. An event on a control that is not rendered, or that is rendered
  \<open>disabled\<close>, does nothing, as a click on a disabled button does nothing; these
  guards come from the JSX of \<open>App\<close>. \<open>reachable\<close> is the set of states a session
  can reach from the initial render.

  The main facts, by rule induction over \<open>reachable\<close>: the step counter stays in
  \<open>1..5\<close>; every step before the current one passes its gate; the cost total stays
  consistent; a submission is in flight exactly while \<open>isAnalyzing\<close> holds, and the
  answer set it carries passes all five gates and comes with a non-empty key.
\<close>

section \<open>State\<close>

definition totalSteps :: nat where
  "totalSteps = 5"

text \<open>
  The answer set and key that an in-flight \<open>handleSubmit\<close> captured when it was
  called (its closure reads \<open>formData\<close> and \<open>apiKey\<close> of that render).
\<close>

record pending_submit =
  sub_formData :: form_data
  sub_apiKey :: string

record app_state =
  currentStep :: nat
  isAnalyzing :: bool
  analysis :: json
  error :: string
  apiKey :: string
  showApiKeyInput :: bool
  formData :: form_data
  locals :: step_locals
  pending :: "pending_submit option"

definition initial_app :: app_state where
  "initial_app =
     \<lparr>currentStep = 1, isAnalyzing = False, analysis = JNull, error = [], apiKey = [],
      showApiKeyInput = False, formData = initial_form_data, locals = empty_locals,
      pending = None\<rparr>"

text \<open>\<open>if (analysis) return <ActionPlan .../>\<close>: the wizard is replaced by the results.\<close>

definition showing_plan :: "app_state \<Rightarrow> bool" where
  "showing_plan s \<longleftrightarrow> json_truthy (analysis s)"

section \<open>Handlers\<close>

text \<open>
  A change of \<open>currentStep\<close> unmounts the step component on screen and mounts
  another, whose local state starts empty.
\<close>

definition handleNext :: "app_state \<Rightarrow> app_state" where
  "handleNext s =
     (if currentStep s < totalSteps
      then s\<lparr>currentStep := currentStep s + 1, locals := empty_locals\<rparr>
      else s)"

definition handlePrevious :: "app_state \<Rightarrow> app_state" where
  "handlePrevious s =
     (if currentStep s > 1
      then s\<lparr>currentStep := currentStep s - 1, locals := empty_locals\<rparr>
      else s)"

definition missing_key_message :: string where
  "missing_key_message = ''Please enter your Anthropic API key to generate your action plan.''"

text \<open>
  The synchronous part of \<open>handleSubmit\<close>: the key check and its early return, then
  \<open>setIsAnalyzing(true)\<close> and \<open>setError('')\<close> before the first \<open>await\<close>. The
  awaited calls run in \<open>Submission\<close>; their result comes back as
  \<open>submit_settled\<close>.
\<close>

definition handleSubmit :: "app_state \<Rightarrow> app_state" where
  "handleSubmit s =
     (if \<not> str_truthy (apiKey s)
      then s\<lparr>showApiKeyInput := True, error := missing_key_message\<rparr>
      else s\<lparr>isAnalyzing := True, error := [],
             pending := Some \<lparr>sub_formData = formData s, sub_apiKey = apiKey s\<rparr>\<rparr>)"

text \<open>
  The end of \<open>handleSubmit\<close>: \<open>setAnalysis(aiAnalysis)\<close> after the last write, or
  \<open>setError(message)\<close> in the \<open>catch\<close>; then \<open>setIsAnalyzing(false)\<close> in the
  \<open>finally\<close>. The result is \<open>Inl\<close> of the message shown or \<open>Inr\<close> of the analysis.
\<close>

definition submit_settled :: "string + json \<Rightarrow> app_state \<Rightarrow> app_state" where
  "submit_settled r s =
     (if pending s = None then s
      else (case r of
              Inl msg \<Rightarrow> s\<lparr>error := msg\<rparr>
            | Inr a \<Rightarrow> s\<lparr>analysis := a\<rparr>)\<lparr>isAnalyzing := False, pending := None\<rparr>)"

section \<open>Events and the step function\<close>

datatype ui_event =
    Step_input step_event
  | Click_next
  | Click_previous
  | Click_submit
  | Click_enter_key
  | Type_api_key string
  | Settle "string + json"

text \<open>
  The guards: a step component's controls are on screen only on its own step; "Next"
  is rendered while \<open>currentStep < totalSteps\<close> and enabled by \<open>isStepValid()\<close>;
  "Previous" is disabled on step 1; "Generate Action Plan" is rendered on the last step
  and disabled when the gate fails or \<open>isAnalyzing\<close>; the key link shows while the
  key input is hidden on the last step, the key input once it is shown. None of the
  wizard is on screen once the results are.
\<close>

definition next_enabled :: "app_state \<Rightarrow> bool" where
  "next_enabled s \<longleftrightarrow>
     \<not> showing_plan s \<and> currentStep s < totalSteps \<and> isStepValid (currentStep s) (formData s)"

definition previous_enabled :: "app_state \<Rightarrow> bool" where
  "previous_enabled s \<longleftrightarrow> \<not> showing_plan s \<and> currentStep s \<noteq> 1"

definition submit_enabled :: "app_state \<Rightarrow> bool" where
  "submit_enabled s \<longleftrightarrow>
     \<not> showing_plan s \<and> \<not> currentStep s < totalSteps
     \<and> isStepValid (currentStep s) (formData s) \<and> \<not> isAnalyzing s"

fun app_step :: "app_state \<Rightarrow> ui_event \<Rightarrow> app_state" where
  "app_step s (Step_input e) =
     (if \<not> showing_plan s \<and> currentStep s = event_step e
      then (let (loc', fd') = step_handler e (locals s) (formData s)
            in s\<lparr>locals := loc', formData := fd'\<rparr>)
      else s)"
| "app_step s Click_next = (if next_enabled s then handleNext s else s)"
| "app_step s Click_previous = (if previous_enabled s then handlePrevious s else s)"
| "app_step s Click_submit = (if submit_enabled s then handleSubmit s else s)"
| "app_step s Click_enter_key =
     (if \<not> showing_plan s \<and> \<not> showApiKeyInput s \<and> currentStep s = totalSteps
      then s\<lparr>showApiKeyInput := True\<rparr> else s)"
| "app_step s (Type_api_key v) =
     (if \<not> showing_plan s \<and> showApiKeyInput s then s\<lparr>apiKey := v\<rparr> else s)"
| "app_step s (Settle r) = submit_settled r s"

definition app_run :: "app_state \<Rightarrow> ui_event list \<Rightarrow> app_state" where
  "app_run s es = foldl app_step s es"

inductive reachable :: "app_state \<Rightarrow> bool" where
  init: "reachable initial_app"
| step: "reachable s \<Longrightarrow> reachable (app_step s e)"

section \<open>The invariant of the wizard\<close>

definition wizard_inv :: "app_state \<Rightarrow> bool" where
  "wizard_inv s \<longleftrightarrow>
     1 \<le> currentStep s \<and> currentStep s \<le> totalSteps \<and>
     (\<forall>j. 1 \<le> j \<and> j < currentStep s \<longrightarrow> isStepValid j (formData s)) \<and>
     costs_consistent (formData s) \<and> lists_ok (formData s) \<and>
     (isAnalyzing s \<longleftrightarrow> pending s \<noteq> None) \<and>
     (\<forall>p. pending s = Some p \<longrightarrow>
        str_truthy (sub_apiKey p) \<and>
        (\<forall>j. 1 \<le> j \<and> j \<le> totalSteps \<longrightarrow> isStepValid j (sub_formData p)))"

section \<open>An example session\<close>

text \<open>
  A user fills in the five steps (one cost item, \<open>"Mortgage"\<close> at \<open>2000\<close>; current
  expenses \<open>6000\<close>; a focus item typed with surrounding blanks), then opens the key
  input, types a key and submits.
\<close>

definition demo_answers :: "ui_event list" where
  "demo_answers =
    [Step_input (Step1 (Check_decided True)), Step_input (Step1 (Type_habits ''late nights'')),
     Step_input (Step1 (Type_new_version ''early riser'')), Click_next,
     Step_input (Step2 (Pick_fuel Both)), Step_input (Step2 (Type_fuel_description ''freedom'')),
     Step_input (Step2 (Type_fuel_reminder ''journal'')), Click_next,
     Step_input (Step3 (Type_dream_day ''beach'')), Step_input (Step3 (Type_dream_week ''travel'')),
     Step_input (Step3 (Type_ideal_living ''house'')),
     Step_input (Step3 (Type_cost_item ''Mortgage'')), Step_input (Step3 (Type_cost_amount ''2000'')),
     Step_input (Step3 Click_add_cost), Step_input (Step3 (Type_current_expenses ''6000'')), Click_next,
     Step_input (Step4 (Type_focus_item '' gym '')), Step_input (Step4 Click_add_focus),
     Step_input (Step4 (Type_cut_item ''tv'')), Step_input (Step4 Click_add_cut),
     Step_input (Step4 (Type_environment ''office'')), Click_next,
     Step_input (Step5 (Type_tracking ''notion'')), Step_input (Step5 (Type_win_item ''workout'')),
     Step_input (Step5 Click_add_win), Step_input (Step5 (Type_planning ''evening'')),
     Step_input (Step5 (Type_commitment ''act''))]"

definition demo_form :: form_data where
  "demo_form =
     \<lparr>has_decided = True, habits_to_cut = ''late nights'',
      new_version_description = ''early riser'', motivation_fuel = ''both'',
      fuel_description = ''freedom'', daily_fuel_reminder = ''journal'',
      dream_day = ''beach'', dream_week = ''travel'', ideal_living = ''house'',
      monthly_costs = [(''Mortgage'', Num 2000)], current_expenses = Num 6000,
      dream_expenses = Num 2000, daily_focus = [''gym''], things_to_cut = [''tv''],
      environment_changes = ''office'', progress_tracking_method = ''notion'',
      daily_wins = [''workout''], daily_planning_routine = ''evening'',
      action_commitment = ''act'', additional_thoughts = []\<rparr>"

definition demo_filled :: app_state where
  "demo_filled = app_run initial_app demo_answers"

definition demo_state :: app_state where
  "demo_state = app_run demo_filled [Click_enter_key, Type_api_key ''sk-ant'', Click_submit]"

section \<open>Facts\<close>

lemma app_run_Cons [simp]: "app_run s (e # es) = app_run (app_step s e) es"
  by (simp add: app_run_def)

lemma app_run_Nil [simp]: "app_run s [] = s"
  by (simp add: app_run_def)

lemma reachable_app_run: "reachable s \<Longrightarrow> reachable (app_run s es)"
  by (induction es arbitrary: s) (simp_all add: reachable.step)

lemma wizard_inv_initial: "wizard_inv initial_app"
  by (simp add: wizard_inv_def initial_app_def totalSteps_def costs_consistent_initial lists_ok_initial)

lemma wizard_inv_step_input:
  assumes inv: "wizard_inv s"
  shows "wizard_inv (app_step s (Step_input e))"
proof (cases "\<not> showing_plan s \<and> currentStep s = event_step e")
  case True
  obtain loc' fd' where h: "step_handler e (locals s) (formData s) = (loc', fd')"
    by fastforce
  then have fd': "fd' = snd (step_handler e (locals s) (formData s))" by simp
  have gates: "\<And>j. j < currentStep s \<Longrightarrow> isStepValid j fd' = isStepValid j (formData s)"
    using True fd' step_handler_other_gate by auto
  have "costs_consistent fd'" "lists_ok fd'"
    using inv fd' step_handler_costs_consistent step_handler_lists_ok
    by (auto simp: wizard_inv_def)
  with inv gates True h show ?thesis
    by (simp add: wizard_inv_def)
next
  case False
  then have "app_step s (Step_input e) = s" by auto
  with inv show ?thesis by simp
qed

lemma wizard_inv_next:
  assumes inv: "wizard_inv s"
  shows "wizard_inv (app_step s Click_next)"
proof -
  have "\<And>j. 1 \<le> j \<Longrightarrow> j < Suc (currentStep s) \<Longrightarrow> isStepValid (currentStep s) (formData s) \<Longrightarrow>
          isStepValid j (formData s)"
    using inv by (auto simp: wizard_inv_def less_Suc_eq)
  with inv show ?thesis
    by (auto simp: wizard_inv_def handleNext_def next_enabled_def)
qed

lemma wizard_inv_previous:
  assumes inv: "wizard_inv s"
  shows "wizard_inv (app_step s Click_previous)"
  using inv by (auto simp: wizard_inv_def handlePrevious_def previous_enabled_def)

lemma wizard_inv_submit:
  assumes inv: "wizard_inv s"
  shows "wizard_inv (app_step s Click_submit)"
proof (cases "submit_enabled s")
  case True
  with inv have "currentStep s = totalSteps"
    by (simp add: wizard_inv_def submit_enabled_def)
  with True inv have "\<forall>j. 1 \<le> j \<and> j \<le> totalSteps \<longrightarrow> isStepValid j (formData s)"
    by (auto simp: wizard_inv_def submit_enabled_def le_less)
  with True inv show ?thesis
    by (auto simp: wizard_inv_def handleSubmit_def submit_enabled_def)
next
  case False
  with inv show ?thesis by simp
qed

lemma wizard_inv_app_step:
  assumes inv: "wizard_inv s"
  shows "wizard_inv (app_step s e)"
proof (cases e)
  case (Step_input x)
  show ?thesis unfolding Step_input by (rule wizard_inv_step_input[OF inv])
next
  case Click_next
  show ?thesis unfolding Click_next by (rule wizard_inv_next[OF inv])
next
  case Click_previous
  show ?thesis unfolding Click_previous by (rule wizard_inv_previous[OF inv])
next
  case Click_submit
  show ?thesis unfolding Click_submit by (rule wizard_inv_submit[OF inv])
qed (use inv in \<open>auto simp: wizard_inv_def submit_settled_def split: sum.splits\<close>)

lemma reachable_wizard_inv: "reachable s \<Longrightarrow> wizard_inv s"
  by (induction rule: reachable.induct) (simp_all add: wizard_inv_initial wizard_inv_app_step)

lemmas run_defs = initial_app_def initial_form_data_def empty_locals_def showing_plan_def
  totalSteps_def handleNext_def handleSubmit_def isStepValid.simps next_enabled_def
  submit_enabled_def step_defs float_defs cost_total_def obj_values_def

lemma demo_filled_eq:
  "demo_filled =
     \<lparr>currentStep = 5, isAnalyzing = False, analysis = JNull, error = [], apiKey = [],
      showApiKeyInput = False, formData = demo_form, locals = empty_locals, pending = None\<rparr>"
  by (simp add: demo_filled_def demo_answers_def demo_form_def run_defs)

lemma demo_state_eq:
  "demo_state =
     \<lparr>currentStep = 5, isAnalyzing = True, analysis = JNull, error = [], apiKey = ''sk-ant'',
      showApiKeyInput = True, formData = demo_form, locals = empty_locals,
      pending = Some \<lparr>sub_formData = demo_form, sub_apiKey = ''sk-ant''\<rparr>\<rparr>"
  by (simp add: demo_state_def demo_filled_eq demo_form_def run_defs)

lemma reachable_demo_filled: "reachable demo_filled"
  unfolding demo_filled_def by (rule reachable_app_run[OF reachable.init])

lemma reachable_demo_state: "reachable demo_state"
  unfolding demo_state_def by (rule reachable_app_run[OF reachable_demo_filled])

lemma app_run_append: "app_run s (xs @ ys) = app_run (app_run s xs) ys"
  by (simp add: app_run_def)

lemma next_run:
  assumes "\<not> showing_plan s" "currentStep s + n \<le> totalSteps"
    "\<forall>j. 1 \<le> j \<and> j \<le> totalSteps \<longrightarrow> isStepValid j (formData s)" "1 \<le> currentStep s"
  shows "app_run s (replicate n Click_next) =
           s\<lparr>currentStep := currentStep s + n, locals := (if n = 0 then locals s else empty_locals)\<rparr>"
  using assms
proof (induction n arbitrary: s)
  case 0
  then show ?case by simp
next
  case (Suc n)
  have en: "next_enabled s"
    using Suc.prems by (simp add: next_enabled_def totalSteps_def)
  let ?s' = "s\<lparr>currentStep := currentStep s + 1, locals := empty_locals\<rparr>"
  have step: "app_step s Click_next = ?s'"
    using en Suc.prems by (simp add: handleNext_def next_enabled_def)
  have "app_run ?s' (replicate n Click_next) =
          ?s'\<lparr>currentStep := currentStep ?s' + n, locals := (if n = 0 then locals ?s' else empty_locals)\<rparr>"
    using Suc.prems by (intro Suc.IH) (simp_all add: showing_plan_def)
  then show ?case using step by simp
qed

section \<open>Properties of the wizard\<close>

text \<open>
  C1. Every submission that \<open>handleSubmit\<close> sends off carries a non-empty key and an
  answer set that passes the gates of all five steps, although "Generate Action Plan"
  only checks the gate of step 5: the gates of the earlier steps were checked by "Next"
  and nothing on step 5 can change their fields.
\<close>

theorem submission_complete:
  assumes "reachable s" and "pending s = Some p"
  shows "str_truthy (sub_apiKey p) \<and>
         (\<forall>j. 1 \<le> j \<and> j \<le> totalSteps \<longrightarrow> isStepValid j (sub_formData p))"
  using reachable_wizard_inv[OF assms(1)] assms(2) by (simp add: wizard_inv_def)

theorem submission_complete_witness:
  "reachable demo_state \<and> pending demo_state = Some \<lparr>sub_formData = demo_form, sub_apiKey = ''sk-ant''\<rparr> \<and>
   str_truthy ''sk-ant'' \<and> isStepValid 1 demo_form \<and> isStepValid 2 demo_form \<and>
   isStepValid 3 demo_form \<and> isStepValid 4 demo_form \<and> isStepValid 5 demo_form"
proof -
  have p: "pending demo_state = Some \<lparr>sub_formData = demo_form, sub_apiKey = ''sk-ant''\<rparr>"
    by (simp add: demo_state_eq)
  have "str_truthy ''sk-ant'' \<and> (\<forall>j. 1 \<le> j \<and> j \<le> totalSteps \<longrightarrow> isStepValid j demo_form)"
    using submission_complete[OF reachable_demo_state p] by simp
  then show ?thesis using reachable_demo_state p by (simp add: totalSteps_def)
qed

text \<open>
  C2. In every reachable state the step counter is within \<open>1..totalSteps\<close> and every
  step before the current one passes its gate ("Previous" may go back, but going
  forward again needs the gate of each step on the way).
\<close>

theorem passed_steps_valid:
  "reachable s \<Longrightarrow>
     1 \<le> currentStep s \<and> currentStep s \<le> totalSteps \<and>
     (\<forall>j. 1 \<le> j \<and> j < currentStep s \<longrightarrow> isStepValid j (formData s))"
  using reachable_wizard_inv by (simp add: wizard_inv_def)

theorem passed_steps_valid_witness:
  "reachable demo_filled \<and> currentStep demo_filled = 5 \<and> isStepValid 1 demo_form \<and>
   isStepValid 2 demo_form \<and> isStepValid 3 demo_form \<and> isStepValid 4 demo_form"
proof -
  have "1 \<le> currentStep demo_filled \<and> currentStep demo_filled \<le> totalSteps \<and>
        (\<forall>j. 1 \<le> j \<and> j < currentStep demo_filled \<longrightarrow> isStepValid j (formData demo_filled))"
    by (rule passed_steps_valid[OF reachable_demo_filled])
  then show ?thesis using reachable_demo_filled by (simp add: demo_filled_eq)
qed

text \<open>
  C3. In every reachable state the cost items have distinct names and the dream-expense
  total equals the sum of their amounts (\<open>addCostItem\<close> and \<open>removeCostItem\<close>
  recompute it; nothing else writes either field).
\<close>

theorem reachable_costs_consistent:
  "reachable s \<Longrightarrow>
     obj_wf (monthly_costs (formData s)) \<and>
     dream_expenses (formData s) = cost_total (monthly_costs (formData s))"
  using reachable_wizard_inv by (simp add: wizard_inv_def costs_consistent_def)

theorem reachable_costs_consistent_witness:
  "reachable demo_filled \<and> monthly_costs (formData demo_filled) = [(''Mortgage'', Num 2000)] \<and>
   dream_expenses (formData demo_filled) = cost_total [(''Mortgage'', Num 2000)]"
  using reachable_costs_consistent[OF reachable_demo_filled] reachable_demo_filled
  by (simp add: demo_filled_eq demo_form_def)

text \<open>
  C4. On a step before the last, "Next" advances the step exactly when the current
  step's gate holds; otherwise the click changes nothing.
\<close>

theorem next_gated:
  assumes "\<not> showing_plan s" and "currentStep s < totalSteps"
  shows "app_step s Click_next =
           (if isStepValid (currentStep s) (formData s)
            then s\<lparr>currentStep := currentStep s + 1, locals := empty_locals\<rparr> else s)"
  using assms by (simp add: next_enabled_def handleNext_def)

theorem next_gated_witness:
  "\<not> showing_plan initial_app \<and> currentStep initial_app < totalSteps \<and>
   app_step initial_app Click_next = initial_app"
proof -
  have h: "\<not> showing_plan initial_app" "currentStep initial_app < totalSteps"
    by (simp_all add: initial_app_def showing_plan_def totalSteps_def)
  have "\<not> isStepValid (currentStep initial_app) (formData initial_app)"
    by (simp add: initial_app_def initial_form_data_def isStepValid.simps)
  then show ?thesis using next_gated[OF h] h by simp
qed

text \<open>
  C5. Submitting without a key starts no submission: when the button is enabled the
  click only reveals the key input and shows the fixed message.
\<close>

theorem submit_without_key:
  assumes "\<not> str_truthy (apiKey s)"
  shows "app_step s Click_submit =
           (if submit_enabled s
            then s\<lparr>showApiKeyInput := True, error := missing_key_message\<rparr> else s)"
  using assms by (simp add: handleSubmit_def)

theorem submit_without_key_witness:
  "\<not> str_truthy (apiKey demo_filled) \<and> submit_enabled demo_filled \<and>
   pending (app_step demo_filled Click_submit) = None \<and>
   error (app_step demo_filled Click_submit) = missing_key_message"
proof -
  have k: "\<not> str_truthy (apiKey demo_filled)" by (simp add: demo_filled_eq)
  have e: "submit_enabled demo_filled"
    by (simp add: demo_filled_eq submit_enabled_def showing_plan_def totalSteps_def
                  isStepValid.simps demo_form_def)
  show ?thesis using submit_without_key[OF k] k e by (simp add: demo_filled_eq)
qed

text \<open>
  C6. \<open>isAnalyzing\<close> holds exactly while a submission is in flight: it is set with
  the submission and cleared when the submission settles, whichever way.
\<close>

theorem analyzing_iff_pending:
  "reachable s \<Longrightarrow> isAnalyzing s \<longleftrightarrow> pending s \<noteq> None"
  using reachable_wizard_inv by (simp add: wizard_inv_def)

theorem analyzing_iff_pending_witness:
  "reachable demo_state \<and> isAnalyzing demo_state \<and> pending demo_state \<noteq> None"
  using analyzing_iff_pending[OF reachable_demo_state] reachable_demo_state
  by (simp add: demo_state_eq)

text \<open>
  C7. The focus, cut and win lists of a reachable state hold only trimmed, non-empty
  items: the add handlers trim the input and ignore a blank one.
\<close>

theorem reachable_items_trimmed:
  "reachable s \<Longrightarrow>
     \<forall>x \<in> set (daily_focus (formData s)) \<union> set (things_to_cut (formData s))
          \<union> set (daily_wins (formData s)). str_truthy x \<and> js_trim x = x"
  using reachable_wizard_inv by (auto simp: wizard_inv_def lists_ok_def items_ok_def)

theorem reachable_items_trimmed_witness:
  "reachable demo_filled \<and> daily_focus (formData demo_filled) = [''gym''] \<and>
   str_truthy ''gym'' \<and> js_trim ''gym'' = ''gym''"
  using reachable_items_trimmed[OF reachable_demo_filled] reachable_demo_filled
  by (simp add: demo_filled_eq demo_form_def)

text \<open>
  C33. A complete answer set can always be submitted: from every reachable state that
  shows the form and has no submission in flight, if the answers pass all five gates,
  pressing "Next" up to the last step, opening the key input, typing a non-empty key and
  pressing "Generate" starts a submission of exactly those answers with that key.
\<close>

theorem submission_reachable:
  "reachable s \<Longrightarrow> \<not> showing_plan s \<Longrightarrow> \<not> isAnalyzing s \<Longrightarrow>
   \<forall>j. 1 \<le> j \<and> j \<le> totalSteps \<longrightarrow> isStepValid j (formData s) \<Longrightarrow> k \<noteq> [] \<Longrightarrow>
   \<exists>evs. reachable (app_run s evs) \<and>
     pending (app_run s evs) = Some \<lparr>sub_formData = formData s, sub_apiKey = k\<rparr>"
proof -
  assume r: "reachable s" and sp: "\<not> showing_plan s" and an: "\<not> isAnalyzing s"
    and valid: "\<forall>j. 1 \<le> j \<and> j \<le> totalSteps \<longrightarrow> isStepValid j (formData s)" and k: "k \<noteq> []"
  have inv: "1 \<le> currentStep s" "currentStep s \<le> totalSteps"
    using reachable_wizard_inv[OF r] by (simp_all add: wizard_inv_def)
  define n where "n = totalSteps - currentStep s"
  define t where "t = app_run s (replicate n Click_next)"
  have t: "currentStep t = totalSteps" "formData t = formData s" "isAnalyzing t = isAnalyzing s"
    "showing_plan t = showing_plan s"
    using next_run[OF sp _ valid inv(1), of n] inv unfolding t_def n_def
    by (simp_all add: showing_plan_def)
  define evs where "evs = replicate n Click_next @ [Click_enter_key, Type_api_key k, Click_submit]"
  have "pending (app_run s evs) = Some \<lparr>sub_formData = formData s, sub_apiKey = k\<rparr>"
    using t sp an valid k
    by (simp add: evs_def app_run_append t_def[symmetric] submit_enabled_def handleSubmit_def
        showing_plan_def totalSteps_def str_truthy_def)
  then show ?thesis using reachable_app_run[OF r] by blast
qed

theorem submission_reachable_witness:
  "\<exists>evs. reachable (app_run demo_filled evs) \<and>
     pending (app_run demo_filled evs) = Some \<lparr>sub_formData = demo_form, sub_apiKey = ''sk-ant''\<rparr>"
proof -
  have valid: "\<forall>j. 1 \<le> j \<and> j \<le> totalSteps \<longrightarrow> isStepValid j demo_form"
    using reachable_wizard_inv[OF reachable_demo_state] by (simp add: wizard_inv_def demo_state_eq)
  show ?thesis
    using submission_reachable[OF reachable_demo_filled _ _ _, of "''sk-ant''"] valid
    by (simp add: demo_filled_eq showing_plan_def)
qed

end
