(* ===== verification/Submission.thy ===== *)
theory Submission
  imports Wizard "HOL-Library.Sublist"
begin

text \<open>
  The awaited part of \<open>handleSubmit\<close> (\<open>src/src/App.tsx\<close>, the \<open>try\<close> block and
  its \<open>catch\<close>): insert the plan row, post the answers to the relay, insert the analysis
  row, mark the plan completed. The database and the relay are the outside world: a
  \<open>world\<close> fixes what each of them answers, and \<open>submit_run\<close> returns the external
  calls the client makes, in order, and the outcome that settles the submission
  (\<open>Inl\<close> the message shown in the error banner, \<open>Inr\<close> the analysis shown).
  The tables of \<open>src/src/lib/supabase.ts\<close> are a store of rows, changed by each call
  the world accepts (\<open>db_apply\<close>). The facts: the calls are a prefix of the fixed
  sequence; success is reported only after the analysis row is stored; both requests
  carry the same gap; every analysis row is linked to a stored plan and every completed
  plan has an analysis; failures stop the sequence and leave the plan row analyzing.
\<close>

section \<open>The outside world\<close>

text \<open>
  What the relay's \<open>fetch\<close> gives: a rejected promise (network failure, with the
  \<open>TypeError\<close>'s message) or a response with its status and what
  \<open>response.json()\<close> yields (\<open>Inl\<close> the \<open>SyntaxError\<close>'s message when the body is
  not JSON).
\<close>

datatype relay_reply =
    Fetch_rejected string
  | Http_reply nat "string + json"

text \<open>
  The answers of the database: the plan insert gives the new row's \<open>id\<close> or the
  error's message; the analysis insert and the status update give \<open>None\<close> or the
  error's message.
\<close>

record world =
  plan_insert :: "string + string"
  relay :: relay_reply
  analysis_insert :: "string option"
  status_update :: "string option"

section \<open>Request bodies\<close>

definition strs_json :: "string list \<Rightarrow> json" where
  "strs_json xs = JArray (map JString xs)"

definition costs_json :: "jsnum obj \<Rightarrow> json" where
  "costs_json m = JObject (map (\<lambda>(k, v). (k, num_json v)) m)"

text \<open>\<open>...formData\<close>: the keys in the order of the initial object literal.\<close>

definition form_json :: "form_data \<Rightarrow> (string \<times> json) list" where
  "form_json fd =
     [(''has_decided'', JBool (has_decided fd)),
      (''habits_to_cut'', JString (habits_to_cut fd)),
      (''new_version_description'', JString (new_version_description fd)),
      (''motivation_fuel'', JString (motivation_fuel fd)),
      (''fuel_description'', JString (fuel_description fd)),
      (''daily_fuel_reminder'', JString (daily_fuel_reminder fd)),
      (''dream_day'', JString (dream_day fd)),
      (''dream_week'', JString (dream_week fd)),
      (''ideal_living'', JString (ideal_living fd)),
      (''monthly_costs'', costs_json (monthly_costs fd)),
      (''current_expenses'', num_json (current_expenses fd)),
      (''dream_expenses'', num_json (dream_expenses fd)),
      (''daily_focus'', strs_json (daily_focus fd)),
      (''things_to_cut'', strs_json (things_to_cut fd)),
      (''environment_changes'', JString (environment_changes fd)),
      (''progress_tracking_method'', JString (progress_tracking_method fd)),
      (''daily_wins'', strs_json (daily_wins fd)),
      (''daily_planning_routine'', JString (daily_planning_routine fd)),
      (''action_commitment'', JString (action_commitment fd)),
      (''additional_thoughts'', JString (additional_thoughts fd))]"

definition plan_gap :: "form_data \<Rightarrow> jsnum" where
  "plan_gap fd = js_sub (or_zero (dream_expenses fd)) (or_zero (current_expenses fd))"

definition plan_row :: "form_data \<Rightarrow> json" where
  "plan_row fd =
     JObject (form_json fd @
              [(''financial_gap'', num_json (plan_gap fd)), (''status'', JString ''analyzing'')])"

definition relay_body :: "pending_submit \<Rightarrow> json" where
  "relay_body p =
     JObject [(''planData'',
               JObject (form_json (sub_formData p) @
                        [(''financial_gap'', num_json (plan_gap (sub_formData p)))])),
              (''anthropicApiKey'', JString (sub_apiKey p))]"

definition analysis_keys :: "string list" where
  "analysis_keys =
     [''win_ticker'', ''dream_life_summary'', ''focus_areas'', ''cut_out_items'',
      ''action_steps'', ''momentum_strategy'', ''environment_blueprint'']"

text \<open>
  The analysis row: \<open>JSON.stringify\<close> drops the columns whose value is
  \<open>undefined\<close>, so only the keys the analysis has are sent.
\<close>

definition analysis_row :: "string \<Rightarrow> json \<Rightarrow> json" where
  "analysis_row pid a =
     JObject ([(''plan_id'', JString pid), (''analysis_content'', a)] @
              concat (map (\<lambda>k. case json_get a k of None \<Rightarrow> [] | Some v \<Rightarrow> [(k, v)])
                          analysis_keys))"

definition completed_patch :: "(string \<times> json) list" where
  "completed_patch = [(''status'', JString ''completed'')]"

datatype call =
    Insert_plan json
  | Post_relay json
  | Insert_analysis json
  | Update_plan string "(string \<times> json) list"

section \<open>The submission\<close>

text \<open>\<open>err.message || 'An error occurred while analyzing your plan'\<close>.\<close>

definition shown_message :: "string \<Rightarrow> string" where
  "shown_message m = (if m = [] then ''An error occurred while analyzing your plan'' else m)"

text \<open>
  The message of the error thrown for a non-ok response:
  \<open>new Error(errorData.error || 'Failed to analyze plan')\<close>, whose message is
  \<open>String\<close> of its argument; reading \<open>.error\<close> of \<open>null\<close> throws a \<open>TypeError\<close>.
\<close>

definition relay_error_message :: "string + json \<Rightarrow> string" where
  "relay_error_message b =
     (case b of
        Inl m \<Rightarrow> m
      | Inr JNull \<Rightarrow> ''Cannot read properties of null (reading 'error')''
      | Inr d \<Rightarrow>
          (case json_get d ''error'' of
             Some v \<Rightarrow> if json_truthy v then js_string_of v else ''Failed to analyze plan''
           | None \<Rightarrow> ''Failed to analyze plan''))"

text \<open>
  \<open>const { analysis: aiAnalysis } = await response.json()\<close> and the reads of
  \<open>aiAnalysis.win_ticker\<close> .. in the insert's object literal: the first read throws
  when the analysis is \<open>undefined\<close> or \<open>null\<close>.
\<close>

definition read_analysis :: "string + json \<Rightarrow> string + json" where
  "read_analysis b =
     (case b of
        Inl m \<Rightarrow> Inl m
      | Inr JNull \<Rightarrow>
          Inl ''Cannot destructure property 'analysis' of '(intermediate value)' as it is null.''
      | Inr d \<Rightarrow>
          (case json_get d ''analysis'' of
             None \<Rightarrow> Inl ''Cannot read properties of undefined (reading 'win_ticker')''
           | Some JNull \<Rightarrow> Inl ''Cannot read properties of null (reading 'win_ticker')''
           | Some a \<Rightarrow> Inr a))"

text \<open>
  The \<open>try\<close> block: each \<open>throw\<close> ends the sequence with the caught message; the
  result of the status update is never read.
\<close>

definition submit_run :: "world \<Rightarrow> pending_submit \<Rightarrow> call list \<times> (string + json)" where
  "submit_run w p =
     (let ins = Insert_plan (plan_row (sub_formData p)) in
      case plan_insert w of
        Inl e \<Rightarrow> ([ins], Inl (shown_message e))
      | Inr pid \<Rightarrow>
          (let post = Post_relay (relay_body p) in
           case relay w of
             Fetch_rejected e \<Rightarrow> ([ins, post], Inl (shown_message e))
           | Http_reply st b \<Rightarrow>
               if \<not> http_ok st then ([ins, post], Inl (shown_message (relay_error_message b)))
               else
                 (case read_analysis b of
                    Inl e \<Rightarrow> ([ins, post], Inl (shown_message e))
                  | Inr a \<Rightarrow>
                      (let ia = Insert_analysis (analysis_row pid a) in
                       case analysis_insert w of
                         Some e \<Rightarrow> ([ins, post, ia], Inl (shown_message e))
                       | None \<Rightarrow> ([ins, post, ia, Update_plan pid completed_patch], Inr a)))))"

section \<open>The store\<close>

text \<open>
  The two tables \<open>user_plans\<close> (rows with their \<open>id\<close>) and \<open>ai_analyses\<close>. A call
  changes them when the world accepts it; \<open>.update(...).eq('id', pid)\<close> patches every
  row with that id.
\<close>

record store =
  plans :: "(string \<times> json) list"
  analyses :: "json list"

fun json_patch :: "json \<Rightarrow> (string \<times> json) list \<Rightarrow> json" where
  "json_patch (JObject ps) patch = JObject (foldl (\<lambda>qs (k, v). obj_set qs k v) ps patch)"
| "json_patch j patch = j"

fun db_apply :: "world \<Rightarrow> call \<Rightarrow> store \<Rightarrow> store" where
  "db_apply w (Insert_plan row) st =
     (case plan_insert w of
        Inr pid \<Rightarrow> st\<lparr>plans := plans st @ [(pid, row)]\<rparr>
      | Inl _ \<Rightarrow> st)"
| "db_apply w (Post_relay b) st = st"
| "db_apply w (Insert_analysis row) st =
     (if analysis_insert w = None then st\<lparr>analyses := analyses st @ [row]\<rparr> else st)"
| "db_apply w (Update_plan pid patch) st =
     (if status_update w = None
      then st\<lparr>plans := map (\<lambda>(i, r). (i, if i = pid then json_patch r patch else r)) (plans st)\<rparr>
      else st)"

definition submit_db :: "world \<Rightarrow> pending_submit \<Rightarrow> store \<Rightarrow> store" where
  "submit_db w p st = foldl (\<lambda>s c. db_apply w c s) st (fst (submit_run w p))"

text \<open>
  The store's integrity: every analysis row names a stored plan, and every plan marked
  completed has an analysis row naming it.
\<close>

definition linked :: "json \<Rightarrow> string \<Rightarrow> bool" where
  "linked a pid = (json_get a ''plan_id'' = Some (JString pid))"

definition is_completed :: "json \<Rightarrow> bool" where
  "is_completed r = (json_get r ''status'' = Some (JString ''completed''))"

definition store_ok :: "store \<Rightarrow> bool" where
  "store_ok st =
     ((\<forall>a\<in>set (analyses st). \<exists>pid\<in>fst ` set (plans st). linked a pid)
      \<and> (\<forall>(pid, r)\<in>set (plans st). is_completed r \<longrightarrow> (\<exists>a\<in>set (analyses st). linked a pid)))"


section \<open>Example worlds\<close>

text \<open>
  The answers of a submission with current expenses 6000 and dream expenses 5000 (the
  spec's example of a negative gap), and worlds in which every call succeeds, the relay
  is unreachable, the relay rejects the key, the plan insert fails, and the relay's reply
  has no analysis.
\<close>

definition demo_analysis :: json where
  "demo_analysis = JObject [(''win_ticker'', JArray [JString ''Walked''])]"

definition demo_pending :: pending_submit where
  "demo_pending =
     \<lparr>sub_formData = initial_form_data\<lparr>current_expenses := Num 6000, dream_expenses := Num 5000\<rparr>,
      sub_apiKey = ''sk-ant''\<rparr>"

definition demo_world :: world where
  "demo_world =
     \<lparr>plan_insert = Inr ''p1'', relay = Http_reply 200 (Inr (JObject [(''analysis'', demo_analysis)])),
      analysis_insert = None, status_update = None\<rparr>"

definition offline_world :: "string \<Rightarrow> world" where
  "offline_world pid = demo_world\<lparr>plan_insert := Inr pid, relay := Fetch_rejected ''Failed to fetch''\<rparr>"

definition rejected_world :: world where
  "rejected_world =
     demo_world\<lparr>relay := Http_reply 401 (Inr (JObject [(''error'', JString ''invalid x-api-key'')]))\<rparr>"

definition empty_store :: store where
  "empty_store = \<lparr>plans = [], analyses = []\<rparr>"

section \<open>Facts\<close>

lemmas submit_splits = sum.splits relay_reply.splits option.splits

lemma plan_status: "json_get (plan_row fd) ''status'' = Some (JString ''analyzing'')"
  by (simp add: plan_row_def form_json_def)

lemma plan_row_not_completed [simp]: "\<not> is_completed (plan_row fd)"
  by (simp add: is_completed_def plan_status)

lemma analysis_row_linked [simp]: "linked (analysis_row pid a) pid"
proof -
  have "map_of (rev (concat (map (\<lambda>k. case json_get a k of None \<Rightarrow> [] | Some v \<Rightarrow> [(k, v)]) analysis_keys))) ''plan_id'' = None"
    by (simp add: analysis_keys_def split: option.splits)
  then show ?thesis unfolding linked_def by (simp add: analysis_row_def map_add_def)
qed

lemma store_ok_add_plan:
  assumes "store_ok st" "\<not> is_completed row"
  shows "store_ok (st\<lparr>plans := plans st @ [(pid, row)]\<rparr>)"
  using assms unfolding store_ok_def by auto


lemma store_ok_add_analysis:
  assumes "store_ok st" "linked a pid" "pid \<in> fst ` set (plans st)"
  shows "store_ok (st\<lparr>analyses := analyses st @ [a]\<rparr>)"
  using assms unfolding store_ok_def by auto


lemma store_ok_patch:
  assumes ok: "store_ok st" and an: "\<exists>a\<in>set (analyses st). linked a pid"
  shows "store_ok (st\<lparr>plans := map (\<lambda>(i, r). (i, if i = pid then json_patch r patch else r)) (plans st)\<rparr>)"
proof -
  define ps where "ps = map (\<lambda>(i, r). (i, if i = pid then json_patch r patch else r)) (plans st)"
  have ids: "fst ` set ps = fst ` set (plans st)"
    unfolding ps_def by force
  have compl: "is_completed r' \<longrightarrow> (\<exists>a\<in>set (analyses st). linked a i)" if mem: "(i, r') \<in> set ps" for i r'
  proof -
    obtain r where r: "(i, r) \<in> set (plans st)" "r' = (if i = pid then json_patch r patch else r)"
      using mem unfolding ps_def by auto
    show ?thesis
    proof (cases "i = pid")
      case True
      then show ?thesis using an by simp
    next
      case False
      then show ?thesis using ok r unfolding store_ok_def by auto
    qed
  qed
  have "store_ok (st\<lparr>plans := ps\<rparr>)"
    using ok ids compl unfolding store_ok_def by auto
  then show ?thesis by (simp add: ps_def)
qed

lemma submit_run_shape:
  obtains (plan_failed) "fst (submit_run w p) = [Insert_plan (plan_row (sub_formData p))]" "isl (plan_insert w)"
  | (relay_failed) pid where "plan_insert w = Inr pid"
      "fst (submit_run w p) = [Insert_plan (plan_row (sub_formData p)), Post_relay (relay_body p)]"
  | (insert_failed) pid a where "plan_insert w = Inr pid" "analysis_insert w \<noteq> None"
      "fst (submit_run w p) = [Insert_plan (plan_row (sub_formData p)), Post_relay (relay_body p),
         Insert_analysis (analysis_row pid a)]"
  | (stored) pid a where "plan_insert w = Inr pid" "analysis_insert w = None"
      "submit_run w p = ([Insert_plan (plan_row (sub_formData p)), Post_relay (relay_body p),
         Insert_analysis (analysis_row pid a), Update_plan pid completed_patch], Inr a)"
proof (cases "plan_insert w")
  case (Inl e)
  then show ?thesis using plan_failed by (simp add: submit_run_def)
next
  case (Inr pid)
  note run = submit_run_def Let_def Inr
  show ?thesis
  proof (cases "relay w")
    case (Fetch_rejected e)
    then show ?thesis using relay_failed[OF Inr] by (simp add: run)
  next
    case (Http_reply st b)
    show ?thesis
    proof (cases "http_ok st")
      case False
      then show ?thesis using relay_failed[OF Inr] Http_reply by (simp add: run)
    next
      case True
      show ?thesis
      proof (cases "read_analysis b")
        case (Inl e)
        then show ?thesis using relay_failed[OF Inr] Http_reply True by (simp add: run)
      next
        case (Inr a)
        then show ?thesis
          using insert_failed[OF \<open>plan_insert w = Inr pid\<close>] stored[OF \<open>plan_insert w = Inr pid\<close>]
            Http_reply True
          by (cases "analysis_insert w") (simp_all add: run)
      qed
    qed
  qed
qed

lemma submit_db_failed:
  assumes "isl (snd (submit_run w p))"
  shows "submit_db w p st =
           st\<lparr>plans := plans st @ (case plan_insert w of Inl _ \<Rightarrow> [] | Inr pid \<Rightarrow> [(pid, plan_row (sub_formData p))])\<rparr>"
proof (cases rule: submit_run_shape[where w = w and p = p])
  case plan_failed
  then show ?thesis by (auto simp: submit_db_def split: sum.splits)
next
  case (relay_failed pid)
  then show ?thesis by (simp add: submit_db_def)
next
  case (insert_failed pid a)
  then show ?thesis by (auto simp: submit_db_def)
next
  case (stored pid a)
  then show ?thesis using assms by simp
qed

section \<open>Properties of the submission\<close>

text \<open>
  C15. The external calls of a submission are a non-empty prefix of the fixed sequence:
  insert the plan row, post to the relay, insert the analysis row of that plan, mark that
  plan completed. No call is repeated, reordered or made after a failed one.
\<close>

lemma submit_calls_in_order: "fst (submit_run w p) \<noteq> [] \<and>
   (\<exists>pid a. prefix (fst (submit_run w p))
      [Insert_plan (plan_row (sub_formData p)), Post_relay (relay_body p),
       Insert_analysis (analysis_row pid a), Update_plan pid completed_patch])"
  unfolding submit_run_def Let_def by (auto split: submit_splits)


text \<open>
  C16. A submission reports success only when the plan row and the analysis row were
  both stored and every call of the sequence was made; the analysis shown is the one
  stored with the plan's id.
\<close>

lemma submit_success_after_store: "snd (submit_run w p) = Inr a \<Longrightarrow>
   \<exists>pid. plan_insert w = Inr pid \<and> analysis_insert w = None \<and>
     fst (submit_run w p) = [Insert_plan (plan_row (sub_formData p)), Post_relay (relay_body p),
       Insert_analysis (analysis_row pid a), Update_plan pid completed_patch]"
  unfolding submit_run_def Let_def by (auto split: submit_splits if_splits)


text \<open>
  C17. The plan row and the body posted to the relay carry the same financial gap,
  dream minus current expenses, unclamped: for current 6000 and dream 5000 it is -1000.
\<close>

lemma submit_gap_sent: "current_expenses (sub_formData p) = Num c \<Longrightarrow> dream_expenses (sub_formData p) = Num d \<Longrightarrow>
   json_get (plan_row (sub_formData p)) ''financial_gap'' = Some (JNumber (d - c)) \<and>
   (\<exists>pd. json_get (relay_body p) ''planData'' = Some pd \<and> json_get pd ''financial_gap'' = Some (JNumber (d - c)))"
  by (simp add: plan_row_def relay_body_def form_json_def plan_gap_def js_simps)


text \<open>
  C18. A failed status update is not reported: when the plan and analysis inserts are
  accepted and the relay answers 2xx with an analysis, the submission settles with that
  analysis even though the status update fails, and the plan row stays in the store
  with status \<open>analyzing\<close>.
\<close>

lemma status_update_failure_unreported:
  "plan_insert w = Inr pid \<Longrightarrow> relay w = Http_reply code (Inr d) \<Longrightarrow> http_ok code \<Longrightarrow> d \<noteq> JNull \<Longrightarrow>
   json_get d ''analysis'' = Some a \<Longrightarrow> a \<noteq> JNull \<Longrightarrow> analysis_insert w = None \<Longrightarrow> status_update w \<noteq> None \<Longrightarrow>
   snd (submit_run w p) = Inr a \<and>
   plans (submit_db w p st) = plans st @ [(pid, plan_row (sub_formData p))] \<and>
   json_get (plan_row (sub_formData p)) ''status'' = Some (JString ''analyzing'')"
proof -
  assume w: "plan_insert w = Inr pid" "relay w = Http_reply code (Inr d)" "http_ok code" "d \<noteq> JNull"
    "json_get d ''analysis'' = Some a" "a \<noteq> JNull" "analysis_insert w = None" "status_update w \<noteq> None"
  have "read_analysis (Inr d) = Inr a" using w(4-6) by (cases d; cases a) (simp_all add: read_analysis_def)
  then have run: "submit_run w p = ([Insert_plan (plan_row (sub_formData p)), Post_relay (relay_body p),
      Insert_analysis (analysis_row pid a), Update_plan pid completed_patch], Inr a)"
    using w by (simp add: submit_run_def)
  then show ?thesis using w by (auto simp: submit_db_def plan_status)
qed


text \<open>
  C19. Whatever the database and the relay answer, a submission keeps the store
  consistent: every analysis row names a stored plan, and every completed plan has an
  analysis row.
\<close>

lemma submit_keeps_store_ok:
  assumes ok: "store_ok st"
  shows "store_ok (submit_db w p st)"
proof (cases rule: submit_run_shape[where w = w and p = p])
  case plan_failed
  then show ?thesis using ok by (auto simp: submit_db_def split: sum.splits)
next
  case (relay_failed pid)
  then show ?thesis using ok by (simp add: submit_db_def store_ok_add_plan)
next
  case (insert_failed pid a)
  then show ?thesis using ok by (auto simp: submit_db_def store_ok_add_plan)
next
  case (stored pid a)
  define st1 where "st1 = st\<lparr>plans := plans st @ [(pid, plan_row (sub_formData p))]\<rparr>"
  define st2 where "st2 = st1\<lparr>analyses := analyses st1 @ [analysis_row pid a]\<rparr>"
  define st3 where
    "st3 = st2\<lparr>plans := map (\<lambda>(i, r). (i, if i = pid then json_patch r completed_patch else r))
                            (plans st2)\<rparr>"
  have ok1: "store_ok st1"
    unfolding st1_def using ok by (rule store_ok_add_plan) simp
  have ok2: "store_ok st2"
    unfolding st2_def using ok1 by (rule store_ok_add_analysis[where pid = pid]) (simp_all add: st1_def)
  have ok3: "store_ok st3"
    unfolding st3_def using ok2 by (rule store_ok_patch) (simp add: st2_def)
  have "submit_db w p st = (if status_update w = None then st3 else st2)"
    using stored by (simp add: submit_db_def st1_def st2_def st3_def)
  then show ?thesis using ok2 ok3 by simp
qed

text \<open>
  C20. A failed submission adds no analysis row and at most one plan row, whose status
  is \<open>analyzing\<close>: there is no rollback.
\<close>

lemma failed_submit_leaves_analyzing: "isl (snd (submit_run w p)) \<Longrightarrow>
   analyses (submit_db w p st) = analyses st \<and>
   (\<exists>new. plans (submit_db w p st) = plans st @ new \<and> length new \<le> 1 \<and>
      (\<forall>(i, r)\<in>set new. json_get r ''status'' = Some (JString ''analyzing'')))"
  by (auto simp: submit_db_failed plan_status split: sum.splits)


text \<open>
  C21. Submissions are not idempotent: retrying after a failure inserts a second plan
  row for the same answers.
\<close>

lemma retry_inserts_second_plan: "plan_insert w1 = Inr i1 \<Longrightarrow> plan_insert w2 = Inr i2 \<Longrightarrow>
   isl (snd (submit_run w1 p)) \<Longrightarrow> isl (snd (submit_run w2 p)) \<Longrightarrow>
   plans (submit_db w2 p (submit_db w1 p st)) = plans st @ [(i1, plan_row (sub_formData p)), (i2, plan_row (sub_formData p))]"
  by (simp add: submit_db_failed)


text \<open>
  C22. When the relay answers with a non-2xx status and an error message, the message
  is shown as it is and no analysis row is written.
\<close>

lemma relay_error_forwarded: "plan_insert w = Inr pid \<Longrightarrow> relay w = Http_reply st (Inr (JObject [(''error'', JString e)])) \<Longrightarrow>
   \<not> http_ok st \<Longrightarrow> e \<noteq> [] \<Longrightarrow>
   submit_run w p = ([Insert_plan (plan_row (sub_formData p)), Post_relay (relay_body p)], Inl e)"
  by (simp add: submit_run_def relay_error_message_def shown_message_def)


text \<open>
  C23. When the plan insert fails, nothing else is called and the store is unchanged.
\<close>

lemma plan_insert_failure_stops: "plan_insert w = Inl e \<Longrightarrow>
   submit_run w p = ([Insert_plan (plan_row (sub_formData p))], Inl (shown_message e)) \<and> submit_db w p st = st"
  by (simp add: submit_run_def submit_db_def)


text \<open>
  C24. A 2xx reply whose body has no \<open>analysis\<close> ends the submission with the
  \<open>TypeError\<close> of reading \<open>win_ticker\<close> of \<open>undefined\<close>, before the analysis
  insert.
\<close>

lemma missing_analysis_error: "plan_insert w = Inr pid \<Longrightarrow> relay w = Http_reply st (Inr d) \<Longrightarrow> http_ok st \<Longrightarrow>
   d \<noteq> JNull \<Longrightarrow> json_get d ''analysis'' = None \<Longrightarrow>
   submit_run w p = ([Insert_plan (plan_row (sub_formData p)), Post_relay (relay_body p)],
                     Inl ''Cannot read properties of undefined (reading 'win_ticker')'')"
  by (cases d) (simp_all add: submit_run_def read_analysis_def shown_message_def)


section \<open>Witnesses\<close>

lemma submit_run_demo: "submit_run demo_world demo_pending =
   ([Insert_plan (plan_row (sub_formData demo_pending)), Post_relay (relay_body demo_pending),
     Insert_analysis (analysis_row ''p1'' demo_analysis), Update_plan ''p1'' completed_patch],
    Inr demo_analysis)"
  by (simp add: submit_run_def demo_world_def http_ok_def read_analysis_def demo_analysis_def)

lemma submit_success_after_store_demo: "snd (submit_run demo_world demo_pending) = Inr demo_analysis \<and>
   plan_insert demo_world = Inr ''p1'' \<and> analysis_insert demo_world = None \<and>
     fst (submit_run demo_world demo_pending) = [Insert_plan (plan_row (sub_formData demo_pending)), Post_relay (relay_body demo_pending),
       Insert_analysis (analysis_row ''p1'' demo_analysis), Update_plan ''p1'' completed_patch]"
proof -
  have run: "snd (submit_run demo_world demo_pending) = Inr demo_analysis"
    by (simp add: submit_run_demo)
  from submit_success_after_store[OF run] show ?thesis using run by (simp add: demo_world_def)
qed

lemma submit_gap_sent_example: "json_get (plan_row (sub_formData demo_pending)) ''financial_gap'' = Some (JNumber (-1000)) \<and>
   (\<exists>pd. json_get (relay_body demo_pending) ''planData'' = Some pd \<and> json_get pd ''financial_gap'' = Some (JNumber (-1000)))"
  using submit_gap_sent[of demo_pending 6000 5000] by (simp add: demo_pending_def)

lemma status_update_failure_unreported_demo:
  "snd (submit_run (demo_world\<lparr>status_update := Some ''timeout''\<rparr>) demo_pending) = Inr demo_analysis \<and>
   plans (submit_db (demo_world\<lparr>status_update := Some ''timeout''\<rparr>) demo_pending empty_store) = [(''p1'', plan_row (sub_formData demo_pending))] \<and>
   json_get (plan_row (sub_formData demo_pending)) ''status'' = Some (JString ''analyzing'')"
  using status_update_failure_unreported[where w = "demo_world\<lparr>status_update := Some ''timeout''\<rparr>" and pid = "''p1''"
      and code = 200 and d = "JObject [(''analysis'', demo_analysis)]" and a = demo_analysis and p = demo_pending
      and st = empty_store]
  by (simp add: demo_world_def empty_store_def http_ok_def demo_analysis_def)

lemma submit_keeps_store_ok_demo: "store_ok (submit_db demo_world demo_pending empty_store)"
  by (rule submit_keeps_store_ok) (simp add: store_ok_def empty_store_def)

lemma offline_fails: "submit_run (offline_world pid) p =
   ([Insert_plan (plan_row (sub_formData p)), Post_relay (relay_body p)], Inl ''Failed to fetch'')"
  by (simp add: submit_run_def offline_world_def shown_message_def)

lemma failed_submit_leaves_analyzing_demo:
  "analyses (submit_db (offline_world ''p1'') demo_pending empty_store) = [] \<and>
   length (plans (submit_db (offline_world ''p1'') demo_pending empty_store)) \<le> 1"
  using failed_submit_leaves_analyzing[of "offline_world ''p1''" demo_pending empty_store]
  by (auto simp: offline_fails empty_store_def)

lemma retry_inserts_second_plan_demo:
  "plans (submit_db (offline_world ''p2'') demo_pending (submit_db (offline_world ''p1'') demo_pending empty_store)) =
   [(''p1'', plan_row (sub_formData demo_pending)), (''p2'', plan_row (sub_formData demo_pending))]"
proof -
  have "plan_insert (offline_world pid) = Inr pid" for pid
    by (simp add: offline_world_def)
  then show ?thesis
    using retry_inserts_second_plan[of "offline_world ''p1''" "''p1''" "offline_world ''p2''" "''p2''"
        demo_pending empty_store]
    by (simp add: offline_fails empty_store_def)
qed

lemma relay_error_forwarded_demo:
  "submit_run rejected_world demo_pending =
   ([Insert_plan (plan_row (sub_formData demo_pending)), Post_relay (relay_body demo_pending)], Inl ''invalid x-api-key'')"
  by (rule relay_error_forwarded[where pid = "''p1''" and st = 401])
     (simp_all add: rejected_world_def demo_world_def http_ok_def)

lemma plan_insert_failure_stops_demo:
  "submit_run (demo_world\<lparr>plan_insert := Inl ''permission denied''\<rparr>) demo_pending =
     ([Insert_plan (plan_row (sub_formData demo_pending))], Inl ''permission denied'') \<and>
   submit_db (demo_world\<lparr>plan_insert := Inl ''permission denied''\<rparr>) demo_pending empty_store = empty_store"
  using plan_insert_failure_stops[of "demo_world\<lparr>plan_insert := Inl ''permission denied''\<rparr>" "''permission denied''"]
  by (simp add: shown_message_def)

lemma missing_analysis_error_demo:
  "submit_run (demo_world\<lparr>relay := Http_reply 200 (Inr (JObject []))\<rparr>) demo_pending =
     ([Insert_plan (plan_row (sub_formData demo_pending)), Post_relay (relay_body demo_pending)],
      Inl ''Cannot read properties of undefined (reading 'win_ticker')'')"
  by (rule missing_analysis_error[where pid = "''p1''" and st = 200 and d = "JObject []"])
     (simp_all add: demo_world_def http_ok_def)

end
