(* ===== verification/Relay.thy ===== *)
theory Relay
  imports Prelude "HOL-Library.Sublist"
begin

text \<open>
  The enrichment relay, the edge function \<open>src/supabase/functions/analyze-plan/index.ts\<close>:
  a stateless handler from a request to at most one outbound call to the text-generation
  service and a response. The service's answer is the outside world (\<open>upstream\<close>);
  \<open>JSON.parse\<close> is a parameter \<open>parse\<close> of the handler (\<open>Inl\<close> the
  \<open>SyntaxError\<close>'s message). Modelled: the preflight, the destructuring of the body, the
  key check, the prompt template with every interpolation and its \<open>TypeError\<close>s, the
  upstream error branch, \<open>data.content[0].text\<close>, the greedy match of
  \<open>/\{[\s\S]*\}/\<close> as a backtracking matcher, and the outer \<open>catch\<close>.
\<close>

section \<open>Requests, responses and the service\<close>

record request =
  req_method :: string
  req_body :: "string + json"

record response =
  status :: nat
  resp_body :: "json option"
  resp_headers :: "(string \<times> string) list"

record service_call =
  api_key :: string
  call_body :: json

text \<open>What \<open>fetch\<close> of the service gives: a rejection, or a status and the body text.\<close>

datatype upstream =
    Up_rejected string
  | Up_reply nat string

definition corsHeaders :: "(string \<times> string) list" where
  "corsHeaders =
     [(''Access-Control-Allow-Origin'', ''*''),
      (''Access-Control-Allow-Methods'', ''POST, OPTIONS''),
      (''Access-Control-Allow-Headers'', ''Content-Type, Authorization, X-Client-Info, Apikey'')]"

definition json_response :: "nat \<Rightarrow> json \<Rightarrow> response" where
  "json_response st b =
     \<lparr>status = st, resp_body = Some b,
      resp_headers = corsHeaders @ [(''Content-Type'', ''application/json'')]\<rparr>"

definition error_response :: "nat \<Rightarrow> string \<Rightarrow> response" where
  "error_response st m = json_response st (JObject [(''error'', JString m)])"

section \<open>The prompt\<close>

text \<open>
  The template literal as a list of pieces: literal text, \<open>${planData.f}\<close>,
  \<open>${planData.f ? 'Yes' : 'No'}\<close> and \<open>${planData.f?.join(', ')}\<close>.
\<close>

datatype piece =
    Lit string
  | Field string
  | Yes_no string
  | Joined string

definition prompt_template :: "piece list" where
  \<open>prompt_template =
     [Lit (text_lines [''You are an expert life coach and strategist analyzing a comprehensive life plan based on Sabri Suby's "Ambitious But Lazy" framework. Your task is to provide a detailed, personalized action plan.'',
        '''',
        ''Here is the user's complete plan:'',
        '''',
        ''## 1. DECISION MAKING'',
        ''- Has decided: '']),
      Yes_no ''has_decided'',
      Lit (text_lines ['''',
        ''- Habits to cut off: '']),
      Field ''habits_to_cut'',
      Lit (text_lines ['''',
        ''- New version description: '']),
      Field ''new_version_description'',
      Lit (text_lines ['''',
        '''',
        ''## 2. MOTIVATION FUEL'',
        ''- Fuel type: '']),
      Field ''motivation_fuel'',
      Lit (text_lines ['''',
        ''- Fuel description: '']),
      Field ''fuel_description'',
      Lit (text_lines ['''',
        ''- Daily reminder method: '']),
      Field ''daily_fuel_reminder'',
      Lit (text_lines ['''',
        '''',
        ''## 3. DREAM LIFE SUMMARY'',
        ''- Dream day: '']),
      Field ''dream_day'',
      Lit (text_lines ['''',
        ''- Dream week: '']),
      Field ''dream_week'',
      Lit (text_lines ['''',
        ''- Ideal living: '']),
      Field ''ideal_living'',
      Lit (text_lines ['''',
        ''- Current expenses: $'']),
      Field ''current_expenses'',
      Lit (text_lines [''/month'',
        ''- Dream expenses: $'']),
      Field ''dream_expenses'',
      Lit (text_lines [''/month'',
        ''- Financial gap: $'']),
      Field ''financial_gap'',
      Lit (text_lines [''/month'',
        '''',
        ''## 4. FOCUS & ENVIRONMENT'',
        ''- Daily focus areas: '']),
      Joined ''daily_focus'',
      Lit (text_lines ['''',
        ''- Things to cut out: '']),
      Joined ''things_to_cut'',
      Lit (text_lines ['''',
        ''- Environment changes: '']),
      Field ''environment_changes'',
      Lit (text_lines ['''',
        '''',
        ''## 5. MOMENTUM BUILDING'',
        ''- Progress tracking: '']),
      Field ''progress_tracking_method'',
      Lit (text_lines ['''',
        ''- Daily wins to celebrate: '']),
      Joined ''daily_wins'',
      Lit (text_lines ['''',
        ''- Daily planning routine: '']),
      Field ''daily_planning_routine'',
      Lit (text_lines ['''',
        ''- Action commitment: '']),
      Field ''action_commitment'',
      Lit (text_lines ['''',
        '''',
        ''## ADDITIONAL THOUGHTS'',
        '''']),
      Field ''additional_thoughts'',
      Lit (text_lines ['''',
        '''',
        ''Based on this comprehensive information, provide a detailed analysis in the following JSON format:'',
        '''',
        ''{'',
        ''  "win_ticker": ["array of 5-7 quick daily wins to track"],'',
        ''  "dream_life_summary": "A compelling 2-3 paragraph synthesis of their dream life vision",'',
        ''  "focus_areas": ["array of 3-5 main areas they must focus on with specific actions"],'',
        ''  "cut_out_items": ["array of 3-5 specific things they must eliminate (decidere - to cut off)"],'',
        ''  "action_steps": {'',
        ''    "week_1": ["specific actions for week 1"],'',
        ''    "month_1": ["specific milestones for month 1"],'',
        ''    "month_3": ["specific milestones for month 3"],'',
        ''    "month_6": ["specific milestones for month 6"]'',
        ''  },'',
        ''  "momentum_strategy": "Detailed paragraph on how to build and maintain momentum",'',
        ''  "environment_blueprint": "Detailed paragraph on how to engineer their environment for success",'',
        ''  "decision_analysis": "Analysis of their commitment level and what cutting off the old self really means",'',
        ''  "fuel_strategy": "How to leverage their pain/pleasure fuel daily",'',
        ''  "financial_roadmap": "Specific strategy to close the $'']),
      Field ''financial_gap'',
      Lit (text_lines [''/month gap",'',
        ''  "key_insights": ["array of 3-5 powerful insights based on their specific situation"],'',
        ''  "potential_obstacles": ["array of 3-4 likely obstacles and how to overcome them"],'',
        ''  "accountability_system": "Recommended accountability and tracking system"'',
        ''}'',
        '''',
        ''Be specific, actionable, and motivating. Reference their exact goals and situation.''])]\<close>

text \<open>
  One interpolation: \<open>undefined\<close> prints as \<open>undefined\<close>; optional chaining
  gives \<open>undefined\<close> on \<open>null\<close>; \<open>join\<close> prints \<open>null\<close> elements as empty
  strings, and on a value that is not an array it is not a function.
\<close>

fun render_piece :: "json \<Rightarrow> piece \<Rightarrow> string + string" where
  "render_piece pd (Lit s) = Inr s"
| "render_piece pd (Field f) =
     Inr (case json_get pd f of None \<Rightarrow> ''undefined'' | Some v \<Rightarrow> js_string_of v)"
| "render_piece pd (Yes_no f) =
     Inr (case json_get pd f of Some v \<Rightarrow> if json_truthy v then ''Yes'' else ''No'' | None \<Rightarrow> ''No'')"
| "render_piece pd (Joined f) =
     (case json_get pd f of
        None \<Rightarrow> Inr ''undefined''
      | Some JNull \<Rightarrow> Inr ''undefined''
      | Some (JArray xs) \<Rightarrow> Inr (js_join '', '' (map (\<lambda>x. if x = JNull then [] else js_string_of x) xs))
      | Some _ \<Rightarrow> Inl (''planData.'' @ f @ ''?.join is not a function''))"

text \<open>The pieces are evaluated left to right; the first throw ends the evaluation.\<close>

fun render :: "json \<Rightarrow> piece list \<Rightarrow> string + string" where
  "render pd [] = Inr []"
| "render pd (p # ps) =
     (case render_piece pd p of
        Inl e \<Rightarrow> Inl e
      | Inr s \<Rightarrow> (case render pd ps of Inl e \<Rightarrow> Inl e | Inr t \<Rightarrow> Inr (s @ t)))"

definition build_prompt :: "json option \<Rightarrow> string + string" where
  "build_prompt pd =
     (case pd of
        None \<Rightarrow> Inl ''Cannot read properties of undefined (reading 'has_decided')''
      | Some JNull \<Rightarrow> Inl ''Cannot read properties of null (reading 'has_decided')''
      | Some d \<Rightarrow> render d prompt_template)"

definition claude_body :: "string \<Rightarrow> json" where
  "claude_body prompt =
     JObject [(''model'', JString ''claude-3-7-sonnet-20250219''),
              (''max_tokens'', JNumber 4096),
              (''messages'', JArray [JObject [(''role'', JString ''user''), (''content'', JString prompt)]])]"

section \<open>The reply\<close>

text \<open>\<open>v[i]\<close> on a parsed JSON value.\<close>

fun json_at :: "json \<Rightarrow> nat \<Rightarrow> json option" where
  "json_at (JArray xs) i = (if i < length xs then Some (xs ! i) else None)"
| "json_at (JString s) i = (if i < length s then Some (JString [s ! i]) else None)"
| "json_at (JObject ps) i = json_get (JObject ps) (decimal i)"
| "json_at _ i = None"

text \<open>\<open>data.content[0].text\<close> and the call of its \<open>match\<close> method.\<close>

definition content_text :: "json \<Rightarrow> string + string" where
  "content_text data =
     (if data = JNull then Inl ''Cannot read properties of null (reading 'content')''
      else case json_get data ''content'' of
        None \<Rightarrow> Inl ''Cannot read properties of undefined (reading '0')''
      | Some JNull \<Rightarrow> Inl ''Cannot read properties of null (reading '0')''
      | Some c \<Rightarrow>
          (case json_at c 0 of
             None \<Rightarrow> Inl ''Cannot read properties of undefined (reading 'text')''
           | Some JNull \<Rightarrow> Inl ''Cannot read properties of null (reading 'text')''
           | Some b \<Rightarrow>
               (case json_get b ''text'' of
                  None \<Rightarrow> Inl ''Cannot read properties of undefined (reading 'match')''
                | Some JNull \<Rightarrow> Inl ''Cannot read properties of null (reading 'match')''
                | Some (JString t) \<Rightarrow> Inr t
                | Some _ \<Rightarrow> Inl ''analysisText.match is not a function'')))"

text \<open>
  \<open>analysisText.match(/\{[\s\S]*\}/)\<close> by backtracking. \<open>close_len cs\<close> matches
  \<open>[\s\S]*\}\<close> at the start of \<open>cs\<close>: the star first takes one more character and
  retries, and only when that fails does \<open>\}\<close> have to match here; it gives the
  length matched. \<open>brace_search\<close> tries the start positions from left to right.
\<close>

fun close_len :: "string \<Rightarrow> nat option" where
  "close_len [] = None"
| "close_len (c # cs) =
     (case close_len cs of
        Some n \<Rightarrow> Some (Suc n)
      | None \<Rightarrow> if c = CHR ''}'' then Some 1 else None)"

fun brace_search :: "string \<Rightarrow> string option" where
  "brace_search [] = None"
| "brace_search (c # cs) =
     (if c = CHR ''{''
      then (case close_len cs of Some n \<Rightarrow> Some (c # take n cs) | None \<Rightarrow> brace_search cs)
      else brace_search cs)"

section \<open>The handler\<close>

text \<open>
  \<open>const { planData, anthropicApiKey } = await req.json()\<close>: the two properties of the
  body, or the thrown error's message.
\<close>

definition read_request :: "string + json \<Rightarrow> string + (json option \<times> json option)" where
  "read_request b =
     (case b of
        Inl e \<Rightarrow> Inl e
      | Inr JNull \<Rightarrow>
          Inl ''Cannot destructure property 'planData' of '(intermediate value)' as it is null.''
      | Inr d \<Rightarrow> Inr (json_get d ''planData'', json_get d ''anthropicApiKey''))"

definition key_truthy :: "json option \<Rightarrow> bool" where
  "key_truthy k = (case k of None \<Rightarrow> False | Some v \<Rightarrow> json_truthy v)"

text \<open>After the outbound call: the upstream error, the parse of the reply, the match.\<close>

definition relay_reply :: "(string \<Rightarrow> string + json) \<Rightarrow> upstream \<Rightarrow> response" where
  "relay_reply parse up =
     (case up of
        Up_rejected e \<Rightarrow> error_response 500 e
      | Up_reply st reply_text \<Rightarrow>
          if \<not> http_ok st then error_response st (''Claude API error: '' @ reply_text)
          else
            (case parse reply_text of
               Inl e \<Rightarrow> error_response 500 e
             | Inr data \<Rightarrow>
                 (case content_text data of
                    Inl e \<Rightarrow> error_response 500 e
                  | Inr t \<Rightarrow>
                      (case brace_search t of
                         None \<Rightarrow> error_response 500 ''Could not parse AI response''
                       | Some m \<Rightarrow>
                           (case parse m of
                              Inl e \<Rightarrow> error_response 500 e
                            | Inr a \<Rightarrow> json_response 200 (JObject [(''analysis'', a)]))))))"

definition relay_handler ::
  "(string \<Rightarrow> string + json) \<Rightarrow> upstream \<Rightarrow> request \<Rightarrow> service_call option \<times> response" where
  "relay_handler parse up req =
     (if req_method req = ''OPTIONS''
      then (None, \<lparr>status = 200, resp_body = None, resp_headers = corsHeaders\<rparr>)
      else
        (case read_request (req_body req) of
           Inl e \<Rightarrow> (None, error_response 500 e)
         | Inr (pd, key) \<Rightarrow>
             if \<not> key_truthy key then (None, error_response 400 ''Anthropic API key is required'')
             else
               (case build_prompt pd of
                  Inl e \<Rightarrow> (None, error_response 500 e)
                | Inr prompt \<Rightarrow>
                    (Some \<lparr>api_key = js_string_of (the key), call_body = claude_body prompt\<rparr>,
                     relay_reply parse up))))"

text \<open>The specification's reading of the match: from the first \<open>{\<close> to the last \<open>}\<close>.\<close>

definition brace_span :: "string \<Rightarrow> string option" where
  "brace_span s =
     (let t = dropWhile (\<lambda>c. c \<noteq> CHR ''{'') s
      in if t \<noteq> [] \<and> CHR ''}'' \<in> set (tl t)
         then Some (rev (dropWhile (\<lambda>c. c \<noteq> CHR ''}'') (rev t))) else None)"

text \<open>
  \<open>join_ok v\<close>: \<open>v?.join(', ')\<close> does not throw (an array, \<open>null\<close> or
  \<open>undefined\<close>).
\<close>

definition join_ok :: "json option \<Rightarrow> bool" where
  "join_ok v = (case v of None \<Rightarrow> True | Some JNull \<Rightarrow> True | Some (JArray _) \<Rightarrow> True | Some _ \<Rightarrow> False)"

section \<open>Example requests\<close>

text \<open>
  A request with a key and a plan with one text field and one list, a service reply whose
  text holds a JSON block, and a table standing for \<open>JSON.parse\<close> on the two texts
  involved.
\<close>

definition demo_plan :: json where
  "demo_plan = JObject [(''dream_day'', JString ''Surf at dawn''), (''daily_focus'', JArray [JString ''Write''])]"

definition demo_request :: request where
  "demo_request = \<lparr>req_method = ''POST'',
     req_body = Inr (JObject [(''planData'', demo_plan), (''anthropicApiKey'', JString ''sk-ant'')])\<rparr>"

definition demo_reply :: json where
  "demo_reply = JObject [(''content'', JArray [JObject [(''text'', JString ''Plan: {} done'')]])]"

definition demo_parse :: "string \<Rightarrow> string + json" where
  "demo_parse s =
     (if s = ''reply'' then Inr demo_reply else if s = ''{}'' then Inr (JObject [])
      else Inl ''Unexpected token'')"

section \<open>Facts\<close>

lemma rev_dropWhile_rev: "rev (dropWhile P (rev xs)) = take (length (dropWhile P (rev xs))) xs"
proof -
  have "dropWhile P (rev xs) = drop (length (takeWhile P (rev xs))) (rev xs)"
    by (rule dropWhile_eq_drop)
  then show ?thesis by (simp add: rev_drop)
qed

lemma close_len_last:
  "close_len cs =
     (if CHR ''}'' \<in> set cs then Some (length (dropWhile (\<lambda>c. c \<noteq> CHR ''}'') (rev cs))) else None)"
proof (induction cs)
  case Nil
  then show ?case by simp
next
  case (Cons c cs)
  show ?case
  proof (cases "CHR ''}'' \<in> set cs")
    case True
    then have "dropWhile (\<lambda>c. c \<noteq> CHR ''}'') (rev cs @ [c]) = dropWhile (\<lambda>c. c \<noteq> CHR ''}'') (rev cs) @ [c]"
      by (intro dropWhile_append1) auto
    then show ?thesis using Cons True by simp
  next
    case False
    then have "dropWhile (\<lambda>c. c \<noteq> CHR ''}'') (rev cs @ [c]) = dropWhile (\<lambda>c. c \<noteq> CHR ''}'') [c]"
      by (intro dropWhile_append2) auto
    then show ?thesis using Cons False by auto
  qed
qed

lemma close_len_take:
  "close_len cs = Some n \<Longrightarrow> take n cs = rev (dropWhile (\<lambda>c. c \<noteq> CHR ''}'') (rev cs))"
  by (metis close_len_last option.distinct(1) option.inject rev_dropWhile_rev)

lemma brace_span_Cons_other: "c \<noteq> CHR ''{'' \<Longrightarrow> brace_span (c # cs) = brace_span cs"
  by (simp add: brace_span_def)

lemma brace_span_no_close: "CHR ''}'' \<notin> set s \<Longrightarrow> brace_span s = None"
proof -
  assume "CHR ''}'' \<notin> set s"
  moreover have "set (tl (dropWhile (\<lambda>c. c \<noteq> CHR ''{'') s)) \<subseteq> set s"
    by (metis list.set_sel(2) set_dropWhileD subsetI tl_Nil)
  ultimately show ?thesis by (auto simp: brace_span_def Let_def)
qed

lemma close_len_Some: "close_len cs = Some n \<Longrightarrow> 0 < n \<and> n \<le> length cs \<and> cs ! (n - 1) = CHR ''}''"
  by (induction cs arbitrary: n) (auto split: option.splits if_splits)

lemma render_piece_sublist:
  "render pd ps = Inr pr \<Longrightarrow> p \<in> set ps \<Longrightarrow> render_piece pd p = Inr s \<Longrightarrow> sublist s pr"
proof (induction ps arbitrary: pr)
  case Nil
  then show ?case by simp
next
  case (Cons q ps)
  then obtain s' t where q: "render_piece pd q = Inr s'" and t: "render pd ps = Inr t" and pr: "pr = s' @ t"
    by (auto split: sum.splits)
  show ?case
  proof (cases "p = q")
    case True
    then show ?thesis using q pr Cons.prems by auto
  next
    case False
    then have "sublist s t" using Cons t by auto
    then show ?thesis using pr by (simp add: sublist_append)
  qed
qed

lemma render_ok:
  "(\<And>f. Joined f \<in> set ps \<Longrightarrow> join_ok (json_get pd f)) \<Longrightarrow> \<exists>pr. render pd ps = Inr pr"
proof (induction ps)
  case Nil
  then show ?case by simp
next
  case (Cons p ps)
  then obtain t where t: "render pd ps = Inr t" by auto
  have "\<exists>s. render_piece pd p = Inr s"
  proof (cases p)
    case (Joined f)
    then have "join_ok (json_get pd f)" using Cons.prems by simp
    then show ?thesis using Joined by (auto simp: join_ok_def split: option.splits json.splits)
  qed simp_all
  then show ?case using t by auto
qed

lemma demo_prompt: "\<exists>pr. build_prompt (Some demo_plan) = Inr pr"
  unfolding build_prompt_def demo_plan_def
  by (simp, rule render_ok) (auto simp: prompt_template_def join_ok_def)

lemma demo_request_facts:
  "req_method demo_request \<noteq> ''OPTIONS''"
  "read_request (req_body demo_request) = Inr (Some demo_plan, Some (JString ''sk-ant''))"
  "key_truthy (Some (JString ''sk-ant''))"
  by (simp_all add: demo_request_def read_request_def demo_plan_def key_truthy_def)

section \<open>Properties of the relay\<close>

text \<open>
  C25. The relay's match of \<open>/\{[\s\S]*\}/\<close>, computed by backtracking, is the span from
  the first \<open>{\<close> of the reply to the last \<open>}\<close> after it, and there is none exactly
  when no \<open>}\<close> follows a \<open>{\<close>.
\<close>

lemma brace_search_first_to_last: "brace_search s = brace_span s"
proof (induction s)
  case Nil
  then show ?case by (simp add: brace_span_def)
next
  case (Cons c cs)
  show ?case
  proof (cases "c = CHR ''{''")
    case True
    show ?thesis
    proof (cases "close_len cs")
      case None
      then have "CHR ''}'' \<notin> set cs" by (simp add: close_len_last split: if_splits)
      then show ?thesis using None True Cons brace_span_no_close by (simp add: brace_span_def)
    next
      case (Some n)
      then have "CHR ''}'' \<in> set cs" by (simp add: close_len_last split: if_splits)
      then show ?thesis using Some True close_len_take[OF Some]
        by (simp add: brace_span_def dropWhile_append1)
    qed
  next
    case False
    then show ?thesis using Cons by (simp add: brace_span_Cons_other)
  qed
qed

text \<open>
  C26. A match is a contiguous part of the reply that starts with \<open>{\<close> and ends with
  \<open>}\<close>.
\<close>

lemma brace_search_block: "brace_search s = Some m \<Longrightarrow> sublist m s \<and> hd m = CHR ''{'' \<and> last m = CHR ''}''"
proof (induction s)
  case Nil
  then show ?case by simp
next
  case (Cons c cs)
  show ?case
  proof (cases "c = CHR ''{'' \<and> close_len cs \<noteq> None")
    case True
    then obtain n where n: "close_len cs = Some n" by auto
    then have m: "m = c # take n cs" using Cons.prems True by simp
    have "sublist (c # take n cs) (c # cs)"
      by (metis append_take_drop_id prefix_imp_sublist prefix_order.le_less Cons_prefix_Cons prefixI)
    moreover have "last (c # take n cs) = CHR ''}''"
    proof -
      have ne: "take n cs \<noteq> []" using close_len_Some[OF n] by auto
      then have "last (take n cs) = take n cs ! (n - 1)"
        using close_len_Some[OF n] by (simp add: last_conv_nth min_absorb1)
      then show ?thesis using ne close_len_Some[OF n] by simp
    qed
    ultimately show ?thesis using m True by simp
  next
    case False
    then have "brace_search cs = Some m" using Cons.prems by (auto split: if_splits option.splits)
    then show ?thesis using Cons.IH by (auto simp: sublist_Cons_right)
  qed
qed

text \<open>
  C27. A request whose key is missing or empty is answered 400 with
  \<open>Anthropic API key is required\<close>, and the service is not called.
\<close>

lemma relay_missing_key:
  "req_method req \<noteq> ''OPTIONS'' \<Longrightarrow> read_request (req_body req) = Inr (pd, key) \<Longrightarrow> \<not> key_truthy key \<Longrightarrow>
   relay_handler parse up req = (None, error_response 400 ''Anthropic API key is required'')"
  by (simp add: relay_handler_def)

text \<open>
  C28. A non-2xx answer of the service is forwarded with its status; the error message is
  the service's body after the prefix \<open>Claude API error: \<close> (not verbatim, as the
  specification says).
\<close>

lemma relay_upstream_error:
  "req_method req \<noteq> ''OPTIONS'' \<Longrightarrow> read_request (req_body req) = Inr (pd, key) \<Longrightarrow> key_truthy key \<Longrightarrow>
   build_prompt pd = Inr pr \<Longrightarrow> up = Up_reply st reply_text \<Longrightarrow> \<not> http_ok st \<Longrightarrow>
   relay_handler parse up req =
     (Some \<lparr>api_key = js_string_of (the key), call_body = claude_body pr\<rparr>,
      error_response st (''Claude API error: '' @ reply_text))"
  by (simp add: relay_handler_def relay_reply_def)

text \<open>
  C29. A reply text without a brace-delimited block gives 500 with
  \<open>Could not parse AI response\<close>.
\<close>

lemma relay_no_block:
  "req_method req \<noteq> ''OPTIONS'' \<Longrightarrow> read_request (req_body req) = Inr (pd, key) \<Longrightarrow> key_truthy key \<Longrightarrow>
   build_prompt pd = Inr pr \<Longrightarrow> up = Up_reply st reply_text \<Longrightarrow> http_ok st \<Longrightarrow> parse reply_text = Inr data \<Longrightarrow>
   content_text data = Inr t \<Longrightarrow> brace_search t = None \<Longrightarrow>
   snd (relay_handler parse up req) = error_response 500 ''Could not parse AI response''"
  by (simp add: relay_handler_def relay_reply_def)

text \<open>
  C30. On a 2xx answer whose first text block holds a JSON block that parses, the relay
  makes exactly one call, with the key and the prompt, and answers 200 with
  \<open>{ analysis }\<close>, the parsed block.
\<close>

lemma relay_success:
  "req_method req \<noteq> ''OPTIONS'' \<Longrightarrow> read_request (req_body req) = Inr (pd, key) \<Longrightarrow> key_truthy key \<Longrightarrow>
   build_prompt pd = Inr pr \<Longrightarrow> up = Up_reply st reply_text \<Longrightarrow> http_ok st \<Longrightarrow> parse reply_text = Inr data \<Longrightarrow>
   content_text data = Inr t \<Longrightarrow> brace_search t = Some m \<Longrightarrow> parse m = Inr a \<Longrightarrow>
   relay_handler parse up req =
     (Some \<lparr>api_key = js_string_of (the key), call_body = claude_body pr\<rparr>,
      json_response 200 (JObject [(''analysis'', a)]))"
  by (simp add: relay_handler_def relay_reply_def)

text \<open>
  When the extracted block does not parse, the exception's message is returned with
  status 500 by the outer \<open>catch\<close>.
\<close>

lemma relay_parse_failure:
  "req_method req \<noteq> ''OPTIONS'' \<Longrightarrow> read_request (req_body req) = Inr (pd, key) \<Longrightarrow> key_truthy key \<Longrightarrow>
   build_prompt pd = Inr pr \<Longrightarrow> up = Up_reply st reply_text \<Longrightarrow> http_ok st \<Longrightarrow> parse reply_text = Inr data \<Longrightarrow>
   content_text data = Inr t \<Longrightarrow> brace_search t = Some m \<Longrightarrow> parse m = Inl e \<Longrightarrow>
   snd (relay_handler parse up req) = error_response 500 e"
  by (simp add: relay_handler_def relay_reply_def)

text \<open>
  C32. The service is called only for a non-preflight request with a truthy key whose
  prompt could be built, with that key and that prompt.
\<close>

lemma relay_call_needs_key:
  "fst (relay_handler parse up req) = Some c \<Longrightarrow>
   \<exists>pd k pr. req_method req \<noteq> ''OPTIONS'' \<and> read_request (req_body req) = Inr (pd, Some k) \<and> json_truthy k \<and>
     build_prompt pd = Inr pr \<and> c = \<lparr>api_key = js_string_of k, call_body = claude_body pr\<rparr>"
  by (auto simp: relay_handler_def key_truthy_def split: if_splits sum.splits option.splits)

text \<open>Every response of the relay carries the CORS headers.\<close>

lemma relay_cors: "prefix corsHeaders (resp_headers (snd (relay_handler parse up req)))"
  by (auto simp: relay_handler_def relay_reply_def error_response_def json_response_def
      split: sum.splits upstream.splits option.splits)

text \<open>
  C34. Every text answer interpolated into the prompt template appears in the prompt
  verbatim.
\<close>

lemma prompt_has_field:
  "build_prompt (Some pd) = Inr pr \<Longrightarrow> Field f \<in> set prompt_template \<Longrightarrow>
   json_get pd f = Some (JString s) \<Longrightarrow> sublist s pr"
  by (cases "pd = JNull") (auto simp: build_prompt_def intro: render_piece_sublist split: json.splits)

section \<open>Witnesses\<close>

lemma brace_search_block_demo: "brace_search ''Plan: {} done'' = Some ''{}'' \<and> sublist ''{}'' ''Plan: {} done'' \<and> hd ''{}'' = CHR ''{'' \<and> last ''{}'' = CHR ''}''"
proof -
  have s: "brace_search ''Plan: {} done'' = Some ''{}''" by simp
  show ?thesis using brace_search_block[OF s] s by simp
qed

lemma relay_missing_key_demo:
  "relay_handler demo_parse (Up_reply 200 ''reply'') (demo_request\<lparr>req_body := Inr (JObject [(''planData'', demo_plan), (''anthropicApiKey'', JString [])])\<rparr>) =
   (None, error_response 400 ''Anthropic API key is required'')"
proof -
  have "read_request (Inr (JObject [(''planData'', demo_plan), (''anthropicApiKey'', JString [])])) =
    Inr (Some demo_plan, Some (JString []))" "\<not> key_truthy (Some (JString []))"
    by (simp_all add: read_request_def demo_plan_def key_truthy_def)
  then show ?thesis using relay_missing_key by (simp add: demo_request_def)
qed

lemma relay_upstream_error_demo:
  "snd (relay_handler demo_parse (Up_reply 401 ''invalid x-api-key'') demo_request) =
   error_response 401 ''Claude API error: invalid x-api-key''"
proof -
  obtain pr where pr: "build_prompt (Some demo_plan) = Inr pr" using demo_prompt by blast
  have "\<not> http_ok 401" by (simp add: http_ok_def)
  from relay_upstream_error[OF demo_request_facts pr refl this] show ?thesis by simp
qed

lemma relay_no_block_demo:
  "snd (relay_handler (\<lambda>s. Inr (JObject [(''content'', JArray [JObject [(''text'', JString ''Sorry'')]])])) (Up_reply 200 ''reply'') demo_request) =
   error_response 500 ''Could not parse AI response''"
proof -
  obtain pr where pr: "build_prompt (Some demo_plan) = Inr pr" using demo_prompt by blast
  have "http_ok 200" by (simp add: http_ok_def)
  moreover have "content_text (JObject [(''content'', JArray [JObject [(''text'', JString ''Sorry'')]])]) = Inr ''Sorry''"
    by (simp add: content_text_def)
  moreover have "brace_search ''Sorry'' = None" by simp
  ultimately show ?thesis using relay_no_block[OF demo_request_facts pr refl] by simp
qed

lemma relay_success_demo:
  "relay_handler demo_parse (Up_reply 200 ''reply'') demo_request =
     (Some \<lparr>api_key = ''sk-ant'', call_body = claude_body (projr (build_prompt (Some demo_plan)))\<rparr>,
      json_response 200 (JObject [(''analysis'', JObject [])]))"
proof -
  obtain pr where pr: "build_prompt (Some demo_plan) = Inr pr" using demo_prompt by blast
  have req: "req_method demo_request \<noteq> ''OPTIONS''"
    "read_request (req_body demo_request) = Inr (Some demo_plan, Some (JString ''sk-ant''))"
    "key_truthy (Some (JString ''sk-ant''))"
    by (simp_all add: demo_request_def read_request_def demo_plan_def key_truthy_def)
  have reply: "http_ok 200" "demo_parse ''reply'' = Inr demo_reply"
    "content_text demo_reply = Inr ''Plan: {} done''" "brace_search ''Plan: {} done'' = Some ''{}''"
    "demo_parse ''{}'' = Inr (JObject [])"
    by (simp_all add: http_ok_def demo_parse_def content_text_def demo_reply_def)
  show ?thesis
    using relay_success[OF req pr refl reply] pr by simp
qed

lemma relay_parse_failure_demo:
  "snd (relay_handler (\<lambda>s. if s = ''reply'' then Inr (JObject [(''content'', JArray [JObject [(''text'', JString ''{oops}'')]])]) else Inl ''Unexpected token o in JSON at position 1'')
          (Up_reply 200 ''reply'') demo_request) =
   error_response 500 ''Unexpected token o in JSON at position 1''"
proof -
  obtain pr where pr: "build_prompt (Some demo_plan) = Inr pr" using demo_prompt by blast
  have "http_ok 200" by (simp add: http_ok_def)
  moreover have "content_text (JObject [(''content'', JArray [JObject [(''text'', JString ''{oops}'')]])]) = Inr ''{oops}''"
    by (simp add: content_text_def)
  moreover have "brace_search ''{oops}'' = Some ''{oops}''" by simp
  ultimately show ?thesis using relay_parse_failure[OF demo_request_facts pr refl] by simp
qed

lemma relay_call_needs_key_demo:
  "\<exists>pd k pr. req_method demo_request \<noteq> ''OPTIONS'' \<and> read_request (req_body demo_request) = Inr (pd, Some k) \<and>
     json_truthy k \<and> build_prompt pd = Inr pr \<and>
     \<lparr>api_key = ''sk-ant'', call_body = claude_body (projr (build_prompt (Some demo_plan)))\<rparr> =
       \<lparr>api_key = js_string_of k, call_body = claude_body pr\<rparr>"
  using relay_call_needs_key[of demo_parse "Up_reply 200 ''reply''" demo_request] relay_success_demo by simp

lemma prompt_has_field_demo: "sublist ''Surf at dawn'' (projr (build_prompt (Some demo_plan)))"
proof -
  obtain pr where pr: "build_prompt (Some demo_plan) = Inr pr" using demo_prompt by blast
  have "sublist ''Surf at dawn'' pr"
    by (rule prompt_has_field[OF pr, where f = "''dream_day''"])
       (simp_all add: prompt_template_def demo_plan_def)
  then show ?thesis using pr by simp
qed

end
