(* ===== verification/ActionPlan.thy ===== *)
theory ActionPlan
  imports Prelude
begin

text \<open>
  The rendering of an analysis, \<open>src/src/components/ActionPlan.tsx\<close>. The component
  reads the analysis's fields in the order of its JSX: texts are children
  \<open>{analysis.f}\<close>, lists are \<open>analysis.f.map(...)\<close>, and the four timeline lists
  are \<open>analysis.action_steps.f.map(...)\<close>. Rendering has two phases as in React: the
  component function runs first, where a read of \<open>undefined\<close> or \<open>null\<close> or a
  \<open>.map\<close> on a non-array throws a \<open>TypeError\<close>; then React turns the children into
  text, where an object child throws. An exception escapes (there is no error boundary)
  and the page is lost: \<open>Inl\<close> its message. Otherwise the result is the list of
  sections, each a heading and the texts shown under it.
\<close>

section \<open>The sections\<close>

datatype part =
    Text_part string string
  | List_part string string
  | Step_part string string

fun part_title :: "part \<Rightarrow> string" where
  "part_title (Text_part t k) = t"
| "part_title (List_part t k) = t"
| "part_title (Step_part t k) = t"

definition plan_parts :: "part list" where
  "plan_parts =
     [Text_part ''Dream Life Summary'' ''dream_life_summary'',
      List_part ''Focus Areas'' ''focus_areas'',
      List_part ''Cut Out (Decidere)'' ''cut_out_items'',
      List_part ''Win Ticker - Daily Tracking'' ''win_ticker'',
      Step_part ''Week 1'' ''week_1'',
      Step_part ''Month 1'' ''month_1'',
      Step_part ''Month 3'' ''month_3'',
      Step_part ''Month 6'' ''month_6'',
      Text_part ''Momentum Strategy'' ''momentum_strategy'',
      Text_part ''Environment Blueprint'' ''environment_blueprint'',
      Text_part ''Financial Roadmap'' ''financial_roadmap'',
      List_part ''Key Insights'' ''key_insights'',
      List_part ''Potential Obstacles & Solutions'' ''potential_obstacles'',
      Text_part ''Decision Analysis'' ''decision_analysis'',
      Text_part ''Fuel Strategy'' ''fuel_strategy'',
      Text_part ''Accountability System'' ''accountability_system'']"

section \<open>The component function\<close>

text \<open>The \<open>TypeError\<close> of reading \<open>k\<close> of \<open>undefined\<close> or \<open>null\<close>.\<close>

definition prop_error :: "string \<Rightarrow> string \<Rightarrow> string" where
  "prop_error what k =
     ''Cannot read properties of '' @ what @ '' (reading '' @ [CHR 0x27] @ k @ [CHR 0x27] @ '')''"

text \<open>\<open>v.k\<close> on a value that may be \<open>undefined\<close> (\<open>None\<close>).\<close>

definition read_prop :: "json option \<Rightarrow> string \<Rightarrow> string + json option" where
  "read_prop v k =
     (case v of
        None \<Rightarrow> Inl (prop_error ''undefined'' k)
      | Some JNull \<Rightarrow> Inl (prop_error ''null'' k)
      | Some d \<Rightarrow> Inr (json_get d k))"

text \<open>\<open>e.map(x => <li>{x}</li>)\<close>, where \<open>e\<close> is the source text of the receiver.\<close>

definition map_items :: "string \<Rightarrow> json option \<Rightarrow> string + json option list" where
  "map_items e v =
     (case v of
        None \<Rightarrow> Inl (prop_error ''undefined'' ''map'')
      | Some JNull \<Rightarrow> Inl (prop_error ''null'' ''map'')
      | Some (JArray xs) \<Rightarrow> Inr (map Some xs)
      | Some _ \<Rightarrow> Inl (e @ ''.map is not a function''))"

text \<open>The children of one section, as the component function computes them.\<close>

fun part_children :: "json \<Rightarrow> part \<Rightarrow> string + json option list" where
  "part_children a (Text_part t k) =
     (case read_prop (Some a) k of Inl m \<Rightarrow> Inl m | Inr v \<Rightarrow> Inr [v])"
| "part_children a (List_part t k) =
     (case read_prop (Some a) k of Inl m \<Rightarrow> Inl m | Inr v \<Rightarrow> map_items (''analysis.'' @ k) v)"
| "part_children a (Step_part t k) =
     (case read_prop (Some a) ''action_steps'' of
        Inl m \<Rightarrow> Inl m
      | Inr s \<Rightarrow>
          (case read_prop s k of
             Inl m \<Rightarrow> Inl m
           | Inr v \<Rightarrow> map_items (''analysis.action_steps.'' @ k) v))"

fun collect_parts :: "json \<Rightarrow> part list \<Rightarrow> string + (string \<times> json option list) list" where
  "collect_parts a [] = Inr []"
| "collect_parts a (p # ps) =
     (case part_children a p of
        Inl m \<Rightarrow> Inl m
      | Inr cs \<Rightarrow> (case collect_parts a ps of Inl m \<Rightarrow> Inl m | Inr r \<Rightarrow> Inr ((part_title p, cs) # r)))"

section \<open>React's rendering of the children\<close>

text \<open>
  A child \<open>{v}\<close>: \<open>undefined\<close>, \<open>null\<close> and booleans render nothing, strings and
  numbers their text, arrays their elements; an object is not a valid child.
\<close>

fun child_text :: "json \<Rightarrow> string + string" where
  "child_text JNull = Inr []"
| "child_text (JBool b) = Inr []"
| "child_text (JNumber r) = Inr (number_string r)"
| "child_text (JString s) = Inr s"
| "child_text (JArray xs) =
     foldr (\<lambda>x r. case child_text x of
                    Inl m \<Rightarrow> Inl m
                  | Inr s \<Rightarrow> (case r of Inl m \<Rightarrow> Inl m | Inr t \<Rightarrow> Inr (s @ t))) xs (Inr [])"
| "child_text (JObject ps) =
     Inl (''Objects are not valid as a React child (found: object with keys {'' @
          js_join '', '' (map fst ps) @
          ''}). If you meant to render a collection of children, use an array instead.'')"

fun render_children :: "json option list \<Rightarrow> string + string list" where
  "render_children [] = Inr []"
| "render_children (c # cs) =
     (case (case c of None \<Rightarrow> Inr [] | Some v \<Rightarrow> child_text v) of
        Inl m \<Rightarrow> Inl m
      | Inr s \<Rightarrow> (case render_children cs of Inl m \<Rightarrow> Inl m | Inr r \<Rightarrow> Inr (s # r)))"

fun render_sections :: "(string \<times> json option list) list \<Rightarrow> string + (string \<times> string list) list" where
  "render_sections [] = Inr []"
| "render_sections ((t, cs) # r) =
     (case render_children cs of
        Inl m \<Rightarrow> Inl m
      | Inr ss \<Rightarrow> (case render_sections r of Inl m \<Rightarrow> Inl m | Inr v \<Rightarrow> Inr ((t, ss) # v)))"

definition action_plan :: "json \<Rightarrow> string + (string \<times> string list) list" where
  "action_plan a = (case collect_parts a plan_parts of Inl m \<Rightarrow> Inl m | Inr els \<Rightarrow> render_sections els)"

section \<open>The declared type of the analysis\<close>

text \<open>
  \<open>ActionPlanProps['analysis']\<close>: an object whose text fields are strings, whose list
  fields are arrays of strings, and whose \<open>action_steps\<close> is an object of four such
  arrays.
\<close>

fun is_jstring :: "json \<Rightarrow> bool" where
  "is_jstring (JString s) = True"
| "is_jstring _ = False"

definition str_array :: "json option \<Rightarrow> bool" where
  "str_array v = (case v of Some (JArray xs) \<Rightarrow> list_all is_jstring xs | _ \<Rightarrow> False)"

fun part_ok :: "json \<Rightarrow> part \<Rightarrow> bool" where
  "part_ok a (Text_part t k) = (case json_get a k of Some (JString s) \<Rightarrow> True | _ \<Rightarrow> False)"
| "part_ok a (List_part t k) = str_array (json_get a k)"
| "part_ok a (Step_part t k) =
     (case json_get a ''action_steps'' of
        Some (JObject ps) \<Rightarrow> str_array (json_get (JObject ps) k)
      | _ \<Rightarrow> False)"

definition analysis_ok :: "json \<Rightarrow> bool" where
  "analysis_ok a = ((case a of JObject ps \<Rightarrow> True | _ \<Rightarrow> False) \<and> list_all (part_ok a) plan_parts)"

text \<open>The texts a section of a well-typed analysis shows.\<close>

fun js_text :: "json \<Rightarrow> string" where
  "js_text (JString s) = s"
| "js_text _ = []"

definition strings_of :: "json option \<Rightarrow> string list" where
  "strings_of v = (case v of Some (JArray xs) \<Rightarrow> map js_text xs | _ \<Rightarrow> [])"

fun part_texts :: "json \<Rightarrow> part \<Rightarrow> string list" where
  "part_texts a (Text_part t k) = (case json_get a k of Some (JString s) \<Rightarrow> [s] | _ \<Rightarrow> [])"
| "part_texts a (List_part t k) = strings_of (json_get a k)"
| "part_texts a (Step_part t k) =
     (case json_get a ''action_steps'' of Some st \<Rightarrow> strings_of (json_get st k) | None \<Rightarrow> [])"

section \<open>Example analyses\<close>

text \<open>
  An analysis of the declared shape, and the analysis of the submission examples, which
  has only a win ticker.
\<close>

definition full_analysis :: json where
  "full_analysis =
     JObject [(''win_ticker'', JArray [JString ''Walked'']),
              (''dream_life_summary'', JString ''Mornings by the sea''),
              (''focus_areas'', JArray [JString ''Health'', JString ''Income'']),
              (''cut_out_items'', JArray [JString ''Late nights'']),
              (''action_steps'', JObject [(''week_1'', JArray [JString ''Plan'']), (''month_1'', JArray []),
                                          (''month_3'', JArray []), (''month_6'', JArray [])]),
              (''momentum_strategy'', JString ''Small wins''),
              (''environment_blueprint'', JString ''Clear desk''),
              (''decision_analysis'', JString ''Committed''),
              (''fuel_strategy'', JString ''Pleasure''),
              (''financial_roadmap'', JString ''Save 1000''),
              (''key_insights'', JArray []),
              (''potential_obstacles'', JArray [JString ''Fatigue'']),
              (''accountability_system'', JString ''Weekly review'')]"

definition ticker_only :: json where
  "ticker_only = JObject [(''win_ticker'', JArray [JString ''Walked''])]"

section \<open>Facts\<close>

lemma read_prop_Some:
  "read_prop (Some a) k = (if a = JNull then Inl (prop_error ''null'' k) else Inr (json_get a k))"
  by (cases a) (simp_all add: read_prop_def)

lemma read_prop_None: "read_prop None k = Inl (prop_error ''undefined'' k)"
  by (simp add: read_prop_def)

lemma collect_parts_Inl: "p \<in> set ps \<Longrightarrow> part_children a p = Inl m \<Longrightarrow> \<exists>m'. collect_parts a ps = Inl m'"
  by (induction ps) (auto split: sum.splits)

lemma js_text_inv: "is_jstring x \<Longrightarrow> JString (js_text x) = x"
  by (cases x) simp_all

lemma str_array_strings:
  assumes "str_array v"
  shows "map_items e v = Inr (map (\<lambda>s. Some (JString s)) (strings_of v))"
proof -
  obtain xs where v: "v = Some (JArray xs)" and all: "list_all is_jstring xs"
    using assms unfolding str_array_def by (auto split: option.splits json.splits)
  have "map (\<lambda>s. Some (JString s)) (map js_text xs) = map Some xs"
    using all by (induction xs) (simp_all add: js_text_inv)
  then show ?thesis by (simp add: v map_items_def strings_of_def)
qed

lemma part_children_ok:
  "a = JObject qs \<Longrightarrow> part_ok a p \<Longrightarrow> part_children a p = Inr (map (\<lambda>s. Some (JString s)) (part_texts a p))"
proof (cases p)
  case (Text_part t k)
  assume "a = JObject qs" "part_ok a p"
  then show ?thesis using Text_part by (auto simp: read_prop_def split: option.splits json.splits)
next
  case (List_part t k)
  assume "a = JObject qs" "part_ok a p"
  then show ?thesis using List_part str_array_strings by (simp add: read_prop_def)
next
  case (Step_part t k)
  assume a: "a = JObject qs" and ok: "part_ok a p"
  then obtain ps where st: "json_get a ''action_steps'' = Some (JObject ps)"
    using Step_part by (auto split: option.splits json.splits)
  then show ?thesis using Step_part ok a str_array_strings by (simp add: read_prop_def)
qed

lemma collect_parts_ok:
  "a = JObject qs \<Longrightarrow> list_all (part_ok a) ps \<Longrightarrow>
   collect_parts a ps = Inr (map (\<lambda>p. (part_title p, map (\<lambda>s. Some (JString s)) (part_texts a p))) ps)"
  by (induction ps) (simp_all add: part_children_ok)

lemma render_children_strings: "render_children (map (\<lambda>s. Some (JString s)) ss) = Inr ss"
  by (induction ss) simp_all

lemma render_sections_strings:
  "render_sections (map (\<lambda>p. (f p, map (\<lambda>s. Some (JString s)) (g p))) ps) = Inr (map (\<lambda>p. (f p, g p)) ps)"
  by (induction ps) (simp_all add: render_children_strings)

lemma list_part_missing:
  "List_part t k \<in> set plan_parts \<Longrightarrow> json_get a k = None \<Longrightarrow> \<exists>m. action_plan a = Inl m"
proof -
  assume p: "List_part t k \<in> set plan_parts" and none: "json_get a k = None"
  have "isl (part_children a (List_part t k))"
    using none by (simp add: read_prop_Some map_items_def)
  then obtain m where "part_children a (List_part t k) = Inl m"
    by (cases "part_children a (List_part t k)") auto
  then obtain m' where "collect_parts a plan_parts = Inl m'"
    using collect_parts_Inl[OF p] by blast
  then show ?thesis by (simp add: action_plan_def)
qed

lemma steps_missing:
  "json_get a ''action_steps'' = None \<Longrightarrow> \<exists>m. action_plan a = Inl m"
proof -
  assume none: "json_get a ''action_steps'' = None"
  have p: "Step_part ''Week 1'' ''week_1'' \<in> set plan_parts" by (simp add: plan_parts_def)
  have "isl (part_children a (Step_part ''Week 1'' ''week_1''))"
    using none by (simp add: read_prop_Some read_prop_None)
  then obtain m where "part_children a (Step_part ''Week 1'' ''week_1'') = Inl m"
    by (cases "part_children a (Step_part ''Week 1'' ''week_1'')") auto
  then obtain m' where "collect_parts a plan_parts = Inl m'"
    using collect_parts_Inl[OF p] by blast
  then show ?thesis by (simp add: action_plan_def)
qed

section \<open>Properties of the rendering\<close>

text \<open>
  C39. An analysis that lacks one of the list fields (or \<open>action_steps\<close>) makes the
  component throw, so the page is lost after the analysis was stored; the specification
  does not say what the view does with a result missing a section.
\<close>

lemma missing_list_crashes:
  "List_part t k \<in> set plan_parts \<or> k = ''action_steps'' \<Longrightarrow> json_get a k = None \<Longrightarrow>
   \<exists>m. action_plan a = Inl m"
  using list_part_missing steps_missing by blast

text \<open>
  C40. An analysis of the declared type renders without error, every section in the
  order of the JSX with exactly the texts of its field.
\<close>

lemma typed_analysis_renders: "analysis_ok a \<Longrightarrow> action_plan a = Inr (map (\<lambda>p. (part_title p, part_texts a p)) plan_parts)"
  unfolding analysis_ok_def action_plan_def
  by (auto split: json.splits simp: collect_parts_ok render_sections_strings)

section \<open>Witnesses\<close>

lemma missing_list_crashes_demo: "\<exists>m. action_plan ticker_only = Inl m"
  by (rule missing_list_crashes[where t = "''Focus Areas''" and k = "''focus_areas''"])
     (simp_all add: plan_parts_def ticker_only_def)

lemma typed_analysis_renders_demo:
  "action_plan full_analysis = Inr (map (\<lambda>p. (part_title p, part_texts full_analysis p)) plan_parts)"
  by (rule typed_analysis_renders) code_simp

end
