(* ===== verification/Spec2Isabelle.thy ===== *)
theory Spec2Isabelle
  imports Submission Relay ActionPlan
begin

text \<open>
  \<^bold>\<open>Dream Life Planner: a verification development.\<close>

  \<^medskip>
  \<^emph>\<open>The program.\<close> A React single-page form (\<open>src/src/App.tsx\<close> and the step
  components \<open>src/src/components/FormStep1.tsx\<close> .. \<open>FormStep5.tsx\<close>) collects an
  answer set in five gated steps; on submission it writes a plan row to a hosted
  database (\<open>src/src/lib/supabase.ts\<close>), posts the answers and a user-supplied key to
  an edge function (\<open>src/supabase/functions/analyze-plan/index.ts\<close>) that relays one
  request to a language-model API and extracts a JSON object from the reply, stores the
  analysis and renders it (\<open>src/src/components/ActionPlan.tsx\<close>).

  \<^medskip>
  \<^emph>\<open>The theories.\<close>
  \<^item> \<open>Prelude\<close>: the JavaScript runtime the sources rely on. Numbers are
    \<open>jsnum\<close> (exact reals with \<open>NaN\<close> and the two infinities; the rounding of
    doubles is not modelled), an instance of \<open>comm_monoid_add\<close> so that the library's
    sums apply to \<open>reduce((sum, val) => sum + val, 0)\<close>; truthiness; \<open>x || 0\<close> as
    \<open>or_zero\<close>; \<open>trim\<close>; \<open>parseFloat\<close> (ECMAScript's longest-prefix rule:
    sign, digits, fraction, exponent, \<open>Infinity\<close>); \<open>filter\<close> by index as
    \<open>remove_at\<close>; plain objects as insertion-ordered association lists
    (\<open>obj_set\<close> for \<open>{...m, [k]: v}\<close>, \<open>obj_delete\<close> for \<open>delete\<close>) with their
    refinement to maps (\<open>map_of\<close>); JSON values; ECMAScript's
    \<open>Number::toString\<close> as \<open>number_string\<close>, which prints a whole number below
    \<open>10^21\<close> as its decimal numeral (\<open>number_string_nat\<close>, \<open>number_string_int\<close>).
  \<^item> \<open>FormData\<close>: the answer set (\<open>FormData\<close> in \<open>App.tsx\<close>) as a record, its
    initial value, \<open>handleChange\<close> (one constructor of \<open>field_value\<close> per field
    name) and the gates \<open>isStepValid\<close>; \<open>group_of k\<close> is the part of the answer
    set that step \<open>k\<close> edits. Facts: a write touches only its own field's group, and a
    gate reads only its own group.
  \<^item> \<open>Steps\<close>: the five step components, each with its own event type
    (\<open>step1_event\<close> .. \<open>step5_event\<close>: the \<open>onChange\<close>/\<open>onClick\<close> handlers of its
    JSX), its local \<open>useState\<close> inputs (\<open>step3_locals\<close> .. \<open>step5_locals\<close>) and
    handler (\<open>formStep1\<close> .. \<open>formStep5\<close>, with \<open>addCostItem\<close>,
    \<open>removeCostItem\<close>, \<open>handleCurrentExpensesChange\<close>, \<open>financialGap\<close>,
    \<open>addFocusItem\<close> .. \<open>removeWinItem\<close>). Facts: each component writes only its
    own step's fields; step 3 keeps the dream-expense total equal to the sum of the cost
    items (and their names distinct); the list editors keep only trimmed, non-empty
    items; the total refines the sum over the cost dictionary.
  \<^item> \<open>Wizard\<close>: the \<open>App\<close> component as a state machine. \<open>app_state\<close> holds its
    React state and the local state of the mounted step component; \<open>ui_event\<close> is a
    user interaction or the settling of the asynchronous submission; \<open>app_step\<close>
    runs \<open>handleNext\<close>, \<open>handlePrevious\<close>, \<open>handleSubmit\<close> (its synchronous part:
    key check, \<open>isAnalyzing\<close>, capture of the answers) and \<open>submit_settled\<close> (its
    \<open>catch\<close>/\<open>finally\<close>), guarded by what the JSX renders and disables
    (\<open>next_enabled\<close>, \<open>previous_enabled\<close>, \<open>submit_enabled\<close>). \<open>reachable\<close> is
    the inductive set of states of a session. The invariant \<open>wizard_inv\<close>, by rule
    induction: the step stays in \<open>1..5\<close>; each passed step satisfies its gate; the
    cost and list invariants of \<open>Steps\<close>; \<open>isAnalyzing\<close> iff a submission is in
    flight; an in-flight submission carries a key and an answer set that passes all five
    gates. The settling of a submission is an event with any outcome, so these facts hold
    whatever the database and the relay answer.

  \<^item> \<open>Submission\<close>: the awaited part of \<open>handleSubmit\<close> (\<open>App.tsx\<close> lines
    120-177). A \<open>world\<close> fixes the answers of the database (plan insert, analysis
    insert, status update) and of the relay (\<open>relay_reply\<close>: rejected fetch, or status
    and body); \<open>submit_run\<close> returns the \<open>call\<close>s made, in order, with their JSON
    bodies (\<open>plan_row\<close>, \<open>relay_body\<close>, \<open>analysis_row\<close>; \<open>JSON.stringify\<close>
    drops \<open>undefined\<close> columns), and the outcome that the \<open>Settle\<close> event of
    \<open>Wizard\<close> consumes: the message of each \<open>throw\<close> through
    \<open>err.message || ...\<close>, or the analysis. The tables of \<open>supabase.ts\<close> are a
    \<open>store\<close> changed by the calls the world accepts (\<open>db_apply\<close>, from the spec's
    description of the store); \<open>store_ok\<close> is its integrity.
  \<^item> \<open>Relay\<close>: the edge function \<open>analyze-plan/index.ts\<close> as
    \<open>relay_handler parse up req\<close>, returning the outbound \<open>service_call\<close> (at most
    one) and the \<open>response\<close>. \<open>up\<close> is what the service answers (\<open>upstream\<close>),
    \<open>parse\<close> stands for \<open>JSON.parse\<close> (a parameter: every claim holds for every
    parser). The prompt template literal is \<open>prompt_template\<close>, a list of literal
    pieces and interpolations rendered left to right by \<open>render\<close> (with the
    \<open>TypeError\<close> of \<open>?.join\<close> on a non-array); \<open>content_text\<close> is
    \<open>data.content[0].text\<close>; \<open>close_len\<close> and \<open>brace_search\<close> are the
    backtracking search of \<open>/\{[\s\S]*\}/\<close>, and \<open>brace_span\<close> the
    specification's "first brace to last brace".
  \<^item> \<open>ActionPlan\<close>: \<open>ActionPlan.tsx\<close> as \<open>action_plan\<close>, from an analysis
    to the page's sections (heading and texts) or the exception that loses the page.
    \<open>plan_parts\<close> lists the sections in JSX order; \<open>part_children\<close> performs the
    component function's reads and \<open>.map\<close> calls (\<open>read_prop\<close>, \<open>map_items\<close>, with
    V8's \<open>TypeError\<close> messages); \<open>child_text\<close> is React's conversion of a child to
    text. \<open>analysis_ok\<close> is the declared type \<open>ActionPlanProps['analysis']\<close>.
  \<^item> This theory composes the client with the relay: \<open>client_request\<close> is the
    request \<open>handleSubmit\<close> sends, \<open>relay_to_client\<close> the reply as the client
    reads it.

  \<^medskip>
  \<^emph>\<open>Properties.\<close> In \<open>Wizard\<close> (C1..C7): a submission passes all five gates
  and has a key; step bounds and passed gates; the cost total; "Next" is gated exactly by
  the current step's gate; no submission without a key; \<open>isAnalyzing\<close> iff in flight;
  list items trimmed and non-empty. Their hypotheses are discharged at the states after
  a scripted session (\<open>demo_filled\<close>, \<open>demo_state\<close>), evaluated by the simplifier.
  In \<open>Steps\<close> (C8..C14): the cost editor refines a dictionary with its sum;
  the displayed gap; typing a whole number up to \<open>2^53\<close> stores exactly it and
  nothing else (\<open>parseFloat\<close> of the decimal numeral, exact in doubles up to that
  bound); unparsable entries store 0; blank list items are ignored; removal by
  position. In \<open>Submission\<close> (C15..C24): the calls are a prefix of the fixed
  sequence; success only after both rows are stored; the same gap in both requests;
  when the inserts are accepted and the relay returns an analysis, a failed status
  update still ends in success with the plan row left analyzing; the store's integrity for any world; a failure
  leaves one analyzing row and no analysis; retries insert new rows; the relay's error
  message, a failed plan insert and a reply without analysis end the sequence as the
  source says. Their witnesses run \<open>submit_run\<close> in concrete worlds
  (\<open>demo_world\<close>, \<open>offline_world\<close>, \<open>rejected_world\<close>).
  In \<open>Relay\<close> (C25..C30, C32, C34): the backtracking match equals the first-to-last brace
  span (by induction on the reply, through the characterisation of \<open>close_len\<close> by
  the last \<open>}\<close>); a match is a substring from \<open>{\<close> to \<open>}\<close>; the missing
  key (400, no call), the upstream error (status kept, message prefixed), no block
  (500) and success (200 with the analysis) (a block that does not parse gives 500 with
  the parser's message, \<open>relay_parse_failure\<close>); the
  service is called only with a truthy key; every interpolated text answer is in the
  prompt (C33, in \<open>Wizard\<close>, is liveness: from every reachable state with answers
  passing all gates, a short sequence of clicks starts their submission). Their witnesses use \<open>demo_request\<close>
  and a table \<open>demo_parse\<close> for the parser. Here (C31, C35..C38): the prompt sent
  for a client submission prints whole-dollar expenses as their numerals and the gap the
  client computed as a signed integer (the template's pieces \<open>amount_pieces\<close>,
  rendered through \<open>Number::toString\<close>); the client never meets
  the relay's missing-key branch; the prompt reads every key the client sends except
  \<open>monthly_costs\<close>; an analysis returned by the relay is what the wizard shows; the
  service's rejection reaches the error banner with the relay's prefix.

  In \<open>ActionPlan\<close> (C39..C40): an analysis missing a list field or
  \<open>action_steps\<close> loses the page; an analysis of the declared type renders every
  section with exactly its texts (witnessed on \<open>full_analysis\<close> by
  \<open>code_simp\<close>, and the crash on \<open>ticker_only\<close>).

  \<^medskip>
  \<^emph>\<open>Coverage.\<close> Every source file under \<open>src/\<close> with behaviour is modelled;
  \<open>supabase.ts\<close> only creates the library client and declares the row types, which
  \<open>Submission\<close> uses as the shape of the store.

  \<^medskip>
  \<^emph>\<open>Not modelled.\<close> The styling and static text of the JSX; the rounding of
  doubles (sums are exact; the differences stated by C10, C17 and C31 are the
  program's own for amounts whose difference a double holds exactly, e.g. below
  \<open>2^53\<close>, and otherwise the program's value is that difference rounded); Unicode beyond 8-bit characters; React's batching of
  several clicks before one re-render (a second click on "Generate" in the same frame);
  the supabase client library itself (\<open>createClient\<close>), the network and the model;
  \<open>JSON.parse\<close> and \<open>JSON.stringify\<close> themselves (the relay takes the parser as
  a parameter, and a body the client sends is read back by the relay as the same JSON
  value); the HTTP headers of the outbound call other than the key.

  \<^medskip>
  \<^emph>\<open>Termination and fuel.\<close> Every loop of the sources (\<open>.map\<close>, \<open>.filter\<close>,
  \<open>.reduce\<close>, \<open>.join\<close>, the evaluation of the template, the regular-expression
  search) is modelled by structural recursion over a list or a string, total by
  construction, so no termination property is stated. The one bound is the runtime's:
  \<open>dec_scale\<close> in \<open>Number::toString\<close> looks for at most 40 fractional digits,
  enough for every amount typed with at most 40 decimals and for sums and differences
  of them; whole amounts need none (\<open>number_string_nat\<close>).
\<close>

section \<open>The client and the relay together\<close>

text \<open>
  The request the client's \<open>fetch\<close> sends (\<open>App.tsx\<close> lines 136-145: a POST whose
  body is the JSON of \<open>relay_body\<close>, read back by the relay's \<open>req.json()\<close>), and
  the reply as the client reads it (\<open>response.ok\<close> from the status,
  \<open>response.json()\<close> of the body; the preflight's \<open>null\<close> body does not parse).
\<close>

definition client_request :: "pending_submit \<Rightarrow> request" where
  "client_request p = \<lparr>req_method = ''POST'', req_body = Inr (relay_body p)\<rparr>"

definition relay_to_client :: "response \<Rightarrow> relay_reply" where
  "relay_to_client r =
     Http_reply (status r) (case resp_body r of Some b \<Rightarrow> Inr b | None \<Rightarrow> Inl ''Unexpected end of JSON input'')"

text \<open>The answer keys the prompt template reads.\<close>

definition prompt_reads :: "string \<Rightarrow> bool" where
  "prompt_reads k = (Field k \<in> set prompt_template \<or> Joined k \<in> set prompt_template \<or> Yes_no k \<in> set prompt_template)"

text \<open>A database that accepts every call, with the relay's response as the reply.\<close>

definition e2e_world :: "response \<Rightarrow> world" where
  "e2e_world r = \<lparr>plan_insert = Inr ''p1'', relay = relay_to_client r, analysis_insert = None, status_update = None\<rparr>"

text \<open>The template's pieces around the amounts (\<open>index.ts\<close> lines 71--77).\<close>

definition amount_pieces :: "piece list" where
  "amount_pieces =
     [Lit (text_lines ['''', ''- Current expenses: $'']), Field ''current_expenses'',
      Lit (text_lines [''/month'', ''- Dream expenses: $'']), Field ''dream_expenses'',
      Lit (text_lines [''/month'', ''- Financial gap: $'']), Field ''financial_gap'',
      Lit (text_lines [''/month'', '''', ''## 4. FOCUS & ENVIRONMENT'', ''- Daily focus areas: ''])]"

section \<open>Facts\<close>

lemma joined_keys: "Joined f \<in> set prompt_template \<Longrightarrow> f \<in> {''daily_focus'', ''things_to_cut'', ''daily_wins''}"
  by (simp add: prompt_template_def)

lemma client_join_ok: assumes "f \<in> {''daily_focus'', ''things_to_cut'', ''daily_wins''}"
  shows "join_ok (json_get (JObject (form_json fd @ [(''financial_gap'', g)])) f)"
proof -
  from assms consider "f = ''daily_focus''" | "f = ''things_to_cut''" | "f = ''daily_wins''" by blast
  then show ?thesis by cases (simp_all add: form_json_def join_ok_def strs_json_def)
qed

lemma client_plan_prompt:
  "\<exists>pr. build_prompt (Some (JObject (form_json fd @ [(''financial_gap'', g)]))) = Inr pr"
proof -
  have "\<exists>pr. render (JObject (form_json fd @ [(''financial_gap'', g)])) prompt_template = Inr pr"
    by (rule render_ok) (rule client_join_ok, rule joined_keys)
  then show ?thesis by (simp add: build_prompt_def)
qed

lemma client_read_request:
  "read_request (req_body (client_request p)) =
     Inr (Some (JObject (form_json (sub_formData p) @ [(''financial_gap'', num_json (plan_gap (sub_formData p)))])),
          Some (JString (sub_apiKey p)))"
  by (simp add: client_request_def read_request_def relay_body_def)

lemma pending_key: "reachable s \<Longrightarrow> pending s = Some p \<Longrightarrow> sub_apiKey p \<noteq> []"
  using reachable_wizard_inv[of s] by (auto simp: wizard_inv_def str_truthy_def)

lemma client_relay_prompt:
  "sub_apiKey p \<noteq> [] \<Longrightarrow>
   build_prompt (Some (JObject (form_json (sub_formData p) @ [(''financial_gap'', num_json (plan_gap (sub_formData p)))]))) = Inr pr \<Longrightarrow>
   relay_handler parse up (client_request p) =
     (Some \<lparr>api_key = sub_apiKey p, call_body = claude_body pr\<rparr>, relay_reply parse up)"
  using client_read_request[of p] by (auto simp: relay_handler_def key_truthy_def client_request_def)

lemma client_relay_reply:
  "sub_apiKey p \<noteq> [] \<Longrightarrow>
   \<exists>pr. relay_handler parse up (client_request p) =
          (Some \<lparr>api_key = sub_apiKey p, call_body = claude_body pr\<rparr>, relay_reply parse up)"
  using client_plan_prompt client_relay_prompt by blast

lemma demo_pending_state: "pending demo_state = Some \<lparr>sub_formData = demo_form, sub_apiKey = ''sk-ant''\<rparr>"
  by (simp add: demo_state_eq)

lemma demo_relay_ok: "relay_reply demo_parse (Up_reply 200 ''reply'') = json_response 200 (JObject [(''analysis'', JObject [])])"
  by (simp add: relay_reply_def http_ok_def demo_parse_def content_text_def demo_reply_def)

lemma sublist_middle: "zs = xs @ ys @ ws \<Longrightarrow> sublist ys zs"
  by (simp add: sublist_appendI)

lemma render_append:
  "render pd (xs @ ys) =
     (case render pd xs of Inl e \<Rightarrow> Inl e | Inr a \<Rightarrow> (case render pd ys of Inl e \<Rightarrow> Inl e | Inr b \<Rightarrow> Inr (a @ b)))"
  by (induction xs) (auto split: sum.splits)

lemma render_sublist:
  assumes "render pd ps = Inr pr" "sublist qs ps" "render pd qs = Inr r"
  shows "sublist r pr"
proof -
  obtain xs ys where ps: "ps = xs @ qs @ ys" using assms(2) by (auto simp: sublist_def)
  then show ?thesis using assms(1,3) by (auto simp: render_append split: sum.splits)
qed

lemma amount_pieces_sublist: "sublist amount_pieces prompt_template"
  unfolding prompt_template_def amount_pieces_def by (simp add: sublist_Cons_right)

lemma client_amounts:
  fixes fd :: form_data
  defines "pd \<equiv> JObject (form_json fd @ [(''financial_gap'', num_json (plan_gap fd))])"
  assumes c: "current_expenses fd = Num (real c)" and d: "dream_expenses fd = Num (real d)"
    and lt: "c < 10 ^ 21" "d < 10 ^ 21"
  shows "render pd amount_pieces =
     Inr ([CHR 0x0A] @ ''- Current expenses: $'' @ decimal c @ ''/month'' @ [CHR 0x0A] @
          ''- Dream expenses: $'' @ decimal d @ ''/month'' @ [CHR 0x0A] @
          ''- Financial gap: $'' @ int_string (int d - int c) @ ''/month'' @ [CHR 0x0A] @ [CHR 0x0A] @
          ''## 4. FOCUS & ENVIRONMENT'' @ [CHR 0x0A] @ ''- Daily focus areas: '')"
proof -
  have g: "plan_gap fd = Num (of_int (int d - int c))" using c d by (simp add: plan_gap_def or_zero_Num)
  have "int c < 10 ^ 21" "int d < 10 ^ 21" using lt by (metis of_nat_less_iff of_nat_numeral of_nat_power)+
  then have "\<bar>int d - int c\<bar> < 10 ^ 21" by linarith
  then have gs: "number_string (of_int (int d - int c)) = int_string (int d - int c)" by (rule number_string_int)
  have cs: "number_string (real c) = decimal c" "number_string (real d) = decimal d"
    using lt by (simp_all add: number_string_nat)
  have gets: "json_get pd ''current_expenses'' = Some (JNumber (real c))"
    "json_get pd ''dream_expenses'' = Some (JNumber (real d))"
    "json_get pd ''financial_gap'' = Some (JNumber (of_int (int d - int c)))"
    using c d g by (simp_all add: pd_def form_json_def)
  show ?thesis using gets cs gs by (simp add: amount_pieces_def text_lines_def)
qed

section \<open>Properties across components\<close>

text \<open>
  C35. The client never reaches the relay's missing-key branch: for every submission in
  flight in a reachable state, the relay calls the service, with the key the user
  entered.
\<close>

lemma client_relay_calls:
  "reachable s \<Longrightarrow> pending s = Some p \<Longrightarrow>
   \<exists>pr. fst (relay_handler parse up (client_request p)) =
          Some \<lparr>api_key = sub_apiKey p, call_body = claude_body pr\<rparr>"
proof -
  assume "reachable s" "pending s = Some p"
  then obtain pr where "relay_handler parse up (client_request p) =
      (Some \<lparr>api_key = sub_apiKey p, call_body = claude_body pr\<rparr>, relay_reply parse up)"
    using client_relay_reply[OF pending_key] by blast
  then show ?thesis by auto
qed

text \<open>
  C36. Of the keys the client sends as \<open>planData\<close>, the prompt reads every one except
  \<open>monthly_costs\<close>: the cost items never reach the prompt, although the specification
  says every answer is interpolated.
\<close>

lemma prompt_covers_plan:
  "k \<in> fst ` set (form_json fd @ [(''financial_gap'', g)]) \<Longrightarrow> prompt_reads k \<longleftrightarrow> k \<noteq> ''monthly_costs''"
  by (auto simp: prompt_reads_def prompt_template_def form_json_def)

text \<open>
  C37. End to end: when the relay answers 200 with an analysis and the database accepts
  the rows, settling the submission shows that analysis and ends the analyzing state.
\<close>

lemma end_to_end_success:
  "reachable s \<Longrightarrow> pending s = Some p \<Longrightarrow>
   relay_handler parse up (client_request p) = (Some c, json_response 200 (JObject [(''analysis'', a)])) \<Longrightarrow>
   a \<noteq> JNull \<Longrightarrow> plan_insert w = Inr pid \<Longrightarrow> analysis_insert w = None \<Longrightarrow>
   relay w = relay_to_client (snd (relay_handler parse up (client_request p))) \<Longrightarrow>
   analysis (app_step s (Settle (snd (submit_run w p)))) = a \<and> \<not> isAnalyzing (app_step s (Settle (snd (submit_run w p))))"
  by (cases a) (simp_all add: submit_run_def relay_to_client_def json_response_def http_ok_def
      read_analysis_def submit_settled_def)

text \<open>
  C38. End to end: when the service rejects the request, the client's error banner shows
  the service's body behind the relay's \<open>Claude API error: \<close> prefix.
\<close>

lemma end_to_end_upstream_error:
  "reachable s \<Longrightarrow> pending s = Some p \<Longrightarrow> \<not> http_ok st \<Longrightarrow> plan_insert w = Inr pid \<Longrightarrow>
   relay w = relay_to_client (snd (relay_handler parse (Up_reply st reply_text) (client_request p))) \<Longrightarrow>
   error (app_step s (Settle (snd (submit_run w p)))) = ''Claude API error: '' @ reply_text"
proof -
  assume r: "reachable s" "pending s = Some p" and st: "\<not> http_ok st" and w: "plan_insert w = Inr pid"
    and rel: "relay w = relay_to_client (snd (relay_handler parse (Up_reply st reply_text) (client_request p)))"
  obtain pr where "relay_handler parse (Up_reply st reply_text) (client_request p) =
      (Some \<lparr>api_key = sub_apiKey p, call_body = claude_body pr\<rparr>, relay_reply parse (Up_reply st reply_text))"
    using client_relay_reply[OF pending_key[OF r]] by blast
  then have "snd (relay_handler parse (Up_reply st reply_text) (client_request p)) =
      error_response st (''Claude API error: '' @ reply_text)"
    using st by (simp add: relay_reply_def)
  then show ?thesis using rel w st r(2)
    by (simp add: submit_run_def relay_to_client_def error_response_def json_response_def
        relay_error_message_def shown_message_def submit_settled_def)
qed

text \<open>
  C31. The prompt the relay sends for a client submission prints the amounts as the user
  typed them: whole-dollar current and dream expenses as their decimal numerals, and the
  gap the client computed as a signed integer, each followed by \<open>/month\<close>.
\<close>

theorem prompt_prints_amounts:
  "sub_apiKey p \<noteq> [] \<Longrightarrow> current_expenses (sub_formData p) = Num (real c) \<Longrightarrow>
   dream_expenses (sub_formData p) = Num (real d) \<Longrightarrow> c < 10 ^ 21 \<Longrightarrow> d < 10 ^ 21 \<Longrightarrow>
   \<exists>pr. fst (relay_handler parse up (client_request p)) = Some \<lparr>api_key = sub_apiKey p, call_body = claude_body pr\<rparr> \<and>
     sublist (''- Current expenses: $'' @ decimal c @ ''/month'' @ [CHR 0x0A] @
              ''- Dream expenses: $'' @ decimal d @ ''/month'' @ [CHR 0x0A] @
              ''- Financial gap: $'' @ int_string (int d - int c) @ ''/month'') pr"
proof -
  assume k: "sub_apiKey p \<noteq> []" and c: "current_expenses (sub_formData p) = Num (real c)"
    and d: "dream_expenses (sub_formData p) = Num (real d)" and lt: "c < 10 ^ 21" "d < 10 ^ 21"
  define pd where "pd = JObject (form_json (sub_formData p) @ [(''financial_gap'', num_json (plan_gap (sub_formData p)))])"
  obtain pr where bp: "build_prompt (Some pd) = Inr pr" using client_plan_prompt unfolding pd_def by blast
  then have "render pd prompt_template = Inr pr" by (simp add: build_prompt_def pd_def)
  from render_sublist[OF this amount_pieces_sublist client_amounts[OF c d lt, folded pd_def]]
  have "sublist ([CHR 0x0A] @ ''- Current expenses: $'' @ decimal c @ ''/month'' @ [CHR 0x0A] @
          ''- Dream expenses: $'' @ decimal d @ ''/month'' @ [CHR 0x0A] @
          ''- Financial gap: $'' @ int_string (int d - int c) @ ''/month'' @ [CHR 0x0A] @ [CHR 0x0A] @
          ''## 4. FOCUS & ENVIRONMENT'' @ [CHR 0x0A] @ ''- Daily focus areas: '') pr" .
  moreover have "sublist (''- Current expenses: $'' @ decimal c @ ''/month'' @ [CHR 0x0A] @
              ''- Dream expenses: $'' @ decimal d @ ''/month'' @ [CHR 0x0A] @
              ''- Financial gap: $'' @ int_string (int d - int c) @ ''/month'')
          ([CHR 0x0A] @ ''- Current expenses: $'' @ decimal c @ ''/month'' @ [CHR 0x0A] @
          ''- Dream expenses: $'' @ decimal d @ ''/month'' @ [CHR 0x0A] @
          ''- Financial gap: $'' @ int_string (int d - int c) @ ''/month'' @ [CHR 0x0A] @ [CHR 0x0A] @
          ''## 4. FOCUS & ENVIRONMENT'' @ [CHR 0x0A] @ ''- Daily focus areas: '')"
    by (rule sublist_middle[where xs = "[CHR 0x0A]"
        and ws = "[CHR 0x0A] @ [CHR 0x0A] @ ''## 4. FOCUS & ENVIRONMENT'' @ [CHR 0x0A] @ ''- Daily focus areas: ''"]) simp
  ultimately have "sublist (''- Current expenses: $'' @ decimal c @ ''/month'' @ [CHR 0x0A] @
              ''- Dream expenses: $'' @ decimal d @ ''/month'' @ [CHR 0x0A] @
              ''- Financial gap: $'' @ int_string (int d - int c) @ ''/month'') pr"
    by (rule sublist_order.order.trans[rotated])
  moreover have "fst (relay_handler parse up (client_request p)) = Some \<lparr>api_key = sub_apiKey p, call_body = claude_body pr\<rparr>"
    using client_relay_prompt[OF k bp[unfolded pd_def]] by simp
  ultimately show ?thesis by blast
qed

section \<open>Witnesses\<close>

lemma prompt_prints_amounts_demo:
  "\<exists>pr. fst (relay_handler demo_parse (Up_reply 200 ''reply'') (client_request \<lparr>sub_formData = demo_form, sub_apiKey = ''sk-ant''\<rparr>)) =
          Some \<lparr>api_key = ''sk-ant'', call_body = claude_body pr\<rparr> \<and>
     sublist (''- Current expenses: $6000/month'' @ [CHR 0x0A] @ ''- Dream expenses: $2000/month'' @ [CHR 0x0A] @
              ''- Financial gap: $-4000/month'') pr"
  using prompt_prints_amounts[of "\<lparr>sub_formData = demo_form, sub_apiKey = ''sk-ant''\<rparr>" 6000 2000 demo_parse "Up_reply 200 ''reply''"]
  by (simp add: demo_form_def int_string_def decimal.simps)

lemma client_relay_calls_demo: "\<exists>pr. fst (relay_handler demo_parse (Up_reply 200 ''reply'') (client_request \<lparr>sub_formData = demo_form, sub_apiKey = ''sk-ant''\<rparr>)) =
          Some \<lparr>api_key = ''sk-ant'', call_body = claude_body pr\<rparr>"
  using client_relay_calls[OF reachable_demo_state demo_pending_state] by simp

lemma prompt_covers_plan_demo: "prompt_reads ''dream_day'' \<and> \<not> prompt_reads ''monthly_costs''"
  using prompt_covers_plan[of "''dream_day''" initial_form_data JNull]
    prompt_covers_plan[of "''monthly_costs''" initial_form_data JNull]
  by (simp add: form_json_def)

lemma end_to_end_success_demo:
  "analysis (app_step demo_state (Settle (snd (submit_run (e2e_world (json_response 200 (JObject [(''analysis'', JObject [])])))
      \<lparr>sub_formData = demo_form, sub_apiKey = ''sk-ant''\<rparr>)))) = JObject [] \<and>
   \<not> isAnalyzing (app_step demo_state (Settle (snd (submit_run (e2e_world (json_response 200 (JObject [(''analysis'', JObject [])])))
      \<lparr>sub_formData = demo_form, sub_apiKey = ''sk-ant''\<rparr>))))"
proof -
  obtain pr where pr: "relay_handler demo_parse (Up_reply 200 ''reply'') (client_request \<lparr>sub_formData = demo_form, sub_apiKey = ''sk-ant''\<rparr>) =
      (Some \<lparr>api_key = ''sk-ant'', call_body = claude_body pr\<rparr>, json_response 200 (JObject [(''analysis'', JObject [])]))"
    using client_relay_reply[of "\<lparr>sub_formData = demo_form, sub_apiKey = ''sk-ant''\<rparr>" demo_parse "Up_reply 200 ''reply''"]
    by (auto simp: demo_relay_ok)
  show ?thesis
    using end_to_end_success[OF reachable_demo_state demo_pending_state pr,
        where w = "e2e_world (json_response 200 (JObject [(''analysis'', JObject [])]))" and pid = "''p1''"] pr
    by (simp add: e2e_world_def)
qed

lemma end_to_end_upstream_error_demo:
  "error (app_step demo_state (Settle (snd (submit_run
      (e2e_world (snd (relay_handler demo_parse (Up_reply 401 ''invalid x-api-key'')
         (client_request \<lparr>sub_formData = demo_form, sub_apiKey = ''sk-ant''\<rparr>))))
      \<lparr>sub_formData = demo_form, sub_apiKey = ''sk-ant''\<rparr>)))) = ''Claude API error: invalid x-api-key''"
  using end_to_end_upstream_error[OF reachable_demo_state demo_pending_state,
      where st = 401 and pid = "''p1''" and parse = demo_parse and reply_text = "''invalid x-api-key''"
      and w = "e2e_world (snd (relay_handler demo_parse (Up_reply 401 ''invalid x-api-key'')
         (client_request \<lparr>sub_formData = demo_form, sub_apiKey = ''sk-ant''\<rparr>)))"]
  by (simp add: e2e_world_def http_ok_def)

end
